theory Spec2Isabelle
  imports Main "HOL-Library.Word"
begin

section \<open>Common data\<close>

text \<open>
  Public identities and secrets are base58 strings. Strings are lists of code units
  below 256; lamport amounts are natural numbers (the program's
  \<^verbatim>\<open>number\<close>s are exact on the integers below \<open>2^53\<close>, the range of
  every lamport amount a ledger can report for one account). A token amount is an
  unsigned 64-bit integer read from the account data; where the program converts it
  to a \<^verbatim>\<open>number\<close> the conversion \<open>js_number\<close> below is applied.

  A thrown JavaScript value is either an \<^verbatim>\<open>Error\<close> carrying a message or
  some other value without a message. The remote calls reject with objects, never
  with \<^verbatim>\<open>null\<close> or \<^verbatim>\<open>undefined\<close>, so reading the message of a caught
  value does not itself throw.
\<close>

type_synonym pubkey = string

datatype exn = Error string | Thrown

section \<open>The wallet store (src/wallet-manager.ts)\<close>

record WalletInfo =
  privateKey :: string
  publicKey :: string
  balance :: nat
  rentExemptBalance :: nat
  rentAmount :: nat
  canClose :: bool

subsection \<open>String operations used by the loader\<close>

text \<open>\<^verbatim>\<open>String.prototype.trim\<close> strips white space and line terminators; on code
  units below 256 these are TAB, LF, VT, FF, CR, SPACE and NBSP.\<close>

definition is_ws :: "char \<Rightarrow> bool" where
  "is_ws c = (c \<in> {CHR 0x09, CHR 0x0A, CHR 0x0B, CHR 0x0C, CHR 0x0D, CHR 0x20, CHR 0xA0})"

definition trim :: "string \<Rightarrow> string" where
  "trim s = rev (dropWhile is_ws (rev (dropWhile is_ws s)))"

text \<open>\<^verbatim>\<open>content.split('\n')\<close>: the empty string gives one empty piece.\<close>

fun split_nl :: "string \<Rightarrow> string list" where
  "split_nl [] = [[]]"
| "split_nl (c # cs) =
     (if c = CHR 0x0A then [] # split_nl cs
      else (case split_nl cs of
              [] \<Rightarrow> [[c]]
            | l # ls \<Rightarrow> (c # l) # ls))"

fun starts_with :: "string \<Rightarrow> string \<Rightarrow> bool" where
  "starts_with s [] = True"
| "starts_with [] (p # ps) = False"
| "starts_with (c # cs) (p # ps) = (c = p \<and> starts_with cs ps)"

text \<open>\<^verbatim>\<open>s.includes(sub)\<close>.\<close>

fun str_includes :: "string \<Rightarrow> string \<Rightarrow> bool" where
  "str_includes [] sub = (sub = [])"
| "str_includes (c # cs) sub = (starts_with (c # cs) sub \<or> str_includes cs sub)"

definition looks_like_private_key :: "string \<Rightarrow> bool" where
  "looks_like_private_key line = (length line \<ge> 80 \<and> length line \<le> 90)"

definition looks_like_address :: "string \<Rightarrow> bool" where
  "looks_like_address line = (length line \<ge> 40 \<and> length line \<le> 50)"

subsection \<open>Parsing the structured format\<close>

definition SEC_PRIVATE_KEYS :: string where
  "SEC_PRIVATE_KEYS = ''PRIVATE KEYS:''"

definition SEC_WALLET_ADDRESSES :: string where
  "SEC_WALLET_ADDRESSES = ''WALLET ADDRESSES:''"

definition SEC_PRIVATE_KEYS_ADDRESS :: string where
  "SEC_PRIVATE_KEYS_ADDRESS = ''PRIVATE KEYS / ADDRESS:''"

text \<open>The loop over the lines of a structured file; the state is
  \<^verbatim>\<open>currentSection\<close>, \<^verbatim>\<open>privateKeys\<close> and \<^verbatim>\<open>walletAddresses\<close>.\<close>

fun parse_structured ::
  "string list \<Rightarrow> string \<Rightarrow> string list \<Rightarrow> string list \<Rightarrow> string list \<times> string list" where
  "parse_structured [] currentSection privateKeys walletAddresses =
     (privateKeys, walletAddresses)"
| "parse_structured (line # rest) currentSection privateKeys walletAddresses =
     (if line = SEC_PRIVATE_KEYS \<or> line = SEC_WALLET_ADDRESSES \<or> line = SEC_PRIVATE_KEYS_ADDRESS
      then parse_structured rest line privateKeys walletAddresses
      else if currentSection = SEC_PRIVATE_KEYS then
        (if looks_like_private_key line
         then parse_structured rest currentSection (privateKeys @ [line]) walletAddresses
         else parse_structured rest currentSection privateKeys walletAddresses)
      else if currentSection = SEC_WALLET_ADDRESSES then
        (if looks_like_address line
         then parse_structured rest currentSection privateKeys (walletAddresses @ [line])
         else parse_structured rest currentSection privateKeys walletAddresses)
      else if currentSection = SEC_PRIVATE_KEYS_ADDRESS then
        (if looks_like_private_key line
         then parse_structured rest currentSection (privateKeys @ [line]) walletAddresses
         else if looks_like_address line \<and> privateKeys \<noteq> []
         then parse_structured rest currentSection privateKeys (walletAddresses @ [line])
         else parse_structured rest currentSection privateKeys walletAddresses)
      else parse_structured rest currentSection privateKeys walletAddresses)"

definition parse_wallet_file :: "string \<Rightarrow> string list \<times> string list" where
  "parse_wallet_file content =
     (let lines = filter (\<lambda>line. length line > 0) (map trim (split_nl content)) in
      if str_includes content SEC_PRIVATE_KEYS \<or> str_includes content SEC_WALLET_ADDRESSES
           \<or> str_includes content SEC_PRIVATE_KEYS_ADDRESS
      then parse_structured lines [] [] []
      else (filter looks_like_private_key lines, []))"

subsection \<open>The insertion-ordered map used for deduplication\<close>

text \<open>A JavaScript \<^verbatim>\<open>Map\<close> keeps its keys in the order of their first insertion;
  setting an existing key replaces the value in place. The values are
  \<^verbatim>\<open>{ privateKey, publicKey }\<close> pairs.\<close>

type_synonym keymap = "(string \<times> (string \<times> string)) list"

fun map_set :: "'k \<Rightarrow> 'v \<Rightarrow> ('k \<times> 'v) list \<Rightarrow> ('k \<times> 'v) list" where
  "map_set k v [] = [(k, v)]"
| "map_set k v (p # ps) = (if fst p = k then (k, v) # ps else p # map_set k v ps)"

definition map_has :: "('k \<times> 'v) list \<Rightarrow> 'k \<Rightarrow> bool" where
  "map_has m k = (k \<in> set (map fst m))"

definition map_values :: "('k \<times> 'v) list \<Rightarrow> 'v list" where
  "map_values m = map snd m"

text \<open>\<^verbatim>\<open>this.wallets.forEach(wallet => uniqueWallets.set(wallet.publicKey, ...))\<close>.\<close>

definition existing_keymap :: "WalletInfo list \<Rightarrow> keymap" where
  "existing_keymap wallets =
     fold (\<lambda>wallet m. map_set (publicKey wallet) (privateKey wallet, publicKey wallet) m)
       wallets []"

text \<open>The loop over the parsed private keys. \<open>keypairFromSecret\<close> is
  \<^verbatim>\<open>Keypair.fromSecretKey(bs58.decode(privateKey)).publicKey.toString()\<close>, which
  throws on a string that is not a key (\<open>None\<close>). The loop returns the map and the
  list \<^verbatim>\<open>duplicates\<close>.\<close>

fun dedupe_keys ::
  "(string \<Rightarrow> pubkey option) \<Rightarrow> string list \<Rightarrow> keymap \<Rightarrow> pubkey list
     \<Rightarrow> exn + (keymap \<times> pubkey list)" where
  "dedupe_keys keypairFromSecret [] uniqueWallets duplicates = Inr (uniqueWallets, duplicates)"
| "dedupe_keys keypairFromSecret (pk # rest) uniqueWallets duplicates =
     (case keypairFromSecret pk of
        None \<Rightarrow> Inl (Error ''Invalid private key'')
      | Some pub \<Rightarrow>
          if map_has uniqueWallets pub
          then dedupe_keys keypairFromSecret rest uniqueWallets (duplicates @ [pub])
          else if find (\<lambda>w. fst w = pk) (map_values uniqueWallets) \<noteq> None
          then dedupe_keys keypairFromSecret rest uniqueWallets (duplicates @ [pub])
          else dedupe_keys keypairFromSecret rest (map_set pub (pk, pub) uniqueWallets) duplicates)"

definition fresh_wallet :: "string \<times> string \<Rightarrow> WalletInfo" where
  "fresh_wallet kp =
     \<lparr> privateKey = fst kp, publicKey = snd kp, balance = 0, rentExemptBalance = 0,
       rentAmount = 0, canClose = False \<rparr>"

subsection \<open>The operations of \<^verbatim>\<open>WalletManager\<close>\<close>

text \<open>
  \<open>loadWalletsFromFile\<close> takes the file system (a path has a content or does not
  exist) and the store \<^verbatim>\<open>this.wallets\<close>, and returns the value returned or the
  exception thrown together with the store afterwards. Console output is not part of
  the model.
\<close>

definition loadWalletsFromFile ::
  "(string \<Rightarrow> pubkey option) \<Rightarrow> (string \<Rightarrow> string option) \<Rightarrow> string \<Rightarrow> bool
     \<Rightarrow> WalletInfo list \<Rightarrow> (exn + WalletInfo list) \<times> WalletInfo list" where
  "loadWalletsFromFile keypairFromSecret fs filePath clearExisting wallets =
     (case fs filePath of
        None \<Rightarrow> (Inl (Error ''Wallet file not found''), wallets)
      | Some content \<Rightarrow>
          let privateKeys = fst (parse_wallet_file content) in
          if length privateKeys = 0
          then (Inl (Error ''No valid private keys found in file''), wallets)
          else
            let wallets1 = (if clearExisting then [] else wallets) in
            (case dedupe_keys keypairFromSecret privateKeys (existing_keymap wallets1) [] of
               Inl e \<Rightarrow> (Inl e, wallets1)
             | Inr (uniqueWallets, duplicates) \<Rightarrow>
                 let wallets2 = map fresh_wallet (map_values uniqueWallets)
                 in (Inr wallets2, wallets2)))"

definition getWallets :: "WalletInfo list \<Rightarrow> WalletInfo list" where
  "getWallets wallets = wallets"

definition updateWalletInfo ::
  "int \<Rightarrow> nat \<Rightarrow> nat \<Rightarrow> nat \<Rightarrow> bool \<Rightarrow> WalletInfo list \<Rightarrow> WalletInfo list" where
  "updateWalletInfo index bal rentExempt rentAmt canCl wallets =
     (if index \<ge> 0 \<and> index < int (length wallets)
      then wallets[nat index := (wallets ! nat index)
             \<lparr> balance := bal, rentExemptBalance := rentExempt,
               rentAmount := rentAmt, canClose := canCl \<rparr>]
      else wallets)"

definition getWallet :: "int \<Rightarrow> WalletInfo list \<Rightarrow> WalletInfo option" where
  "getWallet index wallets =
     (if index \<ge> 0 \<and> index < int (length wallets) then Some (wallets ! nat index) else None)"

definition getWalletCount :: "WalletInfo list \<Rightarrow> nat" where
  "getWalletCount wallets = length wallets"

text \<open>The \<^verbatim>\<open>load-wallets\<close> handler of the shell loads the selected files one
  after the other into the same store; a file that fails to load is skipped.\<close>

fun load_wallets ::
  "(string \<Rightarrow> pubkey option) \<Rightarrow> (string \<Rightarrow> string option) \<Rightarrow> string list
     \<Rightarrow> WalletInfo list \<Rightarrow> WalletInfo list" where
  "load_wallets keypairFromSecret fs [] wallets = wallets"
| "load_wallets keypairFromSecret fs (filePath # rest) wallets =
     load_wallets keypairFromSecret fs rest
       (snd (loadWalletsFromFile keypairFromSecret fs filePath False wallets))"

section \<open>Effects: remote calls, delays, exceptions\<close>

text \<open>
  The ledger is an external collaborator. A remote call takes the state of the outside
  world and returns either the value of the resolved promise or the value it rejects
  with, and the world afterwards. A computation of the program additionally emits a
  sequence of observable events: the pacing delays, every transaction handed to
  \<^verbatim>\<open>sendAndConfirmTransaction\<close>, the progress events, and the
  \<^verbatim>\<open>Method n failed\<close> log lines of the discovery. A promise that never settles is
  outside the model, and so is a progress callback that throws.
\<close>

type_synonym bytes = "8 word list"

record 'd AccountInfo =
  lamports :: nat
  data :: 'd
  owner :: pubkey
  executable :: bool
  rentEpoch :: "nat option"

text \<open>The \<^verbatim>\<open>data\<close> of an account returned by a parsed query is a
  \<^verbatim>\<open>Buffer\<close> or a \<^verbatim>\<open>ParsedAccountData\<close>; of the latter the program reads
  \<^verbatim>\<open>parsed.info.owner\<close> (absent: \<open>None\<close>) and the bytes of its
  \<^verbatim>\<open>JSON.stringify\<close>.\<close>

datatype ParsedOrBuffer =
  BufferData bytes
| ParsedAccountData (info_owner: "string option") (json_bytes: bytes)

type_synonym TokenAccount = "pubkey \<times> bytes AccountInfo"

datatype Keypair = Keypair (secretKey: string) (keypairPublicKey: pubkey)

datatype instruction =
  BurnInstruction pubkey bytes pubkey nat pubkey
| CloseAccountInstruction pubkey pubkey pubkey pubkey
| TransferInstruction pubkey pubkey nat

record Transaction =
  instructions :: "instruction list"
  feePayer :: pubkey
  recentBlockhash :: string
  signers :: "pubkey list"

datatype status = ProcessingWallet | Collected nat | FailedToProcess

datatype event =
  Sleep nat
| Submit Transaction
| Progress nat nat pubkey status
| MethodFailed nat

record 'w Runtime =
  getTokenAccountsByOwner :: "pubkey \<Rightarrow> pubkey \<Rightarrow> 'w \<Rightarrow> (exn + TokenAccount list) \<times> 'w"
  getParsedProgramAccounts ::
    "pubkey \<Rightarrow> nat \<Rightarrow> nat \<Rightarrow> pubkey \<Rightarrow> 'w
       \<Rightarrow> (exn + (pubkey \<times> ParsedOrBuffer AccountInfo) list) \<times> 'w"
  getParsedTokenAccountsByOwner ::
    "pubkey \<Rightarrow> pubkey \<Rightarrow> 'w \<Rightarrow> (exn + (pubkey \<times> ParsedOrBuffer AccountInfo) list) \<times> 'w"
  getMinimumBalanceForRentExemption :: "nat \<Rightarrow> 'w \<Rightarrow> (exn + nat) \<times> 'w"
  getAccountInfo :: "pubkey \<Rightarrow> 'w \<Rightarrow> (exn + bytes AccountInfo option) \<times> 'w"
  getLatestBlockhash :: "'w \<Rightarrow> (exn + string) \<times> 'w"
  getBalance :: "pubkey \<Rightarrow> 'w \<Rightarrow> (exn + nat) \<times> 'w"
  sendAndConfirmTransaction :: "Transaction \<Rightarrow> 'w \<Rightarrow> (exn + string) \<times> 'w"
  keypairFromSecret :: "string \<Rightarrow> pubkey option"

type_synonym ('a, 'w) io = "'w \<Rightarrow> (exn + 'a) \<times> event list \<times> 'w"

definition io_return :: "'a \<Rightarrow> ('a, 'w) io" where
  "io_return x w = (Inr x, [], w)"

definition io_throw :: "exn \<Rightarrow> ('a, 'w) io" where
  "io_throw e w = (Inl e, [], w)"

definition io_bind :: "('a, 'w) io \<Rightarrow> ('a \<Rightarrow> ('b, 'w) io) \<Rightarrow> ('b, 'w) io" where
  "io_bind m f w =
     (case m w of
        (Inl e, evs, w') \<Rightarrow> (Inl e, evs, w')
      | (Inr x, evs, w') \<Rightarrow> (case f x w' of (r, evs', w'') \<Rightarrow> (r, evs @ evs', w'')))"

text \<open>\<^verbatim>\<open>try { m } catch (e) { h e }\<close>.\<close>

definition io_catch :: "('a, 'w) io \<Rightarrow> (exn \<Rightarrow> ('a, 'w) io) \<Rightarrow> ('a, 'w) io" where
  "io_catch m h w =
     (case m w of
        (Inl e, evs, w') \<Rightarrow> (case h e w' of (r, evs', w'') \<Rightarrow> (r, evs @ evs', w''))
      | (Inr x, evs, w') \<Rightarrow> (Inr x, evs, w'))"

text \<open>The outcome of \<open>m\<close> as a value: the point where a \<^verbatim>\<open>try\<close> block is
  left, by its end or by an exception.\<close>

definition io_try :: "('a, 'w) io \<Rightarrow> (exn + 'a, 'w) io" where
  "io_try m w = (case m w of (r, evs, w') \<Rightarrow> (Inr r, evs, w'))"

definition io_emit :: "event \<Rightarrow> (unit, 'w) io" where
  "io_emit ev w = (Inr (), [ev], w)"

text \<open>Awaiting a remote call.\<close>

definition io_await :: "('w \<Rightarrow> (exn + 'a) \<times> 'w) \<Rightarrow> ('a, 'w) io" where
  "io_await call w = (case call w of (r, w') \<Rightarrow> (r, [], w'))"

text \<open>\<^verbatim>\<open>for (const x of xs) { s = body x s }\<close>; an exception leaves the loop.\<close>

primrec for_of :: "('a \<Rightarrow> 's \<Rightarrow> ('s, 'w) io) \<Rightarrow> 'a list \<Rightarrow> 's \<Rightarrow> ('s, 'w) io" where
  "for_of body [] s = io_return s"
| "for_of body (x # xs) s = io_bind (body x s) (for_of body xs)"

section \<open>The rent collector (src/rent-collector.ts)\<close>

definition TOKEN_PROGRAM_ID :: pubkey where
  "TOKEN_PROGRAM_ID = ''TokenkegQfeZyiNwAJbNbGKPFXCWuBvf9Ss623VQ5DA''"

definition TOKEN_2022_PROGRAM_ID :: pubkey where
  "TOKEN_2022_PROGRAM_ID = ''TokenzQdBNbLqP5VEhdkAS6EPFLC1PHnBqCXEpPxuEb''"

definition LAMPORTS_PER_SOL :: nat where
  "LAMPORTS_PER_SOL = 1000000000"

definition sleep :: "nat \<Rightarrow> (unit, 'w) io" where
  "sleep ms = io_emit (Sleep ms)"

definition fromSecretKey :: "'w Runtime \<Rightarrow> string \<Rightarrow> (Keypair, 'w) io" where
  "fromSecretKey rt sk =
     (case keypairFromSecret rt sk of
        None \<Rightarrow> io_throw (Error ''bad secret key'')
      | Some pub \<Rightarrow> io_return (Keypair sk pub))"

definition send :: "'w Runtime \<Rightarrow> Transaction \<Rightarrow> (string, 'w) io" where
  "send rt tx = io_bind (io_emit (Submit tx)) (\<lambda>_. io_await (sendAndConfirmTransaction rt tx))"

subsection \<open>\<^verbatim>\<open>retryWithBackoff\<close>\<close>

fun is_rate_limit :: "exn \<Rightarrow> bool" where
  "is_rate_limit (Error message) =
     (message \<noteq> [] \<and> (str_includes message ''429'' \<or> str_includes message ''Too Many Requests''))"
| "is_rate_limit Thrown = False"

function retry_loop :: "('a, 'w) io \<Rightarrow> nat \<Rightarrow> nat \<Rightarrow> nat \<Rightarrow> ('a, 'w) io" where
  "retry_loop fn maxRetries baseDelay attempt =
     (if attempt \<le> maxRetries then
        io_catch fn
          (\<lambda>error.
             if attempt = maxRetries then io_throw error
             else if is_rate_limit error then
               io_bind (sleep (baseDelay * 2 ^ attempt))
                 (\<lambda>_. retry_loop fn maxRetries baseDelay (attempt + 1))
             else io_throw error)
      else io_throw (Error ''Max retries exceeded''))"
  by pat_completeness auto
termination
  by (relation "measure (\<lambda>(fn, maxRetries, baseDelay, attempt). Suc maxRetries - attempt)") auto

declare retry_loop.simps [simp del]

definition retryWithBackoff :: "('a, 'w) io \<Rightarrow> nat \<Rightarrow> nat \<Rightarrow> ('a, 'w) io" where
  "retryWithBackoff fn maxRetries baseDelay = retry_loop fn maxRetries baseDelay 0"

text \<open>Every call site uses the default parameters.\<close>

definition retry :: "('a, 'w) io \<Rightarrow> ('a, 'w) io" where
  "retry fn = retryWithBackoff fn 3 1000"

subsection \<open>Eligibility\<close>

definition calculateRentExemptBalance :: "'w Runtime \<Rightarrow> bytes AccountInfo \<Rightarrow> (nat, 'w) io" where
  "calculateRentExemptBalance rt accountInfo =
     io_await (getMinimumBalanceForRentExemption rt (length (data accountInfo)))"

definition canCloseAccount :: "nat \<Rightarrow> nat \<Rightarrow> bool" where
  "canCloseAccount bal rentExempt = (bal > 0)"

definition calculateRentAmount :: "nat \<Rightarrow> nat \<Rightarrow> nat" where
  "calculateRentAmount bal rentExempt = bal"

subsection \<open>\<^verbatim>\<open>getTokenAccounts\<close>\<close>

text \<open>Methods 2 and 3 keep an item only when its data is parsed and the parsed owner
  is the wallet, and turn it into a raw account whose data is the JSON text.\<close>

definition parsed_to_raw ::
  "pubkey \<Rightarrow> pubkey \<times> ParsedOrBuffer AccountInfo \<Rightarrow> TokenAccount option" where
  "parsed_to_raw walletPublicKey item =
     (case data (snd item) of
        BufferData b \<Rightarrow> None
      | ParsedAccountData parsedOwner js \<Rightarrow>
          if parsedOwner = Some walletPublicKey
          then Some (fst item,
                 \<lparr> lamports = lamports (snd item), data = js, owner = owner (snd item),
                   executable = executable (snd item), rentEpoch = rentEpoch (snd item) \<rparr>)
          else None)"

text \<open>Each method returns the records it pushes onto \<^verbatim>\<open>allTokenAccounts\<close>. In
  methods 1 and 3 the records of the first query are pushed before the second query
  is made, so they stay when the second query throws.\<close>

definition method1 :: "'w Runtime \<Rightarrow> pubkey \<Rightarrow> (TokenAccount list, 'w) io" where
  "method1 rt walletPublicKey =
     io_catch
       (io_bind (retry (io_await (getTokenAccountsByOwner rt walletPublicKey TOKEN_PROGRAM_ID)))
          (\<lambda>tokenAccounts.
             io_catch
               (io_bind
                  (retry (io_await
                     (getTokenAccountsByOwner rt walletPublicKey TOKEN_2022_PROGRAM_ID)))
                  (\<lambda>token2022Accounts. io_return (tokenAccounts @ token2022Accounts)))
               (\<lambda>error. io_bind (io_emit (MethodFailed 1)) (\<lambda>_. io_return tokenAccounts))))
       (\<lambda>error. io_bind (io_emit (MethodFailed 1)) (\<lambda>_. io_return []))"

definition method2 :: "'w Runtime \<Rightarrow> pubkey \<Rightarrow> (TokenAccount list, 'w) io" where
  "method2 rt walletPublicKey =
     io_catch
       (io_bind
          (retry (io_await
             (getParsedProgramAccounts rt TOKEN_PROGRAM_ID 165 32 walletPublicKey)))
          (\<lambda>parsedAccounts.
             io_return (List.map_filter (parsed_to_raw walletPublicKey) parsedAccounts)))
       (\<lambda>error. io_bind (io_emit (MethodFailed 2)) (\<lambda>_. io_return []))"

definition method3 :: "'w Runtime \<Rightarrow> pubkey \<Rightarrow> (TokenAccount list, 'w) io" where
  "method3 rt walletPublicKey =
     io_catch
       (io_bind
          (retry (io_await
             (getParsedTokenAccountsByOwner rt walletPublicKey TOKEN_PROGRAM_ID)))
          (\<lambda>tokenAccounts.
             let found = List.map_filter (parsed_to_raw walletPublicKey) tokenAccounts in
             io_catch
               (io_bind
                  (retry (io_await
                     (getParsedTokenAccountsByOwner rt walletPublicKey TOKEN_2022_PROGRAM_ID)))
                  (\<lambda>token2022Accounts.
                     io_return
                       (found @ List.map_filter (parsed_to_raw walletPublicKey) token2022Accounts)))
               (\<lambda>error. io_bind (io_emit (MethodFailed 3)) (\<lambda>_. io_return found))))
       (\<lambda>error. io_bind (io_emit (MethodFailed 3)) (\<lambda>_. io_return []))"

text \<open>\<^verbatim>\<open>allTokenAccounts.forEach(a => uniqueAccounts.set(a.pubkey.toString(), a))\<close>
  followed by \<^verbatim>\<open>Array.from(uniqueAccounts.values())\<close>.\<close>

definition unique_accounts :: "TokenAccount list \<Rightarrow> TokenAccount list" where
  "unique_accounts allTokenAccounts =
     map_values (fold (\<lambda>account m. map_set (fst account) account m) allTokenAccounts [])"

definition getTokenAccounts :: "'w Runtime \<Rightarrow> pubkey \<Rightarrow> (TokenAccount list, 'w) io" where
  "getTokenAccounts rt walletPublicKey =
     io_catch
       (io_bind (method1 rt walletPublicKey) (\<lambda>found1.
        io_bind (method2 rt walletPublicKey) (\<lambda>found2.
        io_bind (method3 rt walletPublicKey) (\<lambda>found3.
        io_return (unique_accounts (found1 @ found2 @ found3))))))
       (\<lambda>error. io_return [])"

subsection \<open>\<^verbatim>\<open>closeTokenAccount\<close>\<close>

record CloseResult =
  closeSuccess :: bool
  closeRentRecovered :: nat
  closeError :: "string option"

fun error_message :: "exn \<Rightarrow> string" where
  "error_message (Error message) = message"
| "error_message Thrown = ''Unknown error''"

fun le_nat :: "bytes \<Rightarrow> nat" where
  "le_nat [] = 0"
| "le_nat (b # bs) = unat b + 256 * le_nat bs"

text \<open>\<^verbatim>\<open>buf.readBigUInt64LE(offset)\<close>, for a buffer that has the eight bytes.\<close>

definition readBigUInt64LE :: "bytes \<Rightarrow> nat \<Rightarrow> nat" where
  "readBigUInt64LE buf offset = le_nat (take 8 (drop offset buf))"

text \<open>\<^verbatim>\<open>Number(n)\<close> for a non-negative integer \<open>n\<close>: the nearest double, ties to
  the even significand. A double carries 53 significant bits, so the integers below
  \<open>2^53\<close> are kept and a larger one is rounded to a multiple of the power of two
  that leaves 53 bits. (The integers met here are far below the largest double.)\<close>

fun bit_length :: "nat \<Rightarrow> nat" where
  "bit_length n = (if n = 0 then 0 else Suc (bit_length (n div 2)))"

declare bit_length.simps [simp del]

definition js_number :: "nat \<Rightarrow> nat" where
  "js_number n =
     (if n < 2 ^ 53 then n
      else
        let ulp = 2 ^ (bit_length n - 53); q = n div ulp; r = n mod ulp in
        if 2 * r < ulp then q * ulp
        else if ulp < 2 * r then (q + 1) * ulp
        else if even q then q * ulp
        else (q + 1) * ulp)"

text \<open>The burn instruction of \<^verbatim>\<open>closeTokenAccount\<close> carries
  \<^verbatim>\<open>BigInt(tokenAmount)\<close>, where \<^verbatim>\<open>tokenAmount\<close> is the
  \<^verbatim>\<open>Number\<close> of the amount read.\<close>

definition close_instructions ::
  "bytes AccountInfo option \<Rightarrow> pubkey \<Rightarrow> Keypair \<Rightarrow> pubkey \<Rightarrow> instruction list" where
  "close_instructions accountInfo tokenAccountPubkey ownerKeypair destinationPubkey =
     (let programId =
            (case accountInfo of
               None \<Rightarrow> TOKEN_PROGRAM_ID
             | Some ai \<Rightarrow>
                 if owner ai = TOKEN_2022_PROGRAM_ID then TOKEN_2022_PROGRAM_ID
                 else TOKEN_PROGRAM_ID);
          burn =
            (case accountInfo of
               None \<Rightarrow> []
             | Some ai \<Rightarrow>
                 let tokenAmount =
                       (if length (data ai) \<ge> 165 then js_number (readBigUInt64LE (data ai) 64)
                        else 0)
                 in if tokenAmount > 0
                    then [BurnInstruction tokenAccountPubkey (take 32 (data ai))
                            (keypairPublicKey ownerKeypair) tokenAmount programId]
                    else [])
      in burn @ [CloseAccountInstruction tokenAccountPubkey destinationPubkey
                   (keypairPublicKey ownerKeypair) programId])"

definition closeTokenAccount ::
  "'w Runtime \<Rightarrow> Keypair option \<Rightarrow> pubkey \<Rightarrow> Keypair \<Rightarrow> pubkey \<Rightarrow> (CloseResult, 'w) io" where
  "closeTokenAccount rt feePayerKeypair tokenAccountPubkey ownerKeypair destinationPubkey =
     io_catch
       (case feePayerKeypair of
          None \<Rightarrow>
            io_return \<lparr> closeSuccess = False, closeRentRecovered = 0,
                        closeError = Some ''Fee payer not set'' \<rparr>
        | Some feePayerKp \<Rightarrow>
            io_bind (io_await (getAccountInfo rt tokenAccountPubkey)) (\<lambda>accountInfo.
            let rentRecovered = (case accountInfo of None \<Rightarrow> 0 | Some ai \<Rightarrow> lamports ai) in
            io_bind (io_await (getLatestBlockhash rt)) (\<lambda>blockhash.
            let transaction =
                  \<lparr> instructions =
                      close_instructions accountInfo tokenAccountPubkey ownerKeypair
                        destinationPubkey,
                    feePayer = keypairPublicKey feePayerKp,
                    recentBlockhash = blockhash,
                    signers = [keypairPublicKey ownerKeypair, keypairPublicKey feePayerKp] \<rparr>
            in
            io_bind (retry (send rt transaction)) (\<lambda>signature.
            io_return \<lparr> closeSuccess = True, closeRentRecovered = rentRecovered,
                        closeError = None \<rparr>))))
       (\<lambda>error.
          io_return \<lparr> closeSuccess = False, closeRentRecovered = 0,
                      closeError = Some (error_message error) \<rparr>)"

subsection \<open>\<^verbatim>\<open>burnAllTokens\<close>\<close>

text \<open>One iteration of the loop over the token accounts; the state is
  \<^verbatim>\<open>(tokensBurned, totalTokensBurned)\<close>. The program variant is read from the
  discovered record, the amount and the mint from a fresh read of the account. The
  amount stays a \<^verbatim>\<open>bigint\<close> in the test and in the instruction;
  \<^verbatim>\<open>totalTokensBurned += Number(amount)\<close> is an addition of doubles.\<close>

definition burn_step ::
  "'w Runtime \<Rightarrow> Keypair \<Rightarrow> Keypair \<Rightarrow> TokenAccount \<Rightarrow> nat \<times> nat \<Rightarrow> (nat \<times> nat, 'w) io" where
  "burn_step rt feePayerKp walletKeypair tokenAccount counters =
     io_catch
       (let programId =
              (if owner (snd tokenAccount) = TOKEN_2022_PROGRAM_ID then TOKEN_2022_PROGRAM_ID
               else TOKEN_PROGRAM_ID)
        in
        io_bind (io_await (getAccountInfo rt (fst tokenAccount))) (\<lambda>accountInfo.
        case accountInfo of
          None \<Rightarrow> io_return counters
        | Some ai \<Rightarrow>
            if length (data ai) < 165 then io_return counters
            else
              let amount = readBigUInt64LE (data ai) 64 in
              if amount > 0 then
                io_bind (io_await (getLatestBlockhash rt)) (\<lambda>blockhash.
                let transaction =
                      \<lparr> instructions =
                          [BurnInstruction (fst tokenAccount) (take 32 (data ai))
                             (keypairPublicKey walletKeypair) amount programId],
                        feePayer = keypairPublicKey feePayerKp,
                        recentBlockhash = blockhash,
                        signers = [keypairPublicKey walletKeypair, keypairPublicKey feePayerKp] \<rparr>
                in
                io_bind (retry (send rt transaction)) (\<lambda>signature.
                io_bind (sleep 500) (\<lambda>_.
                io_return (fst counters + 1, js_number (snd counters + js_number amount)))))
              else io_return counters))
       (\<lambda>error. io_return counters)"

text \<open>The handler around the whole body of \<^verbatim>\<open>burnAllTokens\<close> returns the counters
  reached so far; it is kept here around the discovery, the only part of the body
  outside the per-account handlers.\<close>

definition burnAllTokens :: "'w Runtime \<Rightarrow> Keypair option \<Rightarrow> Keypair \<Rightarrow> (nat \<times> nat, 'w) io" where
  "burnAllTokens rt feePayerKeypair walletKeypair =
     (case feePayerKeypair of
        None \<Rightarrow> io_return (0, 0)
      | Some feePayerKp \<Rightarrow>
          io_bind
            (io_catch (getTokenAccounts rt (keypairPublicKey walletKeypair))
               (\<lambda>error. io_return []))
            (\<lambda>tokenAccounts.
               for_of (burn_step rt feePayerKp walletKeypair) tokenAccounts (0, 0)))"

subsection \<open>\<^verbatim>\<open>transferSolToFeePayer\<close>\<close>

record TransferResult =
  transferSuccess :: bool
  amountTransferred :: nat
  transferError :: "string option"

definition transferSolToFeePayer ::
  "'w Runtime \<Rightarrow> Keypair option \<Rightarrow> Keypair \<Rightarrow> nat \<Rightarrow> (TransferResult, 'w) io" where
  "transferSolToFeePayer rt feePayerKeypair fromKeypair amount =
     io_catch
       (case feePayerKeypair of
          None \<Rightarrow>
            io_return \<lparr> transferSuccess = False, amountTransferred = 0,
                        transferError = Some ''Fee payer not set'' \<rparr>
        | Some feePayerKp \<Rightarrow>
            let transferAmount = amount in
            if transferAmount \<le> 0 then
              io_return \<lparr> transferSuccess = False, amountTransferred = 0,
                          transferError = Some ''No SOL to transfer'' \<rparr>
            else
              io_bind (io_await (getLatestBlockhash rt)) (\<lambda>blockhash.
              let transaction =
                    \<lparr> instructions =
                        [TransferInstruction (keypairPublicKey fromKeypair)
                           (keypairPublicKey feePayerKp) transferAmount],
                      feePayer = keypairPublicKey feePayerKp,
                      recentBlockhash = blockhash,
                      signers = [keypairPublicKey fromKeypair, keypairPublicKey feePayerKp] \<rparr>
              in
              io_bind (retry (send rt transaction)) (\<lambda>signature.
              io_return \<lparr> transferSuccess = True, amountTransferred = transferAmount,
                          transferError = None \<rparr>)))
       (\<lambda>error.
          io_return \<lparr> transferSuccess = False, amountTransferred = 0,
                      transferError = Some (error_message error) \<rparr>)"

subsection \<open>\<^verbatim>\<open>processSingleWallet\<close>: the analysis that writes back to the store\<close>

text \<open>One iteration of the loop over the token accounts; the state is
  \<^verbatim>\<open>(totalRentToCollect, tokenAccountsWithRent)\<close>. The test
  \<^verbatim>\<open>if (accountInfo.data)\<close> is on a \<^verbatim>\<open>Buffer\<close>, which is always truthy.\<close>

definition rent_step ::
  "'w Runtime \<Rightarrow> TokenAccount \<Rightarrow> nat \<times> nat \<Rightarrow> (nat \<times> nat, 'w) io" where
  "rent_step rt tokenAccount acc =
     (let accountInfo = snd tokenAccount; bal = lamports accountInfo in
      io_bind (calculateRentExemptBalance rt accountInfo) (\<lambda>rentExempt.
      let rentAmt = calculateRentAmount bal rentExempt in
      if canCloseAccount bal rentExempt
      then io_return (fst acc + rentAmt, snd acc + 1)
      else io_return acc))"

text \<open>The result is the wallet returned and the store afterwards.\<close>

definition processSingleWallet ::
  "'w Runtime \<Rightarrow> WalletInfo \<Rightarrow> nat \<Rightarrow> WalletInfo list
     \<Rightarrow> (WalletInfo \<times> WalletInfo list, 'w) io" where
  "processSingleWallet rt wallet walletIndex store =
     io_bind (fromSecretKey rt (privateKey wallet)) (\<lambda>keypair.
     io_bind (sleep 250) (\<lambda>_.
     io_catch
       (io_bind (retry (io_await (getBalance rt (keypairPublicKey keypair)))) (\<lambda>walletBalance.
        io_bind (getTokenAccounts rt (keypairPublicKey keypair)) (\<lambda>tokenAccounts.
        io_bind (for_of (rent_step rt) tokenAccounts (0, 0)) (\<lambda>totals.
        let totalRentToCollect = fst totals;
            processedWallet =
              wallet \<lparr> balance := walletBalance, rentExemptBalance := 0,
                       rentAmount := totalRentToCollect,
                       canClose := (totalRentToCollect > 0) \<rparr>
        in io_return
             (processedWallet,
              updateWalletInfo (int walletIndex) walletBalance 0 totalRentToCollect
                (totalRentToCollect > 0) store)))))
       (\<lambda>error. io_return (wallet, store))))"

subsection \<open>\<^verbatim>\<open>transferSolBalances\<close>\<close>

record RentCollectionResult =
  resultWallet :: string
  resultSuccess :: bool
  rentCollected :: nat
  resultError :: "string option"
  transactionSignature :: "string option"

record RentCollectionSummary =
  totalWallets :: nat
  successfulCollections :: nat
  totalRentCollected :: nat
  failedCollections :: nat
  results :: "RentCollectionResult list"

text \<open>\<^verbatim>\<open>wallet.balance > 0.00001 * LAMPORTS_PER_SOL\<close>: the product is the double
  \<open>10000.0\<close>.\<close>

definition MIN_TRANSFER_LAMPORTS :: nat where
  "MIN_TRANSFER_LAMPORTS = 10000"

definition transfer_selected :: "WalletInfo \<Rightarrow> bool" where
  "transfer_selected wallet =
     (balance wallet > MIN_TRANSFER_LAMPORTS \<and> (\<not> canClose wallet \<or> rentAmount wallet = 0))"

text \<open>The state of the loop is
  \<^verbatim>\<open>(totalSolTransferred, successfulTransfers, failedTransfers)\<close>.\<close>

definition transfer_step ::
  "'w Runtime \<Rightarrow> Keypair option \<Rightarrow> WalletInfo \<Rightarrow> nat \<times> nat \<times> nat
     \<Rightarrow> (nat \<times> nat \<times> nat, 'w) io" where
  "transfer_step rt feePayerKeypair wallet acc =
     (case acc of (totalSolTransferred, successfulTransfers, failedTransfers) \<Rightarrow>
      if transfer_selected wallet then
        io_bind (fromSecretKey rt (privateKey wallet)) (\<lambda>keypair.
        io_bind (transferSolToFeePayer rt feePayerKeypair keypair (balance wallet))
          (\<lambda>transferResult.
        io_bind (sleep 1000) (\<lambda>_.
        if transferSuccess transferResult
        then io_return (totalSolTransferred + amountTransferred transferResult,
                        successfulTransfers + 1, failedTransfers)
        else io_return (totalSolTransferred, successfulTransfers, failedTransfers + 1))))
      else io_return acc)"

definition transferSolBalances ::
  "'w Runtime \<Rightarrow> Keypair option \<Rightarrow> WalletInfo list \<Rightarrow> (RentCollectionSummary, 'w) io" where
  "transferSolBalances rt feePayerKeypair wallets =
     (case feePayerKeypair of
        None \<Rightarrow> io_throw (Error ''Fee payer not set. Call setFeePayer() first.'')
      | Some feePayerKp \<Rightarrow>
          io_bind (for_of (transfer_step rt feePayerKeypair) wallets (0, 0, 0)) (\<lambda>acc.
          case acc of (totalSolTransferred, successfulTransfers, failedTransfers) \<Rightarrow>
          io_return
            \<lparr> totalWallets = length wallets, successfulCollections = successfulTransfers,
              totalRentCollected = totalSolTransferred, failedCollections = failedTransfers,
              results = [] \<rparr>))"

subsection \<open>\<^verbatim>\<open>processWalletCompletely\<close>: the per-wallet pipeline\<close>

record WalletResult =
  tokenAccountsClosed :: nat
  rentRecovered :: nat
  solTransferred :: nat
  totalRecovered :: nat

text \<open>One iteration of the closing loop; the state is
  \<^verbatim>\<open>(tokenAccountsClosed, rentRecovered)\<close>.\<close>

definition close_step ::
  "'w Runtime \<Rightarrow> Keypair \<Rightarrow> Keypair \<Rightarrow> TokenAccount \<Rightarrow> nat \<times> nat \<Rightarrow> (nat \<times> nat, 'w) io" where
  "close_step rt feePayerKp keypair tokenAccount acc =
     (let accountInfo = snd tokenAccount; bal = lamports accountInfo in
      io_bind (calculateRentExemptBalance rt accountInfo) (\<lambda>rentExempt.
      if canCloseAccount bal rentExempt then
        io_bind
          (closeTokenAccount rt (Some feePayerKp) (fst tokenAccount) keypair
             (keypairPublicKey feePayerKp))
          (\<lambda>closeResult.
        io_bind (sleep 1000) (\<lambda>_.
        if closeSuccess closeResult
        then io_return (fst acc + 1, snd acc + closeRentRecovered closeResult)
        else io_return acc))
      else io_return acc))"

text \<open>Step 4 of the pipeline: the refreshed balance and the transfer of all of it.\<close>

definition sweep :: "'w Runtime \<Rightarrow> Keypair option \<Rightarrow> Keypair \<Rightarrow> (nat, 'w) io" where
  "sweep rt feePayerKeypair keypair =
     io_bind (retry (io_await (getBalance rt (keypairPublicKey keypair)))) (\<lambda>updatedBalance.
     if updatedBalance > 0 then
       io_bind (transferSolToFeePayer rt feePayerKeypair keypair updatedBalance)
         (\<lambda>transferResult.
       if transferSuccess transferResult
       then io_return (amountTransferred transferResult)
       else io_return 0)
     else io_return 0)"

definition processWalletCompletely ::
  "'w Runtime \<Rightarrow> Keypair option \<Rightarrow> WalletInfo list \<Rightarrow> nat \<Rightarrow> (WalletResult, 'w) io" where
  "processWalletCompletely rt feePayerKeypair wallets walletIndex =
     (case feePayerKeypair of
        None \<Rightarrow> io_throw (Error ''Fee payer not set. Call setFeePayer() first.'')
      | Some feePayerKp \<Rightarrow>
          if \<not> walletIndex < length wallets then io_throw (Error ''Wallet not found'')
          else
            let wallet = wallets ! walletIndex in
            io_bind (fromSecretKey rt (privateKey wallet)) (\<lambda>keypair.
            io_bind (getTokenAccounts rt (keypairPublicKey keypair)) (\<lambda>tokenAccounts.
            io_bind (for_of (close_step rt feePayerKp keypair) tokenAccounts (0, 0)) (\<lambda>closed.
            io_bind (burnAllTokens rt feePayerKeypair keypair) (\<lambda>burnResult.
            io_bind (sweep rt feePayerKeypair keypair) (\<lambda>sol.
            io_return
              \<lparr> tokenAccountsClosed = fst closed, rentRecovered = snd closed,
                solTransferred = sol, totalRecovered = snd closed + sol \<rparr>))))))"

subsection \<open>\<^verbatim>\<open>processAllWallets\<close>\<close>

record RunTotals =
  totalTokenAccountsClosed :: nat
  totalRentRecovered :: nat
  totalSolTransferred :: nat
  totalRecoveredSum :: nat
  successfulWallets :: nat
  failedWallets :: nat

text \<open>The optional \<^verbatim>\<open>progressCallback\<close> is code of the caller: a call of it
  returns or throws, which may depend on what it is told and on the state of the
  world; it does not act on the ledger. In the desktop application it is
  \<^verbatim>\<open>(progress) => { event.sender.send('scan-progress', progress) }\<close>, which
  throws once the window is gone.\<close>

type_synonym 'w callback = "nat \<Rightarrow> nat \<Rightarrow> pubkey \<Rightarrow> status \<Rightarrow> 'w \<Rightarrow> exn option"

text \<open>\<^verbatim>\<open>if (progressCallback) progressCallback({current, total, wallet, status})\<close>;
  the event records that the call was made.\<close>

definition progress ::
  "'w callback option \<Rightarrow> nat \<Rightarrow> nat \<Rightarrow> pubkey \<Rightarrow> status \<Rightarrow> (unit, 'w) io" where
  "progress progressCallback cur tot wallet st =
     (case progressCallback of
        None \<Rightarrow> io_return ()
      | Some callback \<Rightarrow>
          io_bind (io_emit (Progress cur tot wallet st)) (\<lambda>_.
          io_await (\<lambda>w. (case callback cur tot wallet st w of
                            None \<Rightarrow> Inr ()
                          | Some thrown \<Rightarrow> Inl thrown, w))))"

text \<open>The \<^verbatim>\<open>catch\<close> block of the loop body: it counts the wallet as failed and
  reports it. It is entered with the counters as they are when the exception is
  thrown, and an exception of its own call of the callback leaves the loop and
  \<^verbatim>\<open>processAllWallets\<close>.\<close>

definition wallet_failed ::
  "'w callback option \<Rightarrow> WalletInfo list \<Rightarrow> nat \<Rightarrow> RunTotals \<Rightarrow> (RunTotals, 'w) io" where
  "wallet_failed progressCallback wallets i t =
     (let t' = t \<lparr> failedWallets := failedWallets t + 1 \<rparr> in
      io_bind (progress progressCallback (i + 1) (length wallets) (publicKey (wallets ! i))
                 FailedToProcess) (\<lambda>_.
      io_return t'))"

text \<open>One iteration of the loop over the wallet indices. The counters are variables
  updated in place in the middle of the \<^verbatim>\<open>try\<close> block, so the block is split
  there: an exception of the first callback call or of the pipeline reaches the
  handler with the counters as they were, an exception of the second callback call
  reaches it with the wallet already counted as successful.\<close>

definition wallet_step ::
  "'w Runtime \<Rightarrow> Keypair option \<Rightarrow> 'w callback option \<Rightarrow> WalletInfo list \<Rightarrow> nat \<Rightarrow> RunTotals
     \<Rightarrow> (RunTotals, 'w) io" where
  "wallet_step rt feePayerKeypair progressCallback wallets i t =
     (let walletAddress = publicKey (wallets ! i) in
      io_bind
        (io_try
           (io_bind (progress progressCallback (i + 1) (length wallets) walletAddress
                       ProcessingWallet) (\<lambda>_.
            processWalletCompletely rt feePayerKeypair wallets i)))
        (\<lambda>processed.
           case processed of
             Inl error \<Rightarrow> wallet_failed progressCallback wallets i t
           | Inr walletResult \<Rightarrow>
               let t' = t \<lparr> totalTokenAccountsClosed :=
                               totalTokenAccountsClosed t + tokenAccountsClosed walletResult,
                             totalRentRecovered :=
                               totalRentRecovered t + rentRecovered walletResult,
                             totalSolTransferred :=
                               totalSolTransferred t + solTransferred walletResult,
                             totalRecoveredSum :=
                               totalRecoveredSum t + totalRecovered walletResult,
                             successfulWallets := successfulWallets t + 1 \<rparr>
               in
               io_bind
                 (io_try
                    (io_bind (progress progressCallback (i + 1) (length wallets) walletAddress
                                (Collected (totalRecovered walletResult))) (\<lambda>_.
                     if i < length wallets - 1 then sleep 1500 else io_return ())))
                 (\<lambda>reported.
                    case reported of
                      Inl error \<Rightarrow> wallet_failed progressCallback wallets i t'
                    | Inr _ \<Rightarrow> io_return t')))"

definition processAllWallets ::
  "'w Runtime \<Rightarrow> Keypair option \<Rightarrow> 'w callback option \<Rightarrow> WalletInfo list
     \<Rightarrow> (RentCollectionSummary, 'w) io" where
  "processAllWallets rt feePayerKeypair progressCallback wallets =
     (case feePayerKeypair of
        None \<Rightarrow> io_throw (Error ''Fee payer not set. Call setFeePayer() first.'')
      | Some feePayerKp \<Rightarrow>
          io_bind
            (for_of (wallet_step rt feePayerKeypair progressCallback wallets) [0..<length wallets]
               \<lparr> totalTokenAccountsClosed = 0, totalRentRecovered = 0, totalSolTransferred = 0,
                 totalRecoveredSum = 0, successfulWallets = 0, failedWallets = 0 \<rparr>)
            (\<lambda>t.
               io_return
                 \<lparr> totalWallets = length wallets,
                   successfulCollections = successfulWallets t,
                   totalRentCollected = totalRecoveredSum t,
                   failedCollections = failedWallets t,
                   results = [] \<rparr>))"

section \<open>Notions used to state the properties\<close>

subsection \<open>The wallet store\<close>

text \<open>Every value of the deduplication map carries its own key as public identity;
  every record was derived from its secret.\<close>

definition keymap_ok :: "keymap \<Rightarrow> bool" where
  "keymap_ok m = list_all (\<lambda>kv. snd (snd kv) = fst kv) m"

definition keymap_derived :: "(string \<Rightarrow> pubkey option) \<Rightarrow> keymap \<Rightarrow> bool" where
  "keymap_derived derive m = list_all (\<lambda>kv. derive (fst (snd kv)) = Some (fst kv)) m"

definition store_derived :: "(string \<Rightarrow> pubkey option) \<Rightarrow> WalletInfo list \<Rightarrow> bool" where
  "store_derived derive wallets =
     list_all (\<lambda>wallet. derive (privateKey wallet) = Some (publicKey wallet)) wallets"

definition derived :: "(string \<Rightarrow> pubkey option) \<Rightarrow> string list \<Rightarrow> pubkey set" where
  "derived derive pks = {p. \<exists>sk \<in> set pks. derive sk = Some p}"

text \<open>The public identities a file contributes: those of the store obtained by
  loading the file alone; none when the file does not load.\<close>

definition file_identities ::
  "(string \<Rightarrow> pubkey option) \<Rightarrow> (string \<Rightarrow> string option) \<Rightarrow> string \<Rightarrow> pubkey set" where
  "file_identities derive fs filePath =
     (case fst (loadWalletsFromFile derive fs filePath False []) of
        Inl e \<Rightarrow> {}
      | Inr wallets \<Rightarrow> set (map publicKey wallets))"

text \<open>The discovery fields of a record as a fresh load leaves them.\<close>

definition discovery_reset :: "WalletInfo \<Rightarrow> bool" where
  "discovery_reset wallet =
     (balance wallet = 0 \<and> rentExemptBalance wallet = 0 \<and> rentAmount wallet = 0
      \<and> \<not> canClose wallet)"

definition wallet_keys :: "WalletInfo \<Rightarrow> string \<times> string" where
  "wallet_keys wallet = (privateKey wallet, publicKey wallet)"

subsection \<open>Observations on computations\<close>

text \<open>Every event a computation emits, from whatever state it starts, satisfies \<open>P\<close>;
  a computation never throws.\<close>

definition emits :: "(event \<Rightarrow> bool) \<Rightarrow> ('a, 'w) io \<Rightarrow> bool" where
  "emits P m = (\<forall>w. list_all P (fst (snd (m w))))"

definition no_throw :: "('a, 'w) io \<Rightarrow> bool" where
  "no_throw m = (\<forall>w. \<not> isl (fst (m w)))"

subsection \<open>Submitted transactions and their phases\<close>

fun closed_account :: "instruction \<Rightarrow> pubkey list" where
  "closed_account (CloseAccountInstruction account destination authority programId) = [account]"
| "closed_account (BurnInstruction account mint authority amount programId) = []"
| "closed_account (TransferInstruction fromPk toPk amount) = []"

definition closed_accounts :: "instruction list \<Rightarrow> pubkey list" where
  "closed_accounts instrs = concat (map closed_account instrs)"

text \<open>The transaction that closes an account: the close instruction alone, or a burn
  of the same account followed by the close instruction. The transaction of the
  standalone burn, and that of the sweep.\<close>

fun close_shape :: "pubkey \<Rightarrow> instruction list \<Rightarrow> bool" where
  "close_shape a [CloseAccountInstruction account destination authority programId] =
     (account = a)"
| "close_shape a [BurnInstruction burned mint burnAuthority amount burnProgramId,
                  CloseAccountInstruction account destination authority programId] =
     (burned = a \<and> account = a \<and> amount > 0)"
| "close_shape a instrs = False"

fun burn_shape :: "instruction list \<Rightarrow> bool" where
  "burn_shape [BurnInstruction account mint authority amount programId] = (amount > 0)"
| "burn_shape instrs = False"

fun transfer_shape :: "instruction list \<Rightarrow> bool" where
  "transfer_shape [TransferInstruction fromPk toPk amount] = (amount > 0)"
| "transfer_shape instrs = False"

fun is_close :: "instruction \<Rightarrow> bool" where
  "is_close (CloseAccountInstruction account destination authority programId) = True"
| "is_close instr = False"

fun is_burn :: "instruction \<Rightarrow> bool" where
  "is_burn (BurnInstruction account mint authority amount programId) = True"
| "is_burn instr = False"

text \<open>The phase a transaction belongs to: 0 for closing (a transaction with a close
  instruction), 1 for the standalone burning, 2 for sweeping.\<close>

definition phase_of :: "instruction list \<Rightarrow> nat" where
  "phase_of instrs =
     (if list_ex is_close instrs then 0 else if list_ex is_burn instrs then 1 else 2)"

fun submitted_tx :: "event \<Rightarrow> Transaction list" where
  "submitted_tx (Submit tx) = [tx]"
| "submitted_tx ev = []"

definition submitted :: "event list \<Rightarrow> Transaction list" where
  "submitted evs = concat (map submitted_tx evs)"

text \<open>Every transaction an event submits has instructions that satisfy \<open>Q\<close>.\<close>

definition submits :: "(instruction list \<Rightarrow> bool) \<Rightarrow> event \<Rightarrow> bool" where
  "submits Q ev = list_all (\<lambda>tx. Q (instructions tx)) (submitted_tx ev)"

definition phase_ordered :: "event list \<Rightarrow> bool" where
  "phase_ordered evs = sorted (map (\<lambda>tx. phase_of (instructions tx)) (submitted evs))"

definition ordered :: "('a, 'w) io \<Rightarrow> bool" where
  "ordered m = (\<forall>w. phase_ordered (fst (snd (m w))))"

definition well_formed :: "instruction list \<Rightarrow> bool" where
  "well_formed instrs =
     (list_ex (\<lambda>a. close_shape a instrs) (closed_accounts instrs)
      \<or> burn_shape instrs \<or> transfer_shape instrs)"

text \<open>The identities of the discovered accounts that hold lamports, and the lamports
  they hold together.\<close>

definition funded :: "TokenAccount list \<Rightarrow> TokenAccount list" where
  "funded tokenAccounts = filter (\<lambda>ta. lamports (snd ta) > 0) tokenAccounts"

definition funded_lamports :: "TokenAccount list \<Rightarrow> nat" where
  "funded_lamports tokenAccounts = sum_list (map (\<lambda>ta. lamports (snd ta)) (funded tokenAccounts))"

subsection \<open>The outcomes of the wallets of a batch\<close>

text \<open>What \<open>processWalletCompletely\<close> returns or throws for each index in turn, each
  run starting in the state the previous one left.\<close>

fun wallet_outcomes ::
  "'w Runtime \<Rightarrow> Keypair option \<Rightarrow> WalletInfo list \<Rightarrow> nat list \<Rightarrow> 'w
     \<Rightarrow> (exn + WalletResult) list" where
  "wallet_outcomes rt feePayerKeypair wallets [] w = []"
| "wallet_outcomes rt feePayerKeypair wallets (i # rest) w =
     (case processWalletCompletely rt feePayerKeypair wallets i w of
        (r, evs, w') \<Rightarrow> r # wallet_outcomes rt feePayerKeypair wallets rest w')"

fun recovered_of :: "exn + WalletResult \<Rightarrow> nat" where
  "recovered_of (Inl e) = 0"
| "recovered_of (Inr walletResult) = totalRecovered walletResult"

definition returned :: "exn + WalletResult \<Rightarrow> bool" where
  "returned r = (\<not> isl r)"

text \<open>The progress callback is absent, or it is one that never throws.\<close>

definition callback_quiet :: "'w callback option \<Rightarrow> bool" where
  "callback_quiet progressCallback =
     (case progressCallback of
        None \<Rightarrow> True
      | Some callback \<Rightarrow> (\<forall>cur tot wallet st w. callback cur tot wallet st w = None))"

section \<open>Mock ledger clients for concrete runs\<close>

text \<open>A remote call that is rate limited twice and then answers, and one that is
  refused; the world counts the calls made.\<close>

definition flaky_call :: "nat \<Rightarrow> (exn + string) \<times> nat" where
  "flaky_call w = (if w < 2 then Inl (Error ''429 Too Many Requests'') else Inr ''ok'', Suc w)"

definition refusing_call :: "nat \<Rightarrow> (exn + string) \<times> nat" where
  "refusing_call w = (Inl (Error ''insufficient funds''), Suc w)"

text \<open>A key library for concrete runs: a secret with an exclamation mark does not
  decode; the identity of any other secret is its first 44 characters. Three secrets
  and two wallet files, one in the simple and one in the structured format, which
  share the second secret.\<close>

definition demo_derive :: "string \<Rightarrow> pubkey option" where
  "demo_derive sk = (if CHR ''!'' \<in> set sk then None else Some (take 44 sk))"

definition SECRET_A :: string where
  "SECRET_A = replicate 88 CHR ''a''"

definition SECRET_B :: string where
  "SECRET_B = replicate 88 CHR ''b''"

definition SECRET_C :: string where
  "SECRET_C = replicate 88 CHR ''c''"

definition demo_fs :: "string \<Rightarrow> string option" where
  "demo_fs path =
     (if path = ''one.txt'' then Some (SECRET_A @ [CHR 0x0A] @ SECRET_B @ [CHR 0x0A])
      else if path = ''two.txt''
      then Some (''PRIVATE KEYS:'' @ [CHR 0x0A] @ SECRET_B @ [CHR 0x0A] @ SECRET_C)
      else None)"

text \<open>Token accounts for concrete runs: a raw account of 165 bytes whose amount field
  (bytes 64 to 71, little endian) holds the two given low bytes, and a parsed account
  with the given parsed owner. The quiet ledger owns nothing, accepts every
  transaction and never fails.\<close>

definition token_data :: "8 word \<Rightarrow> 8 word \<Rightarrow> bytes" where
  "token_data lo hi = replicate 64 0 @ [lo, hi, 0, 0, 0, 0, 0, 0] @ replicate 93 0"

definition token_account :: "nat \<Rightarrow> 8 word \<Rightarrow> 8 word \<Rightarrow> bytes AccountInfo" where
  "token_account lam lo hi =
     \<lparr> lamports = lam, data = token_data lo hi, owner = TOKEN_PROGRAM_ID,
       executable = False, rentEpoch = None \<rparr>"

definition parsed_account :: "nat \<Rightarrow> pubkey \<Rightarrow> ParsedOrBuffer AccountInfo" where
  "parsed_account lam parsedOwner =
     \<lparr> lamports = lam, data = ParsedAccountData (Some parsedOwner) [0x7B, 0x7D],
       owner = TOKEN_PROGRAM_ID, executable = False, rentEpoch = None \<rparr>"

definition quiet_rt :: "unit Runtime" where
  "quiet_rt =
     \<lparr> getTokenAccountsByOwner = (\<lambda>walletPk programId w. (Inr [], w)),
       getParsedProgramAccounts = (\<lambda>programId dataSize offset walletPk w. (Inr [], w)),
       getParsedTokenAccountsByOwner = (\<lambda>walletPk programId w. (Inr [], w)),
       getMinimumBalanceForRentExemption = (\<lambda>dataSize w. (Inr 2039280, w)),
       getAccountInfo = (\<lambda>pk w. (Inr None, w)),
       getLatestBlockhash = (\<lambda>w. (Inr ''blockhash'', w)),
       getBalance = (\<lambda>pk w. (Inr 0, w)),
       sendAndConfirmTransaction = (\<lambda>tx w. (Inr ''signature'', w)),
       keypairFromSecret = demo_derive \<rparr>"

text \<open>The scenario of the discovery test: the owner-indexed lookup finds A and B, the
  program scan finds B and C (and an account of somebody else), the parsed lookup
  throws.\<close>

definition discovery_rt :: "unit Runtime" where
  "discovery_rt = quiet_rt
     \<lparr> getTokenAccountsByOwner :=
         (\<lambda>walletPk programId w.
            (Inr (if programId = TOKEN_PROGRAM_ID
                  then [(''A'', token_account 2039280 0 0), (''B'', token_account 2039280 5 0)]
                  else []), w)),
       getParsedProgramAccounts :=
         (\<lambda>programId dataSize offset walletPk w.
            (Inr [(''B'', parsed_account 2039280 walletPk),
                  (''C'', parsed_account 2039280 walletPk),
                  (''D'', parsed_account 2039280 ''somebody else'')], w)),
       getParsedTokenAccountsByOwner :=
         (\<lambda>walletPk programId w. (Inl (Error ''Method not found''), w)) \<rparr>"

text \<open>A ledger whose owner-indexed lookup answers for the Standard program and throws
  for the Extended one.\<close>

definition partial_rt :: "unit Runtime" where
  "partial_rt = quiet_rt
     \<lparr> getTokenAccountsByOwner :=
         (\<lambda>walletPk programId w.
            (if programId = TOKEN_PROGRAM_ID then Inr [(''A'', token_account 2039280 0 0)]
             else Inl (Error ''Invalid param: unrecognized Token program id''), w)) \<rparr>"

text \<open>A small ledger for runs of the pipeline. Its state is the list of the token
  accounts closed so far: a closed account is no longer found nor read. The ledger
  knows the keys, the token accounts with the wallet that owns each, and the native
  balances; it rejects the transactions picked by \<open>rejected\<close> with an error that
  is not a rate limit and accepts every other one.\<close>

definition pipeline_rt ::
  "(string \<times> pubkey) list \<Rightarrow> (pubkey \<times> TokenAccount) list \<Rightarrow> (pubkey \<Rightarrow> nat)
     \<Rightarrow> (Transaction \<Rightarrow> bool) \<Rightarrow> pubkey list Runtime" where
  "pipeline_rt keys accounts balances rejected =
     \<lparr> getTokenAccountsByOwner =
         (\<lambda>walletPk programId closed.
            (Inr (if programId = TOKEN_PROGRAM_ID
                  then map snd (filter (\<lambda>entry. fst entry = walletPk
                                          \<and> fst (snd entry) \<notin> set closed) accounts)
                  else []), closed)),
       getParsedProgramAccounts = (\<lambda>programId dataSize offset walletPk closed. (Inr [], closed)),
       getParsedTokenAccountsByOwner = (\<lambda>walletPk programId closed. (Inr [], closed)),
       getMinimumBalanceForRentExemption = (\<lambda>dataSize closed. (Inr 2039280, closed)),
       getAccountInfo =
         (\<lambda>pk closed.
            (Inr (if pk \<in> set closed then None else map_of (map snd accounts) pk), closed)),
       getLatestBlockhash = (\<lambda>closed. (Inr ''blockhash'', closed)),
       getBalance = (\<lambda>pk closed. (Inr (balances pk), closed)),
       sendAndConfirmTransaction =
         (\<lambda>tx closed.
            if rejected tx then (Inl (Error ''Transaction simulation failed''), closed)
            else (Inr ''signature'', closed_accounts (instructions tx) @ closed)),
       keypairFromSecret = map_of keys \<rparr>"

definition FEE_PAYER :: Keypair where
  "FEE_PAYER = Keypair ''f-secret'' ''F''"

text \<open>Wallet W owns one token account A with a single lamport and no tokens, and has
  a native balance of a single lamport.\<close>

definition dust_rt :: "pubkey list Runtime" where
  "dust_rt =
     pipeline_rt [(''w-secret'', ''W'')] [(''W'', (''A'', token_account 1 0 0))]
       (\<lambda>pk. if pk = ''W'' then 1 else 0) (\<lambda>tx. False)"

text \<open>Wallet W owns one token account A with 1000 token units (bytes E8 03); the
  ledger rejects every transaction that closes an account.\<close>

definition stuck_rt :: "pubkey list Runtime" where
  "stuck_rt =
     pipeline_rt [(''w-secret'', ''W'')] [(''W'', (''A'', token_account 2039280 0xE8 0x03))]
       (\<lambda>pk. 0) (\<lambda>tx. list_ex is_close (instructions tx))"

text \<open>Wallet X owns one token account A with 1000 token units and 2,039,280 lamports;
  wallet Y owns no token account and has 500,000 lamports; the ledger rejects the
  sweep of Y.\<close>

definition two_wallets_rt :: "pubkey list Runtime" where
  "two_wallets_rt =
     pipeline_rt [(''x-secret'', ''X''), (''y-secret'', ''Y'')]
       [(''X'', (''A'', token_account 2039280 0xE8 0x03))]
       (\<lambda>pk. if pk = ''Y'' then 500000 else 0)
       (\<lambda>tx. instructions tx = [TransferInstruction ''Y'' ''F'' 500000])"

text \<open>Wallet W owns an account A without lamports and two accounts B and C with
  lamports.\<close>

definition mixed_rt :: "pubkey list Runtime" where
  "mixed_rt =
     pipeline_rt [(''w-secret'', ''W'')]
       [(''W'', (''A'', token_account 0 0 0)), (''W'', (''B'', token_account 2039280 0 0)),
        (''W'', (''C'', token_account 5 0 0))]
       (\<lambda>pk. 0) (\<lambda>tx. False)"

text \<open>Wallet W owns one token account A with 2,039,280 lamports and no tokens.\<close>

definition solo_rt :: "pubkey list Runtime" where
  "solo_rt =
     pipeline_rt [(''w-secret'', ''W'')] [(''W'', (''A'', token_account 2039280 0 0))]
       (\<lambda>pk. 0) (\<lambda>tx. False)"

text \<open>Three progress callbacks: one that takes every report, one whose window is
  gone, so that every call throws, and one that throws when it is told of a
  collected amount.\<close>

definition reporting_callback :: "'w callback" where
  "reporting_callback cur tot wallet st w = None"

definition destroyed_callback :: "'w callback" where
  "destroyed_callback cur tot wallet st w = Some (Error ''Object has been destroyed'')"

definition collected_rejecting_callback :: "'w callback" where
  "collected_rejecting_callback cur tot wallet st w =
     (case st of
        Collected recovered \<Rightarrow> Some (Error ''Cannot render the amount'')
      | _ \<Rightarrow> None)"

section \<open>Laws of the effect combinators\<close>

lemma io_return_bind [simp]: "io_bind (io_return x) f = f x"
  by (rule ext) (simp add: io_bind_def io_return_def split: prod.splits)

lemma io_throw_bind [simp]: "io_bind (io_throw e) f = io_throw e"
  by (rule ext) (simp add: io_bind_def io_throw_def)

lemma io_catch_return [simp]: "io_catch (io_return x) h = io_return x"
  by (rule ext) (simp add: io_catch_def io_return_def)

lemma io_catch_throw [simp]: "io_catch (io_throw e) h = h e"
  by (rule ext) (simp add: io_catch_def io_throw_def split: prod.splits)

lemma io_bind_Inr:
  "m w = (Inr x, evs, w') \<Longrightarrow>
   io_bind m f w = (case f x w' of (r, evs', w'') \<Rightarrow> (r, evs @ evs', w''))"
  by (simp add: io_bind_def)

lemma io_bind_Inl: "m w = (Inl e, evs, w') \<Longrightarrow> io_bind m f w = (Inl e, evs, w')"
  by (simp add: io_bind_def)

lemma io_catch_Inr: "m w = (Inr x, evs, w') \<Longrightarrow> io_catch m h w = (Inr x, evs, w')"
  by (simp add: io_catch_def)

lemma io_catch_Inl:
  "m w = (Inl e, evs, w') \<Longrightarrow>
   io_catch m h w = (case h e w' of (r, evs', w'') \<Rightarrow> (r, evs @ evs', w''))"
  by (simp add: io_catch_def)

section \<open>The retry policy\<close>

lemma retry_loop_Inr:
  "attempt \<le> maxRetries \<Longrightarrow> fn w = (Inr v, evs, w') \<Longrightarrow>
   retry_loop fn maxRetries baseDelay attempt w = (Inr v, evs, w')"
  by (subst retry_loop.simps) (simp add: io_catch_def)

lemma retry_loop_rate_limited:
  "attempt < maxRetries \<Longrightarrow> fn w = (Inl e, evs, w') \<Longrightarrow> is_rate_limit e \<Longrightarrow>
   retry_loop fn maxRetries baseDelay attempt w =
     (case retry_loop fn maxRetries baseDelay (Suc attempt) w' of
        (r, evs', w'') \<Rightarrow> (r, evs @ Sleep (baseDelay * 2 ^ attempt) # evs', w''))"
  by (subst retry_loop.simps)
     (simp add: io_catch_def io_bind_def sleep_def io_emit_def split: prod.splits)

lemma retry_loop_other_error:
  "attempt \<le> maxRetries \<Longrightarrow> fn w = (Inl e, evs, w') \<Longrightarrow> \<not> is_rate_limit e \<Longrightarrow>
   retry_loop fn maxRetries baseDelay attempt w = (Inl e, evs, w')"
  by (subst retry_loop.simps) (simp add: io_catch_def io_throw_def)

lemma retry_loop_last:
  "fn w = (Inl e, evs, w') \<Longrightarrow>
   retry_loop fn maxRetries baseDelay maxRetries w = (Inl e, evs, w')"
  by (subst retry_loop.simps) (simp add: io_catch_def io_throw_def)

text \<open>
  C7. A remote call wrapped by \<open>retryWithBackoff\<close> with at least two retries (the
  default is three) that is rejected twice with a rate-limit error and then resolves
  returns the resolved value after exactly two delays, the base delay and then its
  double (strictly longer for a positive base delay); the call is made three times.
  A call rejected with any other error is made once: the error is rethrown with no
  delay and no retry.
\<close>

theorem retry_behaviour:
  "(2 \<le> maxRetries \<and> call w0 = (Inl e1, w1) \<and> is_rate_limit e1 \<and>
    call w1 = (Inl e2, w2) \<and> is_rate_limit e2 \<and> call w2 = (Inr v, w3)
    \<longrightarrow> retryWithBackoff (io_await call) maxRetries baseDelay w0 =
          (Inr v, [Sleep baseDelay, Sleep (2 * baseDelay)], w3)
        \<and> (0 < baseDelay \<longrightarrow> baseDelay < 2 * baseDelay))
   \<and> (call w0 = (Inl e, w1) \<and> \<not> is_rate_limit e
    \<longrightarrow> retryWithBackoff (io_await call) maxRetries baseDelay w0 = (Inl e, [], w1))"
proof (intro conjI impI)
  assume h: "2 \<le> maxRetries \<and> call w0 = (Inl e1, w1) \<and> is_rate_limit e1 \<and>
    call w1 = (Inl e2, w2) \<and> is_rate_limit e2 \<and> call w2 = (Inr v, w3)"
  have a0: "io_await call w0 = (Inl e1, [], w1)" using h by (simp add: io_await_def)
  have a1: "io_await call w1 = (Inl e2, [], w2)" using h by (simp add: io_await_def)
  have a2: "io_await call w2 = (Inr v, [], w3)" using h by (simp add: io_await_def)
  have s2: "retry_loop (io_await call) maxRetries baseDelay (Suc (Suc 0)) w2 = (Inr v, [], w3)"
    using h a2 by (simp add: retry_loop_Inr)
  have s1: "retry_loop (io_await call) maxRetries baseDelay (Suc 0) w1 =
      (Inr v, [Sleep (2 * baseDelay)], w3)"
    using h a1 s2 by (simp add: retry_loop_rate_limited mult.commute)
  show "retryWithBackoff (io_await call) maxRetries baseDelay w0 =
      (Inr v, [Sleep baseDelay, Sleep (2 * baseDelay)], w3)"
    unfolding retryWithBackoff_def using h a0 s1 by (simp add: retry_loop_rate_limited)
next
  assume "0 < baseDelay" then show "baseDelay < 2 * baseDelay" by simp
next
  assume h: "call w0 = (Inl e, w1) \<and> \<not> is_rate_limit e"
  then have "io_await call w0 = (Inl e, [], w1)" by (simp add: io_await_def)
  then show "retryWithBackoff (io_await call) maxRetries baseDelay w0 = (Inl e, [], w1)"
    unfolding retryWithBackoff_def using h by (simp add: retry_loop_other_error)
qed

theorem retry_behaviour_witness:
  "retry (io_await flaky_call) 0 = (Inr ''ok'', [Sleep 1000, Sleep 2000], 3)
   \<and> retry (io_await refusing_call) 0 = (Inl (Error ''insufficient funds''), [], 1)"
proof -
  have r: "is_rate_limit (Error ''429 Too Many Requests'')" by simp
  have n: "\<not> is_rate_limit (Error ''insufficient funds'')" by simp
  have "retryWithBackoff (io_await flaky_call) 3 1000 0 =
      (Inr ''ok'', [Sleep 1000, Sleep (2 * 1000)], 3)"
    using retry_behaviour [of 3 flaky_call 0 "Error ''429 Too Many Requests''" 1
        "Error ''429 Too Many Requests''" 2 "''ok''" 3 1000] r
    by (simp add: flaky_call_def)
  moreover have "retryWithBackoff (io_await refusing_call) 3 1000 0 =
      (Inl (Error ''insufficient funds''), [], 1)"
    using retry_behaviour [of 3 refusing_call 0 _ _ _ _ _ _ 1000 "Error ''insufficient funds''"] n
    by (simp add: refusing_call_def)
  ultimately show ?thesis by (simp add: retry_def)
qed

section \<open>Events and exceptions of computations\<close>

lemma emitsI: "(\<And>w. list_all P (fst (snd (m w)))) \<Longrightarrow> emits P m"
  by (simp add: emits_def)

lemma emitsD: "emits P m \<Longrightarrow> m w = (r, evs, w') \<Longrightarrow> list_all P evs"
  by (auto simp: emits_def dest: spec [of _ w])

lemma emits_mono: "emits P m \<Longrightarrow> (\<And>e. P e \<Longrightarrow> Q e) \<Longrightarrow> emits Q m"
  by (auto simp: emits_def list_all_iff)

lemma emits_return [simp]: "emits P (io_return x)"
  by (simp add: emits_def io_return_def)

lemma emits_throw [simp]: "emits P (io_throw e)"
  by (simp add: emits_def io_throw_def)

lemma emits_await [simp]: "emits P (io_await call)"
  by (simp add: emits_def io_await_def split: prod.splits)

lemma emits_emit: "P ev \<Longrightarrow> emits P (io_emit ev)"
  by (simp add: emits_def io_emit_def)

lemma emits_bind: "emits P m \<Longrightarrow> (\<And>x. emits P (f x)) \<Longrightarrow> emits P (io_bind m f)"
  by (auto simp: emits_def io_bind_def split: prod.splits sum.splits)
     (metis fst_conv snd_conv)+

lemma emits_catch: "emits P m \<Longrightarrow> (\<And>e. emits P (h e)) \<Longrightarrow> emits P (io_catch m h)"
  by (auto simp: emits_def io_catch_def split: prod.splits sum.splits)
     (metis fst_conv snd_conv)+

lemma emits_for_of:
  "(\<And>x s. x \<in> set xs \<Longrightarrow> emits P (body x s)) \<Longrightarrow> emits P (for_of body xs s)"
  by (induction xs arbitrary: s) (auto intro!: emits_bind)

lemma emits_retry_loop:
  "emits P fn \<Longrightarrow> (\<And>d. P (Sleep d)) \<Longrightarrow> emits P (retry_loop fn maxRetries baseDelay attempt)"
proof (induction fn maxRetries baseDelay attempt rule: retry_loop.induct)
  case (1 fn maxRetries baseDelay attempt)
  have step: "emits P (retry_loop fn maxRetries baseDelay (attempt + 1))"
    if "attempt \<le> maxRetries" "attempt \<noteq> maxRetries" "is_rate_limit e" for e
    using "1.IH" [OF that] "1.prems" by simp
  show ?case
    by (subst retry_loop.simps)
       (auto intro!: emits_catch emits_bind emits_emit "1.prems" simp: sleep_def
          dest: step [unfolded Suc_eq_plus1 [symmetric]])
qed

lemma emits_retry: "emits P fn \<Longrightarrow> (\<And>d. P (Sleep d)) \<Longrightarrow> emits P (retry fn)"
  by (simp add: retry_def retryWithBackoff_def emits_retry_loop)

lemma emits_send: "P (Submit tx) \<Longrightarrow> emits P (send rt tx)"
  by (auto simp: send_def intro!: emits_bind emits_emit)

lemma emits_sleep: "P (Sleep d) \<Longrightarrow> emits P (sleep d)"
  by (simp add: sleep_def emits_emit)

lemma no_throw_return [simp]: "no_throw (io_return x)"
  by (simp add: no_throw_def io_return_def)

lemma no_throw_emit [simp]: "no_throw (io_emit e)"
  by (simp add: no_throw_def io_emit_def)

lemma no_throw_bind: "no_throw m \<Longrightarrow> (\<And>x. no_throw (f x)) \<Longrightarrow> no_throw (io_bind m f)"
  by (auto simp: no_throw_def io_bind_def split: prod.splits sum.splits)
     (metis fst_conv isl_def)+

lemma no_throw_catch: "(\<And>e. no_throw (h e)) \<Longrightarrow> no_throw (io_catch m h)"
  by (auto simp: no_throw_def io_catch_def split: prod.splits sum.splits)
     (metis fst_conv isl_def)+

lemma no_throw_for_of: "(\<And>x s. no_throw (body x s)) \<Longrightarrow> no_throw (for_of body xs s)"
  by (induction xs arbitrary: s) (auto intro!: no_throw_bind)

lemma no_throwD: "no_throw m \<Longrightarrow> \<exists>x evs w'. m w = (Inr x, evs, w')"
  by (cases "m w"; cases "fst (m w)") (auto simp: no_throw_def dest: spec [of _ w])

lemma no_throw_method1: "no_throw (method1 rt pk)"
  unfolding method1_def by (intro no_throw_catch no_throw_bind) simp_all
lemma no_throw_method2: "no_throw (method2 rt pk)"
  unfolding method2_def by (intro no_throw_catch no_throw_bind) simp_all
lemma no_throw_method3: "no_throw (method3 rt pk)"
  unfolding method3_def by (intro no_throw_catch no_throw_bind) simp_all
lemma no_throw_getTokenAccounts: "no_throw (getTokenAccounts rt pk)"
  unfolding getTokenAccounts_def by (intro no_throw_catch) simp
lemma no_throw_closeTokenAccount: "no_throw (closeTokenAccount rt fpo pk kp dest)"
  unfolding closeTokenAccount_def by (intro no_throw_catch) simp
lemma no_throw_transfer: "no_throw (transferSolToFeePayer rt fpo kp amount)"
  unfolding transferSolToFeePayer_def by (intro no_throw_catch) simp
lemma no_throw_burn_step: "no_throw (burn_step rt fp kp ta c)"
  unfolding burn_step_def by (intro no_throw_catch) simp
lemma no_throw_burnAllTokens: "no_throw (burnAllTokens rt fpo kp)"
  unfolding burnAllTokens_def
  by (cases fpo) (auto intro!: no_throw_bind no_throw_catch no_throw_for_of no_throw_burn_step)

text \<open>Running a retried call that answers, or fails for good, at the first attempt.\<close>

lemma retry_await_Inr: "call w = (Inr v, w') \<Longrightarrow> retry (io_await call) w = (Inr v, [], w')"
  by (simp add: retry_def retryWithBackoff_def retry_loop_Inr io_await_def)

lemma retry_await_other:
  "call w = (Inl e, w') \<Longrightarrow> \<not> is_rate_limit e \<Longrightarrow> retry (io_await call) w = (Inl e, [], w')"
  by (simp add: retry_def retryWithBackoff_def retry_loop_other_error io_await_def)

lemma send_run:
  "send rt tx w = (case sendAndConfirmTransaction rt tx w of (r, w') \<Rightarrow> (r, [Submit tx], w'))"
  by (simp add: send_def io_bind_def io_emit_def io_await_def split: prod.splits sum.splits)

lemma retry_send_Inr:
  "sendAndConfirmTransaction rt tx w = (Inr s, w') \<Longrightarrow> retry (send rt tx) w = (Inr s, [Submit tx], w')"
  by (simp add: retry_def retryWithBackoff_def retry_loop_Inr send_run)

lemma retry_send_other:
  "sendAndConfirmTransaction rt tx w = (Inl e, w') \<Longrightarrow> \<not> is_rate_limit e \<Longrightarrow>
   retry (send rt tx) w = (Inl e, [Submit tx], w')"
  by (simp add: retry_def retryWithBackoff_def retry_loop_other_error send_run)

lemmas run_simps = io_bind_def io_catch_def io_return_def io_throw_def io_emit_def
  retry_await_Inr retry_await_other retry_send_Inr retry_send_other sleep_def

section \<open>The wallet store: index safety\<close>

text \<open>
  C10. For every index outside the bounds of the store (negative, or at least the
  wallet count) \<open>getWallet\<close> returns null and \<open>updateWalletInfo\<close> leaves the store
  as it is.
\<close>

theorem out_of_bounds_index_is_safe:
  "index < 0 \<or> index \<ge> int (getWalletCount wallets) \<Longrightarrow>
   getWallet index wallets = None \<and> updateWalletInfo index bal rentExempt rentAmt canCl wallets = wallets"
  by (auto simp: getWallet_def updateWalletInfo_def getWalletCount_def)

theorem out_of_bounds_index_is_safe_witness:
  "getWallet (- 1) [fresh_wallet (''secret'', ''identity'')] = None
   \<and> updateWalletInfo (- 1) 5 0 7 True [fresh_wallet (''secret'', ''identity'')]
       = [fresh_wallet (''secret'', ''identity'')]
   \<and> getWallet 1 [fresh_wallet (''secret'', ''identity'')] = None
   \<and> updateWalletInfo 1 5 0 7 True [fresh_wallet (''secret'', ''identity'')]
       = [fresh_wallet (''secret'', ''identity'')]"
  using out_of_bounds_index_is_safe [of "- 1" "[fresh_wallet (''secret'', ''identity'')]" 5 0 7 True]
    out_of_bounds_index_is_safe [of 1 "[fresh_wallet (''secret'', ''identity'')]" 5 0 7 True]
  by (simp add: getWalletCount_def)

section \<open>The wallet store: deduplication\<close>

lemma map_set_keys:
  "map fst (map_set k v m) = (if k \<in> set (map fst m) then map fst m else map fst m @ [k])"
  by (induction m) auto

lemma map_set_distinct: "distinct (map fst m) \<Longrightarrow> distinct (map fst (map_set k v m))"
  by (simp add: map_set_keys)

lemma map_set_new: "k \<notin> set (map fst m) \<Longrightarrow> map_set k v m = m @ [(k, v)]"
  by (induction m) auto

lemma map_set_ok: "keymap_ok m \<Longrightarrow> snd v = k \<Longrightarrow> keymap_ok (map_set k v m)"
  by (induction m) (auto simp: keymap_ok_def)

lemma fold_existing:
  "distinct (map fst m) \<Longrightarrow> keymap_ok m \<Longrightarrow>
   distinct (map fst (fold (\<lambda>wallet m. map_set (publicKey wallet) (privateKey wallet, publicKey wallet) m) ws m))
   \<and> keymap_ok (fold (\<lambda>wallet m. map_set (publicKey wallet) (privateKey wallet, publicKey wallet) m) ws m)
   \<and> set (map fst (fold (\<lambda>wallet m. map_set (publicKey wallet) (privateKey wallet, publicKey wallet) m) ws m))
       = set (map fst m) \<union> set (map publicKey ws)"
proof (induction ws arbitrary: m)
  case Nil then show ?case by simp
next
  case (Cons w ws)
  have d: "distinct (map fst (map_set (publicKey w) (privateKey w, publicKey w) m))"
    using Cons.prems by (simp add: map_set_distinct)
  have k: "keymap_ok (map_set (publicKey w) (privateKey w, publicKey w) m)"
    using Cons.prems by (simp add: map_set_ok)
  show ?case using Cons.IH [OF d k] by (auto simp: map_set_keys)
qed

lemma existing_keymap_props:
  "distinct (map fst (existing_keymap ws)) \<and> keymap_ok (existing_keymap ws)
   \<and> set (map fst (existing_keymap ws)) = set (map publicKey ws)"
  unfolding existing_keymap_def using fold_existing [of "[]" ws] by (simp add: keymap_ok_def)

lemma fold_existing_distinct:
  "distinct (map fst m @ map publicKey ws) \<Longrightarrow>
   fold (\<lambda>wallet m. map_set (publicKey wallet) (privateKey wallet, publicKey wallet) m) ws m
     = m @ map (\<lambda>w. (publicKey w, (privateKey w, publicKey w))) ws"
proof (induction ws arbitrary: m)
  case Nil then show ?case by simp
next
  case (Cons w ws)
  have n: "publicKey w \<notin> set (map fst m)" using Cons.prems by auto
  have "distinct (map fst (m @ [(publicKey w, (privateKey w, publicKey w))]) @ map publicKey ws)"
    using Cons.prems by auto
  from Cons.IH [OF this] show ?case using n by (simp add: map_set_new)
qed

lemma existing_keymap_distinct:
  "distinct (map publicKey ws) \<Longrightarrow>
   existing_keymap ws = map (\<lambda>w. (publicKey w, (privateKey w, publicKey w))) ws"
  unfolding existing_keymap_def using fold_existing_distinct [of "[]" ws] by simp


lemma map_set_derived:
  "keymap_derived d m \<Longrightarrow> d (fst v) = Some k \<Longrightarrow> keymap_derived d (map_set k v m)"
  by (induction m) (auto simp: keymap_derived_def)

lemma fold_existing_derived:
  "keymap_derived d m \<Longrightarrow> store_derived d ws \<Longrightarrow>
   keymap_derived d (fold (\<lambda>wallet m. map_set (publicKey wallet) (privateKey wallet, publicKey wallet) m) ws m)"
  by (induction ws arbitrary: m) (auto simp: store_derived_def map_set_derived)

lemma existing_keymap_derived: "store_derived d ws \<Longrightarrow> keymap_derived d (existing_keymap ws)"
  unfolding existing_keymap_def using fold_existing_derived [of d "[]" ws]
  by (simp add: keymap_derived_def)

lemma dedupe_keys_distinct:
  "dedupe_keys d pks m dups = Inr (m', dups') \<Longrightarrow> distinct (map fst m) \<Longrightarrow> keymap_ok m \<Longrightarrow>
   distinct (map fst m') \<and> keymap_ok m' \<and> (\<exists>new. m' = m @ new)"
proof (induction pks arbitrary: m dups)
  case Nil then show ?case by simp
next
  case (Cons sk pks)
  from Cons.prems(1) obtain p where p: "d sk = Some p" by (auto split: option.splits)
  show ?case
  proof (cases "map_has m p \<or> find (\<lambda>w. fst w = sk) (map_values m) \<noteq> None")
    case True
    then have r: "dedupe_keys d pks m (dups @ [p]) = Inr (m', dups')"
      using Cons.prems(1) p by (auto split: if_splits)
    show ?thesis using Cons.IH [OF r Cons.prems(2) Cons.prems(3)] .
  next
    case False
    then have r: "dedupe_keys d pks (map_set p (sk, p) m) dups = Inr (m', dups')"
      using Cons.prems(1) p by (auto split: if_splits)
    have n: "p \<notin> set (map fst m)" using False by (simp add: map_has_def)
    have d1: "distinct (map fst (map_set p (sk, p) m))"
      using Cons.prems(2) by (simp add: map_set_distinct)
    have k1: "keymap_ok (map_set p (sk, p) m)" using Cons.prems(3) by (simp add: map_set_ok)
    from Cons.IH [OF r d1 k1] show ?thesis using n by (auto simp: map_set_new)
  qed
qed

lemma find_private_key_known:
  "keymap_derived d m \<Longrightarrow> find (\<lambda>w. fst w = sk) (map_values m) \<noteq> None \<Longrightarrow> d sk = Some p
   \<Longrightarrow> p \<in> set (map fst m)"
proof -
  assume a: "keymap_derived d m" "find (\<lambda>w. fst w = sk) (map_values m) \<noteq> None" "d sk = Some p"
  from a(2) obtain kv where kv: "kv \<in> set m" "fst (snd kv) = sk"
    by (auto simp: find_None_iff map_values_def)
  from a(1) kv have "d sk = Some (fst kv)" by (auto simp: keymap_derived_def list_all_iff)
  with a(3) have "fst kv = p" by simp
  with kv show ?thesis by force
qed

lemma dedupe_keys_identities:
  "dedupe_keys d pks m dups = Inr (m', dups') \<Longrightarrow> keymap_derived d m \<Longrightarrow>
   keymap_derived d m' \<and> set (map fst m') = set (map fst m) \<union> derived d pks"
proof (induction pks arbitrary: m dups)
  case Nil then show ?case by (simp add: derived_def)
next
  case (Cons sk pks)
  from Cons.prems(1) obtain p where p: "d sk = Some p" by (auto split: option.splits)
  have der: "derived d (sk # pks) = insert p (derived d pks)"
    using p by (auto simp: derived_def)
  show ?case
  proof (cases "map_has m p \<or> find (\<lambda>w. fst w = sk) (map_values m) \<noteq> None")
    case True
    then have r: "dedupe_keys d pks m (dups @ [p]) = Inr (m', dups')"
      using Cons.prems(1) p by (auto split: if_splits)
    have "p \<in> set (map fst m)"
      using True find_private_key_known [OF Cons.prems(2) _ p] by (auto simp: map_has_def)
    then show ?thesis using Cons.IH [OF r Cons.prems(2)] der by auto
  next
    case False
    then have r: "dedupe_keys d pks (map_set p (sk, p) m) dups = Inr (m', dups')"
      using Cons.prems(1) p by (auto split: if_splits)
    have k1: "keymap_derived d (map_set p (sk, p) m)"
      using Cons.prems(2) p by (simp add: map_set_derived)
    from Cons.IH [OF r k1] show ?thesis using der by (auto simp: map_set_keys)
  qed
qed

lemma dedupe_keys_error:
  "isl (dedupe_keys d pks m dups) = (\<exists>sk \<in> set pks. d sk = None)"
  by (induction pks arbitrary: m dups) (auto split: option.splits)

lemma publicKey_fresh_comp: "map (publicKey \<circ> fresh_wallet) (map_values m) = map (snd \<circ> snd) m"
  by (simp add: fresh_wallet_def map_values_def)

lemma publicKey_fresh: "map publicKey (map fresh_wallet (map_values m)) = map (snd \<circ> snd) m"
  by (simp add: fresh_wallet_def map_values_def)

lemma keymap_ok_keys: "keymap_ok m \<Longrightarrow> map (snd \<circ> snd) m = map fst m"
  by (induction m) (auto simp: keymap_ok_def)

lemma store_derived_fresh:
  "keymap_ok m \<Longrightarrow> keymap_derived d m \<Longrightarrow> store_derived d (map fresh_wallet (map_values m))"
  by (induction m) (auto simp: keymap_ok_def keymap_derived_def store_derived_def fresh_wallet_def map_values_def)

text \<open>The two outcomes of a load that keeps the existing wallets.\<close>

lemma load_cases:
  obtains (failed) e where "loadWalletsFromFile d fs p False ws = (Inl e, ws)"
  | (loaded) content m dups where "fs p = Some content"
      "dedupe_keys d (fst (parse_wallet_file content)) (existing_keymap ws) [] = Inr (m, dups)"
      "loadWalletsFromFile d fs p False ws
         = (Inr (map fresh_wallet (map_values m)), map fresh_wallet (map_values m))"
proof (cases "fs p")
  case None
  then show ?thesis using failed by (simp add: loadWalletsFromFile_def)
next
  case (Some content)
  show ?thesis
  proof (cases "fst (parse_wallet_file content) = []")
    case True
    then show ?thesis using Some failed by (simp add: loadWalletsFromFile_def)
  next
    case False
    show ?thesis
    proof (cases "dedupe_keys d (fst (parse_wallet_file content)) (existing_keymap ws) []")
      case (Inl e)
      then show ?thesis using Some False failed by (simp add: loadWalletsFromFile_def)
    next
      case (Inr r)
      obtain m dups where r: "r = (m, dups)" by (cases r)
      show ?thesis using Some False Inr r loaded [of content m dups]
        by (simp add: loadWalletsFromFile_def Let_def)
    qed
  qed
qed

lemma load_distinct:
  "distinct (map publicKey ws) \<Longrightarrow> distinct (map publicKey (snd (loadWalletsFromFile d fs p False ws)))"
proof (cases rule: load_cases [of d fs p ws])
  case (failed e)
  assume "distinct (map publicKey ws)" with failed show ?thesis by simp
next
  case (loaded content m dups)
  from dedupe_keys_distinct [OF loaded(2)] existing_keymap_props [of ws]
  have "distinct (map fst m)" "keymap_ok m" by auto
  then show ?thesis using loaded(3) by (simp add: publicKey_fresh_comp keymap_ok_keys)
qed

lemma load_error_independent:
  "isl (fst (loadWalletsFromFile d fs p False ws)) = isl (fst (loadWalletsFromFile d fs p False []))"
proof (cases "fs p")
  case None then show ?thesis by (simp add: loadWalletsFromFile_def)
next
  case (Some content)
  have "isl (dedupe_keys d (fst (parse_wallet_file content)) (existing_keymap ws) [])
      = isl (dedupe_keys d (fst (parse_wallet_file content)) (existing_keymap []) [])"
    by (simp add: dedupe_keys_error)
  then show ?thesis using Some
    by (auto simp: loadWalletsFromFile_def Let_def split: sum.splits prod.splits)
qed

lemma load_identities:
  assumes "store_derived d ws"
  shows "store_derived d (snd (loadWalletsFromFile d fs p False ws))
       \<and> set (map publicKey (snd (loadWalletsFromFile d fs p False ws)))
           = set (map publicKey ws) \<union> file_identities d fs p"
proof (cases rule: load_cases [of d fs p ws])
  case (failed e)
  then have "isl (fst (loadWalletsFromFile d fs p False []))"
    using load_error_independent [of d fs p ws] by simp
  then have "file_identities d fs p = {}"
    by (auto simp: file_identities_def split: sum.splits)
  with failed assms show ?thesis by simp
next
  case (loaded content m dups)
  have ok: "keymap_ok m" "distinct (map fst m)"
    using dedupe_keys_distinct [OF loaded(2)] existing_keymap_props [of ws] by auto
  have id: "keymap_derived d m"
     "set (map fst m) = set (map fst (existing_keymap ws)) \<union> derived d (fst (parse_wallet_file content))"
    using dedupe_keys_identities [OF loaded(2) existing_keymap_derived [OF assms]] by auto
  have "\<not> isl (fst (loadWalletsFromFile d fs p False []))"
    using load_error_independent [of d fs p ws] loaded(3) by simp
  then obtain m0 dups0 where
    l0: "dedupe_keys d (fst (parse_wallet_file content)) (existing_keymap []) [] = Inr (m0, dups0)"
      "loadWalletsFromFile d fs p False [] = (Inr (map fresh_wallet (map_values m0)), map fresh_wallet (map_values m0))"
    using loaded(1)
    by (cases rule: load_cases [of d fs p "[]"]) auto
  have ok0: "keymap_ok m0"
    using dedupe_keys_distinct [OF l0(1)] existing_keymap_props [of "[]"] by auto
  have id0: "set (map fst m0) = derived d (fst (parse_wallet_file content))"
    using dedupe_keys_identities [OF l0(1)] existing_keymap_props [of "[]"]
    by (auto simp: existing_keymap_def keymap_derived_def)
  have fi: "file_identities d fs p = derived d (fst (parse_wallet_file content))"
    using l0(2) id0 ok0 by (simp add: file_identities_def publicKey_fresh_comp keymap_ok_keys)
  show ?thesis
    using loaded(3) ok id fi existing_keymap_props [of ws]
    by (simp add: publicKey_fresh_comp keymap_ok_keys store_derived_fresh)
qed

lemma load_wallets_props:
  "distinct (map publicKey ws) \<Longrightarrow> store_derived d ws \<Longrightarrow>
   distinct (map publicKey (load_wallets d fs paths ws))
   \<and> store_derived d (load_wallets d fs paths ws)
   \<and> set (map publicKey (load_wallets d fs paths ws))
       = set (map publicKey ws) \<union> \<Union> (file_identities d fs ` set paths)"
proof (induction paths arbitrary: ws)
  case Nil then show ?case by simp
next
  case (Cons p paths)
  have d1: "distinct (map publicKey (snd (loadWalletsFromFile d fs p False ws)))"
    using Cons.prems(1) by (rule load_distinct)
  from load_identities [OF Cons.prems(2), of fs p]
  have s1: "store_derived d (snd (loadWalletsFromFile d fs p False ws))"
    and i1: "set (map publicKey (snd (loadWalletsFromFile d fs p False ws)))
           = set (map publicKey ws) \<union> file_identities d fs p" by auto
  from Cons.IH [OF d1 s1] show ?case using i1 by auto
qed

text \<open>
  C2. For every sequence of wallet files loaded one after the other into the initially
  empty store (\<open>clearExisting\<close> false), the store holds at most one record per public
  identity, every record carries the identity derived from its secret, and the
  identities in the store are exactly those the files contribute, so files loaded in
  another order give the same set of identities. A single load keeps the public
  identities of a store distinct. A secret whose derived identity is already in the
  deduplication map is skipped and recorded as a duplicate, and whether a load throws
  does not depend on what the store already holds.
\<close>

theorem wallet_store_one_record_per_identity:
  "distinct (map publicKey (load_wallets derive fs paths []))
   \<and> store_derived derive (load_wallets derive fs paths [])
   \<and> set (map publicKey (load_wallets derive fs paths []))
       = \<Union> (file_identities derive fs ` set paths)
   \<and> (set paths = set paths' \<longrightarrow>
        set (map publicKey (load_wallets derive fs paths []))
          = set (map publicKey (load_wallets derive fs paths' [])))
   \<and> (distinct (map publicKey wallets) \<longrightarrow>
        distinct (map publicKey (snd (loadWalletsFromFile derive fs filePath False wallets))))
   \<and> (derive sk = Some pub \<and> map_has uniqueWallets pub \<longrightarrow>
        dedupe_keys derive (sk # rest) uniqueWallets duplicates
          = dedupe_keys derive rest uniqueWallets (duplicates @ [pub]))
   \<and> isl (fst (loadWalletsFromFile derive fs filePath False wallets))
       = isl (fst (loadWalletsFromFile derive fs filePath False []))"
proof -
  have e: "distinct (map publicKey ([] :: WalletInfo list))" "store_derived derive []"
    by (simp_all add: store_derived_def)
  have a: "distinct (map publicKey (load_wallets derive fs ps []))
      \<and> store_derived derive (load_wallets derive fs ps [])
      \<and> set (map publicKey (load_wallets derive fs ps []))
          = \<Union> (file_identities derive fs ` set ps)" for ps
    using load_wallets_props [OF e, of fs ps] by simp
  show ?thesis
    using a [of paths] a [of paths'] load_distinct [of wallets derive fs filePath]
      load_error_independent [of derive fs filePath wallets]
    by simp
qed

theorem wallet_store_one_record_per_identity_witness:
  "map publicKey (load_wallets demo_derive demo_fs [''one.txt'', ''two.txt''] [])
     = [replicate 44 CHR ''a'', replicate 44 CHR ''b'', replicate 44 CHR ''c'']
   \<and> map publicKey (load_wallets demo_derive demo_fs [''two.txt'', ''one.txt''] [])
     = [replicate 44 CHR ''b'', replicate 44 CHR ''c'', replicate 44 CHR ''a'']
   \<and> distinct (map publicKey (load_wallets demo_derive demo_fs [''one.txt'', ''two.txt''] []))
   \<and> set (map publicKey (load_wallets demo_derive demo_fs [''one.txt'', ''two.txt''] []))
       = set (map publicKey (load_wallets demo_derive demo_fs [''two.txt'', ''one.txt''] []))
   \<and> distinct (map publicKey (snd (loadWalletsFromFile demo_derive demo_fs ''two.txt'' False
        (snd (loadWalletsFromFile demo_derive demo_fs ''one.txt'' False [])))))
   \<and> dedupe_keys demo_derive [SECRET_B] [(take 44 SECRET_B, (SECRET_B, take 44 SECRET_B))] []
       = Inr ([(take 44 SECRET_B, (SECRET_B, take 44 SECRET_B))], [take 44 SECRET_B])"
proof -
  have ev1: "map publicKey (load_wallets demo_derive demo_fs [''one.txt'', ''two.txt''] [])
     = [replicate 44 CHR ''a'', replicate 44 CHR ''b'', replicate 44 CHR ''c'']"
    by code_simp
  have ev2: "map publicKey (load_wallets demo_derive demo_fs [''two.txt'', ''one.txt''] [])
     = [replicate 44 CHR ''b'', replicate 44 CHR ''c'', replicate 44 CHR ''a'']"
    by code_simp
  have ev3: "distinct (map publicKey (snd (loadWalletsFromFile demo_derive demo_fs ''one.txt'' False [])))"
    by code_simp
  have ev4: "demo_derive SECRET_B = Some (take 44 SECRET_B)
      \<and> map_has [(take 44 SECRET_B, (SECRET_B, take 44 SECRET_B))] (take 44 SECRET_B)"
    by (simp add: demo_derive_def SECRET_B_def map_has_def)
  have s: "set [''one.txt'', ''two.txt''] = set [''two.txt'', ''one.txt'']" by auto
  note t = wallet_store_one_record_per_identity
      [of demo_derive demo_fs "[''one.txt'', ''two.txt'']" "[''two.txt'', ''one.txt'']"
          "snd (loadWalletsFromFile demo_derive demo_fs ''one.txt'' False [])" "''two.txt''"
          SECRET_B "take 44 SECRET_B" "[(take 44 SECRET_B, (SECRET_B, take 44 SECRET_B))]"
          "[]" "[]"]
  from t have d: "distinct (map publicKey (load_wallets demo_derive demo_fs [''one.txt'', ''two.txt''] []))"
    by (rule conjunct1)
  from t s have q: "set (map publicKey (load_wallets demo_derive demo_fs [''one.txt'', ''two.txt''] []))
       = set (map publicKey (load_wallets demo_derive demo_fs [''two.txt'', ''one.txt''] []))"
    by blast
  from t ev3 have d2: "distinct (map publicKey (snd (loadWalletsFromFile demo_derive demo_fs
        ''two.txt'' False (snd (loadWalletsFromFile demo_derive demo_fs ''one.txt'' False [])))))"
    by blast
  from t ev4 have "dedupe_keys demo_derive (SECRET_B # [])
        [(take 44 SECRET_B, (SECRET_B, take 44 SECRET_B))] []
      = dedupe_keys demo_derive [] [(take 44 SECRET_B, (SECRET_B, take 44 SECRET_B))]
          ([] @ [take 44 SECRET_B])"
    by blast
  then have k: "dedupe_keys demo_derive [SECRET_B]
        [(take 44 SECRET_B, (SECRET_B, take 44 SECRET_B))] []
      = Inr ([(take 44 SECRET_B, (SECRET_B, take 44 SECRET_B))], [take 44 SECRET_B])"
    by simp
  show ?thesis by (intro conjI ev1 ev2 d q d2 k)
qed

section \<open>Token-account discovery\<close>

lemma map_set_values_subset: "set (map snd (map_set k v m)) \<subseteq> insert v (set (map snd m))"
  by (induction m) auto

lemma map_set_self_keyed:
  "list_all (\<lambda>kv. fst (snd kv) = fst kv) m \<Longrightarrow>
   list_all (\<lambda>kv. fst (snd kv) = fst kv) (map_set (fst x) x m)"
  by (induction m) auto

lemma fold_unique_distinct:
  "distinct (map fst m) \<Longrightarrow>
   distinct (map fst (fold (\<lambda>account m. map_set (fst account) account m) xs m))"
  by (induction xs arbitrary: m) (simp_all add: map_set_distinct)

lemma fold_unique_self_keyed:
  "list_all (\<lambda>kv. fst (snd kv) = fst kv) m \<Longrightarrow>
   list_all (\<lambda>kv. fst (snd kv) = fst kv)
     (fold (\<lambda>account m. map_set (fst account) account m) xs m)"
  by (induction xs arbitrary: m) (simp_all add: map_set_self_keyed)

lemma map_set_key_set: "set (map fst (map_set k v m)) = insert k (set (map fst m))"
  by (induction m) auto

lemma fold_unique_keys:
  "set (map fst (fold (\<lambda>account m. map_set (fst account) account m) xs m))
     = set (map fst m) \<union> set (map fst xs)"
proof (induction xs arbitrary: m)
  case Nil show ?case by simp
next
  case (Cons x xs)
  have "set (map fst (fold (\<lambda>account m. map_set (fst account) account m) xs (map_set (fst x) x m)))
      = set (map fst (map_set (fst x) x m)) \<union> set (map fst xs)"
    by (rule Cons.IH)
  also have "\<dots> = insert (fst x) (set (map fst m)) \<union> set (map fst xs)"
    by (simp only: map_set_key_set)
  finally show ?case by auto
qed

lemma fold_unique_values:
  "set (map snd (fold (\<lambda>account m. map_set (fst account) account m) xs m))
     \<subseteq> set (map snd m) \<union> set xs"
proof (induction xs arbitrary: m)
  case Nil show ?case by simp
next
  case (Cons x xs)
  have "set (map snd (fold (\<lambda>account m. map_set (fst account) account m) xs (map_set (fst x) x m)))
      \<subseteq> set (map snd (map_set (fst x) x m)) \<union> set xs"
    by (rule Cons.IH)
  also have "\<dots> \<subseteq> insert x (set (map snd m)) \<union> set xs"
    using map_set_values_subset [of "fst x" x m] by blast
  finally show ?case by auto
qed

lemma self_keyed_values:
  "list_all (\<lambda>kv. fst (snd kv) = fst kv) m \<Longrightarrow> map (fst \<circ> snd) m = map fst m"
  by (induction m) auto

lemma unique_accounts_props:
  "distinct (map fst (unique_accounts xs))
   \<and> set (map fst (unique_accounts xs)) = set (map fst xs)
   \<and> set (unique_accounts xs) \<subseteq> set xs"
proof -
  let ?m = "fold (\<lambda>account m. map_set (fst account) account m) xs []"
  have d: "distinct (map fst ?m)" by (rule fold_unique_distinct) simp
  have k: "list_all (\<lambda>kv. fst (snd kv) = fst kv) ?m" by (rule fold_unique_self_keyed) simp
  have s: "set (map fst ?m) = set (map fst xs)" using fold_unique_keys [of xs "[]"] by simp
  have v: "set (map snd ?m) \<subseteq> set xs" using fold_unique_values [of xs "[]"] by simp
  have e: "map fst (map_values ?m) = map fst ?m"
    using self_keyed_values [OF k] by (simp add: map_values_def)
  have 1: "distinct (map fst (unique_accounts xs))"
    unfolding unique_accounts_def using d by (simp only: e)
  have 2: "set (map fst (unique_accounts xs)) = set (map fst xs)"
    unfolding unique_accounts_def using s by (simp only: e)
  have 3: "set (unique_accounts xs) \<subseteq> set xs"
    unfolding unique_accounts_def map_values_def using v by simp
  show ?thesis using 1 2 3 by blast
qed

lemma getTokenAccounts_run:
  assumes "method1 rt pk w = (Inr c1, e1, w1)" "method2 rt pk w1 = (Inr c2, e2, w2)"
    "method3 rt pk w2 = (Inr c3, e3, w3)"
  shows "getTokenAccounts rt pk w = (Inr (unique_accounts (c1 @ c2 @ c3)), e1 @ e2 @ e3, w3)"
  using assms by (simp add: getTokenAccounts_def io_catch_def io_bind_def io_return_def)

lemma method1_first_fails:
  "retry (io_await (getTokenAccountsByOwner rt pk TOKEN_PROGRAM_ID)) w = (Inl e, evs, w') \<Longrightarrow>
   method1 rt pk w = (Inr [], evs @ [MethodFailed 1], w')"
  by (simp add: method1_def io_catch_def io_bind_def io_return_def io_emit_def)

lemma method2_fails:
  "retry (io_await (getParsedProgramAccounts rt TOKEN_PROGRAM_ID 165 32 pk)) w = (Inl e, evs, w') \<Longrightarrow>
   method2 rt pk w = (Inr [], evs @ [MethodFailed 2], w')"
  by (simp add: method2_def io_catch_def io_bind_def io_return_def io_emit_def)

lemma method3_first_fails:
  "retry (io_await (getParsedTokenAccountsByOwner rt pk TOKEN_PROGRAM_ID)) w = (Inl e, evs, w') \<Longrightarrow>
   method3 rt pk w = (Inr [], evs @ [MethodFailed 3], w')"
  by (simp add: method3_def io_catch_def io_bind_def io_return_def io_emit_def)

lemma method1_second_fails:
  "retry (io_await (getTokenAccountsByOwner rt pk TOKEN_PROGRAM_ID)) w = (Inr t1, ev1, w1) \<Longrightarrow>
   retry (io_await (getTokenAccountsByOwner rt pk TOKEN_2022_PROGRAM_ID)) w1 = (Inl e, ev2, w2) \<Longrightarrow>
   method1 rt pk w = (Inr t1, ev1 @ ev2 @ [MethodFailed 1], w2)"
  by (simp add: method1_def io_catch_def io_bind_def io_return_def io_emit_def)

lemma method3_second_fails:
  "retry (io_await (getParsedTokenAccountsByOwner rt pk TOKEN_PROGRAM_ID)) w = (Inr t1, ev1, w1) \<Longrightarrow>
   retry (io_await (getParsedTokenAccountsByOwner rt pk TOKEN_2022_PROGRAM_ID)) w1 = (Inl e, ev2, w2) \<Longrightarrow>
   method3 rt pk w = (Inr (List.map_filter (parsed_to_raw pk) t1), ev1 @ ev2 @ [MethodFailed 3], w2)"
  by (simp add: method3_def io_catch_def io_bind_def io_return_def io_emit_def Let_def)

lemma method1_both:
  "retry (io_await (getTokenAccountsByOwner rt pk TOKEN_PROGRAM_ID)) w = (Inr t1, ev1, w1) \<Longrightarrow>
   retry (io_await (getTokenAccountsByOwner rt pk TOKEN_2022_PROGRAM_ID)) w1 = (Inr t2, ev2, w2) \<Longrightarrow>
   method1 rt pk w = (Inr (t1 @ t2), ev1 @ ev2, w2)"
  by (simp add: method1_def io_catch_def io_bind_def io_return_def io_emit_def)

text \<open>
  C3 as stated fails: a strategy that throws can still contribute records. Strategy 1
  pushes the records of its Standard-program query before it queries the Extended
  program; here the second query throws, the handler of strategy 1 runs (the log line
  \<open>MethodFailed 1\<close>), and the record A that only strategy 1 found is returned.
\<close>

theorem failed_strategy_contributes_counterexample:
  "method1 partial_rt ''W'' () = (Inr [(''A'', token_account 2039280 0 0)], [MethodFailed 1], ())
   \<and> method2 partial_rt ''W'' () = (Inr [], [], ())
   \<and> method3 partial_rt ''W'' () = (Inr [], [], ())
   \<and> getTokenAccounts partial_rt ''W'' ()
       = (Inr [(''A'', token_account 2039280 0 0)], [MethodFailed 1], ())"
  by (simp add: getTokenAccounts_def method1_def method2_def method3_def partial_rt_def
      quiet_rt_def run_simps TOKEN_PROGRAM_ID_def TOKEN_2022_PROGRAM_ID_def
      unique_accounts_def map_values_def List.map_filter_def)

text \<open>
  C3 amended. Discovery returns the records its three strategies push, deduplicated by
  account identity: each identity appears once, the identities returned are the union
  of the identities the strategies found, and every record returned is a record some
  strategy produced. No strategy throws. A strategy whose first query throws
  contributes no record; strategies 1 and 3 query the Standard and then the Extended
  program, and keep the records of the Standard query when the Extended query throws.
  Whatever one strategy does, the records of the others are part of the result.
\<close>

theorem discovery_union_deduplicated:
  "(method1 rt pk w = (Inr c1, e1, w1) \<and> method2 rt pk w1 = (Inr c2, e2, w2)
      \<and> method3 rt pk w2 = (Inr c3, e3, w3) \<longrightarrow>
      getTokenAccounts rt pk w = (Inr (unique_accounts (c1 @ c2 @ c3)), e1 @ e2 @ e3, w3)
      \<and> distinct (map fst (unique_accounts (c1 @ c2 @ c3)))
      \<and> set (map fst (unique_accounts (c1 @ c2 @ c3)))
          = set (map fst c1) \<union> set (map fst c2) \<union> set (map fst c3)
      \<and> set (unique_accounts (c1 @ c2 @ c3)) \<subseteq> set c1 \<union> set c2 \<union> set c3)
   \<and> no_throw (method1 rt pk) \<and> no_throw (method2 rt pk) \<and> no_throw (method3 rt pk)
   \<and> no_throw (getTokenAccounts rt pk)
   \<and> (retry (io_await (getTokenAccountsByOwner rt pk TOKEN_PROGRAM_ID)) w = (Inl err, ev1, w1)
      \<longrightarrow> method1 rt pk w = (Inr [], ev1 @ [MethodFailed 1], w1))
   \<and> (retry (io_await (getParsedProgramAccounts rt TOKEN_PROGRAM_ID 165 32 pk)) w = (Inl err, ev1, w1)
      \<longrightarrow> method2 rt pk w = (Inr [], ev1 @ [MethodFailed 2], w1))
   \<and> (retry (io_await (getParsedTokenAccountsByOwner rt pk TOKEN_PROGRAM_ID)) w = (Inl err, ev1, w1)
      \<longrightarrow> method3 rt pk w = (Inr [], ev1 @ [MethodFailed 3], w1))
   \<and> (retry (io_await (getTokenAccountsByOwner rt pk TOKEN_PROGRAM_ID)) w = (Inr t1, ev1, w1)
      \<and> retry (io_await (getTokenAccountsByOwner rt pk TOKEN_2022_PROGRAM_ID)) w1 = (Inl err, ev2, w2)
      \<longrightarrow> method1 rt pk w = (Inr t1, ev1 @ ev2 @ [MethodFailed 1], w2))
   \<and> (retry (io_await (getParsedTokenAccountsByOwner rt pk TOKEN_PROGRAM_ID)) w = (Inr p1, ev1, w1)
      \<and> retry (io_await (getParsedTokenAccountsByOwner rt pk TOKEN_2022_PROGRAM_ID)) w1
          = (Inl err, ev2, w2)
      \<longrightarrow> method3 rt pk w
          = (Inr (List.map_filter (parsed_to_raw pk) p1), ev1 @ ev2 @ [MethodFailed 3], w2))"
proof -
  have u: "distinct (map fst (unique_accounts (c1 @ c2 @ c3)))
      \<and> set (map fst (unique_accounts (c1 @ c2 @ c3)))
          = set (map fst c1) \<union> set (map fst c2) \<union> set (map fst c3)
      \<and> set (unique_accounts (c1 @ c2 @ c3)) \<subseteq> set c1 \<union> set c2 \<union> set c3"
    using unique_accounts_props [of "c1 @ c2 @ c3"] by auto
  show ?thesis
    using u getTokenAccounts_run [of rt pk w c1 e1 w1 c2 e2 w2 c3 e3 w3]
      no_throw_method1 [of rt pk] no_throw_method2 [of rt pk] no_throw_method3 [of rt pk]
      no_throw_getTokenAccounts [of rt pk]
      method1_first_fails [of rt pk w err ev1 w1] method2_fails [of rt pk w err ev1 w1]
      method3_first_fails [of rt pk w err ev1 w1]
      method1_second_fails [of rt pk w t1 ev1 w1 err ev2 w2]
      method3_second_fails [of rt pk w p1 ev1 w1 err ev2 w2]
    by blast
qed

theorem discovery_union_deduplicated_witness:
  "getTokenAccounts discovery_rt ''W'' ()
     = (Inr (unique_accounts
               ([(''A'', token_account 2039280 0 0), (''B'', token_account 2039280 5 0)]
                @ List.map_filter (parsed_to_raw ''W'')
                    [(''B'', parsed_account 2039280 ''W''), (''C'', parsed_account 2039280 ''W''),
                     (''D'', parsed_account 2039280 ''somebody else'')]
                @ [])),
        [] @ [] @ ([] @ [MethodFailed 3]), ())
   \<and> map fst (unique_accounts
               ([(''A'', token_account 2039280 0 0), (''B'', token_account 2039280 5 0)]
                @ List.map_filter (parsed_to_raw ''W'')
                    [(''B'', parsed_account 2039280 ''W''), (''C'', parsed_account 2039280 ''W''),
                     (''D'', parsed_account 2039280 ''somebody else'')]
                @ []))
     = [''A'', ''B'', ''C'']
   \<and> method3 discovery_rt ''W'' () = (Inr [], [] @ [MethodFailed 3], ())"
proof -
  let ?c1 = "[(''A'', token_account 2039280 0 0), (''B'', token_account 2039280 5 0)]"
  let ?c2 = "List.map_filter (parsed_to_raw ''W'')
      [(''B'', parsed_account 2039280 ''W''), (''C'', parsed_account 2039280 ''W''),
       (''D'', parsed_account 2039280 ''somebody else'')]"
  have q3: "retry (io_await (getParsedTokenAccountsByOwner discovery_rt ''W'' TOKEN_PROGRAM_ID)) ()
      = (Inl (Error ''Method not found''), [], ())"
    by (simp add: discovery_rt_def quiet_rt_def run_simps)
  note t = discovery_union_deduplicated
      [of discovery_rt "''W''" "()" ?c1 "[]" "()" ?c2 "[]" "()" "[]" "[] @ [MethodFailed 3]" "()"
          "Error ''Method not found''" "[]"]
  from t q3 have m3: "method3 discovery_rt ''W'' () = (Inr [], [] @ [MethodFailed 3], ())"
    by blast
  have m1: "method1 discovery_rt ''W'' () = (Inr ?c1, [], ())"
    by (simp add: method1_def discovery_rt_def quiet_rt_def run_simps
        TOKEN_PROGRAM_ID_def TOKEN_2022_PROGRAM_ID_def)
  have m2: "method2 discovery_rt ''W'' () = (Inr ?c2, [], ())"
    by (simp add: method2_def discovery_rt_def quiet_rt_def run_simps)
  from t m1 m2 m3 have g: "getTokenAccounts discovery_rt ''W'' ()
      = (Inr (unique_accounts (?c1 @ ?c2 @ [])), [] @ [] @ ([] @ [MethodFailed 3]), ())"
    by blast
  have k: "map fst (unique_accounts (?c1 @ ?c2 @ [])) = [''A'', ''B'', ''C'']"
    by (simp add: unique_accounts_def map_values_def List.map_filter_def parsed_to_raw_def
        parsed_account_def)
  show ?thesis by (intro conjI g k m3)
qed

section \<open>The transactions a pipeline submits\<close>

lemma submits_simps [simp]:
  "submits Q (Submit tx) = Q (instructions tx)"
  "submits Q (Sleep d)" "submits Q (Progress a b c s)" "submits Q (MethodFailed n)"
  by (simp_all add: submits_def)

lemma emits_submits_mono:
  "emits (submits Q) m \<Longrightarrow> (\<And>is. Q is \<Longrightarrow> Q' is) \<Longrightarrow> emits (submits Q') m"
  by (erule emits_mono) (auto simp: submits_def list_all_iff)

lemma emits_retry_await: "(\<And>d. P (Sleep d)) \<Longrightarrow> emits P (retry (io_await call))"
  by (rule emits_retry) simp_all

lemma emits_method1: "emits (submits Q) (method1 rt pk)"
  unfolding method1_def
  by (intro emits_catch emits_bind emits_retry_await emits_emit emits_return) simp_all

lemma emits_method2: "emits (submits Q) (method2 rt pk)"
  unfolding method2_def
  by (intro emits_catch emits_bind emits_retry_await emits_emit emits_return) simp_all

lemma emits_method3: "emits (submits Q) (method3 rt pk)"
  unfolding method3_def Let_def
  by (intro emits_catch emits_bind emits_retry_await emits_emit emits_return) simp_all

lemma emits_getTokenAccounts: "emits (submits Q) (getTokenAccounts rt pk)"
  unfolding getTokenAccounts_def
  by (intro emits_catch emits_bind emits_method1 emits_method2 emits_method3 emits_return)

lemma close_shape_close_instructions:
  "close_shape pk (close_instructions ai pk kp dest)"
  by (cases ai) (auto simp: close_instructions_def Let_def)

lemma emits_closeTokenAccount:
  "emits (submits (close_shape pk)) (closeTokenAccount rt fpo pk kp dest)"
  unfolding closeTokenAccount_def Let_def
  by (cases fpo)
     (auto intro!: emits_catch emits_bind emits_retry emits_send emits_return
        simp: close_shape_close_instructions)

lemma emits_burn_step: "emits (submits burn_shape) (burn_step rt fp kp ta c)"
  unfolding burn_step_def Let_def
  by (auto intro!: emits_catch emits_bind emits_retry emits_send emits_return emits_sleep
        split: option.splits)

lemma emits_burnAllTokens: "emits (submits burn_shape) (burnAllTokens rt fpo kp)"
  unfolding burnAllTokens_def
  by (cases fpo)
     (auto intro!: emits_bind emits_catch emits_for_of emits_burn_step emits_getTokenAccounts)

lemma emits_transfer:
  "emits (submits transfer_shape) (transferSolToFeePayer rt fpo kp amount)"
  unfolding transferSolToFeePayer_def Let_def
  by (cases fpo)
     (auto intro!: emits_catch emits_bind emits_retry emits_send emits_return)

lemma emits_sweep: "emits (submits transfer_shape) (sweep rt fpo kp)"
  unfolding sweep_def
  by (auto intro!: emits_bind emits_retry_await emits_transfer)

lemma emits_calc: "emits P (calculateRentExemptBalance rt ai)"
  by (simp add: calculateRentExemptBalance_def)

lemma emits_close_step:
  "emits (submits (\<lambda>is. 0 < lamports (snd ta) \<and> close_shape (fst ta) is)) (close_step rt fp kp ta acc)"
  unfolding close_step_def Let_def canCloseAccount_def
  by (auto intro!: emits_bind emits_calc emits_sleep
        emits_submits_mono [OF emits_closeTokenAccount])

subsection \<open>Phases in order\<close>

lemma submitted_append [simp]: "submitted (xs @ ys) = submitted xs @ submitted ys"
  by (simp add: submitted_def)

lemma submitted_Nil [simp]: "submitted [] = []"
  by (simp add: submitted_def)

lemma submits_submitted:
  "list_all (submits Q) evs \<Longrightarrow> list_all (\<lambda>tx. Q (instructions tx)) (submitted evs)"
  by (induction evs) (auto simp: submitted_def submits_def)

lemma phase_ordered_append:
  "phase_ordered xs \<Longrightarrow> phase_ordered ys \<Longrightarrow>
   list_all (submits (\<lambda>is. phase_of is \<le> k)) xs \<Longrightarrow>
   list_all (submits (\<lambda>is. k \<le> phase_of is)) ys \<Longrightarrow> phase_ordered (xs @ ys)"
proof -
  assume a: "phase_ordered xs" "phase_ordered ys"
    "list_all (submits (\<lambda>is. phase_of is \<le> k)) xs"
    "list_all (submits (\<lambda>is. k \<le> phase_of is)) ys"
  have x: "\<forall>tx \<in> set (submitted xs). phase_of (instructions tx) \<le> k"
    using submits_submitted [OF a(3)] by (simp add: list_all_iff)
  have y: "\<forall>tx \<in> set (submitted ys). k \<le> phase_of (instructions tx)"
    using submits_submitted [OF a(4)] by (simp add: list_all_iff)
  show ?thesis
    using a(1,2) x y unfolding phase_ordered_def
    by (auto simp: sorted_append intro: order_trans)
qed

lemma phase_ordered_const:
  "list_all (submits (\<lambda>is. phase_of is = k)) evs \<Longrightarrow> phase_ordered evs"
proof -
  assume "list_all (submits (\<lambda>is. phase_of is = k)) evs"
  from submits_submitted [OF this]
  have "map (\<lambda>tx. phase_of (instructions tx)) (submitted evs) = replicate (length (submitted evs)) k"
    by (induction "submitted evs") (auto simp: list_all_iff map_replicate_const [symmetric] intro!: map_cong)
  then show ?thesis unfolding phase_ordered_def by (simp add: sorted_replicate)
qed

lemma ordered_const: "emits (submits (\<lambda>is. phase_of is = k)) m \<Longrightarrow> ordered m"
  by (auto simp: ordered_def emits_def intro: phase_ordered_const)

lemma ordered_bind:
  assumes "ordered m" "emits (submits (\<lambda>is. phase_of is \<le> k)) m"
    "\<And>x. ordered (f x)" "\<And>x. emits (submits (\<lambda>is. k \<le> phase_of is)) (f x)"
  shows "ordered (io_bind m f)"
  unfolding ordered_def
proof
  fix w
  obtain r evs w' where m: "m w = (r, evs, w')" by (cases "m w")
  have o1: "phase_ordered evs" using assms(1) m by (auto simp: ordered_def dest: spec [of _ w])
  have e1: "list_all (submits (\<lambda>is. phase_of is \<le> k)) evs" using emitsD [OF assms(2) m] .
  show "phase_ordered (fst (snd (io_bind m f w)))"
  proof (cases r)
    case (Inl e)
    then show ?thesis using m o1 by (simp add: io_bind_def)
  next
    case (Inr x)
    obtain r2 evs2 w2 where f: "f x w' = (r2, evs2, w2)" by (cases "f x w'")
    have o2: "phase_ordered evs2"
      using assms(3) [of x] f by (auto simp: ordered_def dest: spec [of _ w'])
    have e2: "list_all (submits (\<lambda>is. k \<le> phase_of is)) evs2" using emitsD [OF assms(4) f] .
    show ?thesis using m Inr f phase_ordered_append [OF o1 o2 e1 e2] by (simp add: io_bind_def)
  qed
qed

lemma ordered_return [simp]: "ordered (io_return x)"
  by (simp add: ordered_def io_return_def phase_ordered_def)

lemma ordered_throw [simp]: "ordered (io_throw e)"
  by (simp add: ordered_def io_throw_def phase_ordered_def)

lemma close_shape_facts:
  "close_shape a is \<Longrightarrow> phase_of is = 0 \<and> closed_accounts is = [a] \<and> well_formed is"
  by (induction a "is" rule: close_shape.induct)
     (auto simp: phase_of_def closed_accounts_def well_formed_def)

lemma burn_shape_facts:
  "burn_shape is \<Longrightarrow> phase_of is = 1 \<and> closed_accounts is = [] \<and> well_formed is"
  by (induction "is" rule: burn_shape.induct)
     (auto simp: phase_of_def closed_accounts_def well_formed_def)

lemma transfer_shape_facts:
  "transfer_shape is \<Longrightarrow> phase_of is = 2 \<and> closed_accounts is = [] \<and> well_formed is"
  by (induction "is" rule: transfer_shape.induct)
     (auto simp: phase_of_def closed_accounts_def well_formed_def)

text \<open>The four stages of the pipeline after the key is decoded.\<close>

lemma emits_close_loop:
  "emits (submits (\<lambda>is. \<exists>ta \<in> set tas. 0 < lamports (snd ta) \<and> close_shape (fst ta) is))
     (for_of (close_step rt fp kp) tas acc)"
proof (rule emits_for_of)
  fix x s
  assume "x \<in> set tas"
  then show "emits (submits (\<lambda>is. \<exists>ta \<in> set tas. 0 < lamports (snd ta) \<and> close_shape (fst ta) is))
     (close_step rt fp kp x s)"
    by (intro emits_submits_mono [OF emits_close_step]) blast
qed

lemma pipeline_tail_emits:
  assumes "\<And>is. burn_shape is \<Longrightarrow> Q is" "\<And>is. transfer_shape is \<Longrightarrow> Q is"
  shows "emits (submits Q)
     (io_bind (burnAllTokens rt fpo kp) (\<lambda>burnResult.
      io_bind (sweep rt fpo kp) (\<lambda>sol. io_return (g sol))))"
  by (intro emits_bind emits_return emits_submits_mono [OF emits_burnAllTokens]
        emits_submits_mono [OF emits_sweep]) (auto intro: assms)

lemma pipeline_tail_ordered:
  "ordered (io_bind (burnAllTokens rt fpo kp) (\<lambda>burnResult.
      io_bind (sweep rt fpo kp) (\<lambda>sol. io_return (g sol))))"
proof (rule ordered_bind [where k = 1])
  show "ordered (burnAllTokens rt fpo kp)"
    by (rule ordered_const [where k = 1])
       (rule emits_submits_mono [OF emits_burnAllTokens], simp add: burn_shape_facts)
  show "emits (submits (\<lambda>is. phase_of is \<le> 1)) (burnAllTokens rt fpo kp)"
    by (rule emits_submits_mono [OF emits_burnAllTokens]) (simp add: burn_shape_facts)
next
  fix x
  have s: "emits (submits (\<lambda>is. phase_of is = 2)) (io_bind (sweep rt fpo kp) (\<lambda>sol. io_return (g sol)))"
    by (intro emits_bind emits_return emits_submits_mono [OF emits_sweep])
       (simp add: transfer_shape_facts)
  show "ordered (io_bind (sweep rt fpo kp) (\<lambda>sol. io_return (g sol)))"
    using s by (rule ordered_const)
  show "emits (submits (\<lambda>is. 1 \<le> phase_of is)) (io_bind (sweep rt fpo kp) (\<lambda>sol. io_return (g sol)))"
    by (rule emits_submits_mono [OF s]) simp
qed

lemma pipeline_from_close_ordered:
  "ordered (io_bind (for_of (close_step rt fp kp) tas acc) (\<lambda>closed.
      io_bind (burnAllTokens rt fpo kp) (\<lambda>burnResult.
      io_bind (sweep rt fpo kp) (\<lambda>sol. io_return (g closed sol)))))"
proof (rule ordered_bind [where k = 0])
  have c: "emits (submits (\<lambda>is. phase_of is = 0)) (for_of (close_step rt fp kp) tas acc)"
    by (rule emits_submits_mono [OF emits_close_loop]) (auto simp: close_shape_facts)
  show "ordered (for_of (close_step rt fp kp) tas acc)" using c by (rule ordered_const)
  show "emits (submits (\<lambda>is. phase_of is \<le> 0)) (for_of (close_step rt fp kp) tas acc)"
    by (rule emits_submits_mono [OF c]) simp
next
  fix x
  show "ordered (io_bind (burnAllTokens rt fpo kp) (\<lambda>burnResult.
      io_bind (sweep rt fpo kp) (\<lambda>sol. io_return (g x sol))))"
    by (rule pipeline_tail_ordered)
  show "emits (submits (\<lambda>is. 0 \<le> phase_of is)) (io_bind (burnAllTokens rt fpo kp) (\<lambda>burnResult.
      io_bind (sweep rt fpo kp) (\<lambda>sol. io_return (g x sol))))"
    by (rule pipeline_tail_emits) simp_all
qed

lemma emits_fromSecretKey: "emits P (fromSecretKey rt sk)"
  by (simp add: fromSecretKey_def split: option.splits)

lemma ordered_fromSecretKey: "ordered (fromSecretKey rt sk)"
  by (simp add: fromSecretKey_def split: option.splits)

lemma processWalletCompletely_ordered: "ordered (processWalletCompletely rt fpo wallets i)"
proof (cases fpo)
  case None then show ?thesis by (simp add: processWalletCompletely_def)
next
  case (Some fp)
  show ?thesis
  proof (cases "i < length wallets")
    case False then show ?thesis using Some by (simp add: processWalletCompletely_def)
  next
    case True
    have "ordered (io_bind (fromSecretKey rt (privateKey (wallets ! i))) (\<lambda>keypair.
            io_bind (getTokenAccounts rt (keypairPublicKey keypair)) (\<lambda>tokenAccounts.
            io_bind (for_of (close_step rt fp keypair) tokenAccounts (0, 0)) (\<lambda>closed.
            io_bind (burnAllTokens rt (Some fp) keypair) (\<lambda>burnResult.
            io_bind (sweep rt (Some fp) keypair) (\<lambda>sol.
            io_return
              \<lparr> tokenAccountsClosed = fst closed, rentRecovered = snd closed,
                solTransferred = sol, totalRecovered = snd closed + sol \<rparr>))))))"
    proof (rule ordered_bind [where k = 0], goal_cases)
      case 1 show ?case by (rule ordered_fromSecretKey)
    next
      case 2 show ?case by (rule emits_fromSecretKey)
    next
      case (3 kp)
      show ?case
      proof (rule ordered_bind [where k = 0], goal_cases)
        case 1
        show ?case
          by (rule ordered_const [where k = 0])
             (rule emits_submits_mono [OF emits_getTokenAccounts [where Q = "\<lambda>is. False"]], simp)
      next
        case 2
        show ?case
          by (rule emits_submits_mono [OF emits_getTokenAccounts [where Q = "\<lambda>is. False"]]) simp
      next
        case (3 tas) show ?case by (rule pipeline_from_close_ordered)
      next
        case (4 tas)
        show ?case
          by (intro emits_bind emits_return) (rule emits_mono [where P = "\<lambda>e. True"]; simp add: emits_def list_all_iff submits_def)+
      qed
    next
      case (4 kp)
      show ?case
        by (rule emitsI) (simp add: list_all_iff submits_def)
    qed
    then show ?thesis using Some True by (simp add: processWalletCompletely_def)
  qed
qed

subsection \<open>Runs of the pipeline steps\<close>

lemma processWalletCompletely_emits:
  assumes "\<And>a is. close_shape a is \<Longrightarrow> Q is" "\<And>is. burn_shape is \<Longrightarrow> Q is"
    "\<And>is. transfer_shape is \<Longrightarrow> Q is"
  shows "emits (submits Q) (processWalletCompletely rt fpo wallets i)"
proof -
  have c: "emits (submits Q) (for_of (close_step rt fp kp) tas acc)" for fp kp tas acc
    by (rule emits_submits_mono [OF emits_close_loop]) (auto intro: assms)
  show ?thesis
    unfolding processWalletCompletely_def Let_def
    by (cases fpo)
       (auto intro!: emits_bind emits_fromSecretKey emits_getTokenAccounts c
          emits_submits_mono [OF emits_burnAllTokens] emits_submits_mono [OF emits_sweep]
          intro: assms)
qed

lemma pipeline_closes_only_funded:
  assumes "i < length wallets"
    "keypairFromSecret rt (privateKey (wallets ! i)) = Some pub"
    "getTokenAccounts rt pub w = (Inr tokenAccounts, e0, w0)"
  shows "list_all (submits (\<lambda>is. set (closed_accounts is) \<subseteq> set (map fst (funded tokenAccounts))))
           (fst (snd (processWalletCompletely rt (Some fp) wallets i w)))"
proof -
  let ?Q = "\<lambda>is. set (closed_accounts is) \<subseteq> set (map fst (funded tokenAccounts))"
  let ?kp = "Keypair (privateKey (wallets ! i)) pub"
  let ?rest = "io_bind (for_of (close_step rt fp ?kp) tokenAccounts (0, 0)) (\<lambda>closed.
            io_bind (burnAllTokens rt (Some fp) ?kp) (\<lambda>burnResult.
            io_bind (sweep rt (Some fp) ?kp) (\<lambda>sol.
            io_return
              \<lparr> tokenAccountsClosed = fst closed, rentRecovered = snd closed,
                solTransferred = sol, totalRecovered = snd closed + sol \<rparr>)))"
  have c: "emits (submits ?Q) (for_of (close_step rt fp ?kp) tokenAccounts (0, 0))"
    by (rule emits_submits_mono [OF emits_close_loop])
       (force simp: close_shape_facts funded_def)
  have r: "emits (submits ?Q) ?rest"
    by (intro emits_bind c emits_return emits_submits_mono [OF emits_burnAllTokens]
          emits_submits_mono [OF emits_sweep])
       (simp_all add: burn_shape_facts transfer_shape_facts)
  obtain r1 e1 w1 where rest: "?rest w0 = (r1, e1, w1)" by (cases "?rest w0")
  have l1: "list_all (submits ?Q) e1" using emitsD [OF r rest] .
  have l0: "list_all (submits ?Q) e0"
    using emitsD [OF emits_getTokenAccounts assms(3)] .
  have "processWalletCompletely rt (Some fp) wallets i w = (r1, e0 @ e1, w1)"
    using assms rest
    by (simp add: processWalletCompletely_def fromSecretKey_def io_bind_Inr Let_def)
  then show ?thesis using l0 l1 by simp
qed

lemma calc_run:
  "calculateRentExemptBalance rt ai w =
     (case getMinimumBalanceForRentExemption rt (length (data ai)) w of (r, w') \<Rightarrow> (r, [], w'))"
  by (simp add: calculateRentExemptBalance_def io_await_def)

lemma rent_loop_sum:
  "for_of (rent_step rt) tas acc w = (Inr acc', evs, w') \<Longrightarrow>
   fst acc' = fst acc + funded_lamports tas \<and> snd acc' = snd acc + length (funded tas)"
proof (induction tas arbitrary: acc w evs)
  case Nil
  then show ?case by (simp add: io_return_def funded_lamports_def funded_def)
next
  case (Cons ta tas)
  obtain r e1 w1 where s: "rent_step rt ta acc w = (r, e1, w1)" by (cases "rent_step rt ta acc w")
  show ?case
  proof (cases r)
    case (Inl e)
    then show ?thesis using Cons.prems s by (simp add: io_bind_def)
  next
    case (Inr acc1)
    obtain e2 where rest: "for_of (rent_step rt) tas acc1 w1 = (Inr acc', e2, w')"
      using Cons.prems s Inr by (auto simp: io_bind_def split: prod.splits)
    have a1: "acc1 = (if 0 < lamports (snd ta) then (fst acc + lamports (snd ta), snd acc + 1) else acc)"
      using s Inr
      by (auto simp: rent_step_def Let_def io_bind_def io_return_def canCloseAccount_def
          calculateRentAmount_def split: prod.splits sum.splits if_splits)
    show ?thesis using Cons.IH [OF rest] a1
      by (auto simp: funded_lamports_def funded_def)
  qed
qed

lemma processSingleWallet_run:
  assumes "keypairFromSecret rt (privateKey wallet) = Some pub"
    "retry (io_await (getBalance rt pub)) w = (Inr bal, e1, w1)"
    "getTokenAccounts rt pub w1 = (Inr tokenAccounts, e2, w2)"
    "for_of (rent_step rt) tokenAccounts (0, 0) w2 = (Inr totals, e3, w3)"
  shows "processSingleWallet rt wallet walletIndex store w =
     (Inr (wallet \<lparr> balance := bal, rentExemptBalance := 0,
                    rentAmount := funded_lamports tokenAccounts,
                    canClose := (funded_lamports tokenAccounts > 0) \<rparr>,
           updateWalletInfo (int walletIndex) bal 0 (funded_lamports tokenAccounts)
             (funded_lamports tokenAccounts > 0) store),
      Sleep 250 # e1 @ e2 @ e3, w3)"
proof -
  have t: "fst totals = funded_lamports tokenAccounts"
    using rent_loop_sum [OF assms(4)] by simp
  show ?thesis
    using assms t
    by (simp add: processSingleWallet_def fromSecretKey_def sleep_def io_bind_def io_catch_def
        io_emit_def io_return_def Let_def)
qed

lemma close_step_unfunded:
  "lamports (snd ta) = 0 \<Longrightarrow>
   getMinimumBalanceForRentExemption rt (length (data (snd ta))) w = (Inr rentExempt, w1) \<Longrightarrow>
   close_step rt fp kp ta acc w = (Inr acc, [], w1)"
  by (simp add: close_step_def Let_def calc_run io_bind_def io_return_def canCloseAccount_def)

lemma close_step_funded:
  "0 < lamports (snd ta) \<Longrightarrow>
   getMinimumBalanceForRentExemption rt (length (data (snd ta))) w = (Inr rentExempt, w1) \<Longrightarrow>
   closeTokenAccount rt (Some fp) (fst ta) kp (keypairPublicKey fp) w1 = (Inr closeResult, e, w2) \<Longrightarrow>
   close_step rt fp kp ta acc w =
     (Inr (if closeSuccess closeResult
           then (fst acc + 1, snd acc + closeRentRecovered closeResult) else acc),
      e @ [Sleep 1000], w2)"
  by (simp add: close_step_def Let_def calc_run io_bind_def io_return_def canCloseAccount_def
      sleep_def io_emit_def)

lemma sweep_nothing:
  "retry (io_await (getBalance rt (keypairPublicKey kp))) w = (Inr 0, e, w1) \<Longrightarrow>
   sweep rt fpo kp w = (Inr 0, e, w1)"
  by (simp add: sweep_def io_bind_def io_return_def)

lemma sweep_something:
  "retry (io_await (getBalance rt (keypairPublicKey kp))) w = (Inr bal, e, w1) \<Longrightarrow> 0 < bal \<Longrightarrow>
   transferSolToFeePayer rt fpo kp bal w1 = (Inr transferResult, e', w2) \<Longrightarrow>
   sweep rt fpo kp w =
     (Inr (if transferSuccess transferResult then amountTransferred transferResult else 0),
      e @ e', w2)"
  by (simp add: sweep_def io_bind_def io_return_def)

lemma transfer_run_accept:
  "0 < amount \<Longrightarrow> getLatestBlockhash rt w = (Inr blockhash, w1) \<Longrightarrow>
   sendAndConfirmTransaction rt
     \<lparr> instructions = [TransferInstruction (keypairPublicKey kp) (keypairPublicKey fp) amount],
       feePayer = keypairPublicKey fp, recentBlockhash = blockhash,
       signers = [keypairPublicKey kp, keypairPublicKey fp] \<rparr> w1 = (Inr signature, w2) \<Longrightarrow>
   transferSolToFeePayer rt (Some fp) kp amount w =
     (Inr \<lparr> transferSuccess = True, amountTransferred = amount, transferError = None \<rparr>,
      [Submit \<lparr> instructions = [TransferInstruction (keypairPublicKey kp) (keypairPublicKey fp) amount],
       feePayer = keypairPublicKey fp, recentBlockhash = blockhash,
       signers = [keypairPublicKey kp, keypairPublicKey fp] \<rparr>], w2)"
  by (simp add: transferSolToFeePayer_def Let_def io_catch_def io_bind_def io_return_def
      io_await_def retry_send_Inr)

lemma transfer_run_reject:
  "0 < amount \<Longrightarrow> getLatestBlockhash rt w = (Inr blockhash, w1) \<Longrightarrow>
   sendAndConfirmTransaction rt
     \<lparr> instructions = [TransferInstruction (keypairPublicKey kp) (keypairPublicKey fp) amount],
       feePayer = keypairPublicKey fp, recentBlockhash = blockhash,
       signers = [keypairPublicKey kp, keypairPublicKey fp] \<rparr> w1 = (Inl err, w2) \<Longrightarrow>
   \<not> is_rate_limit err \<Longrightarrow>
   transferSolToFeePayer rt (Some fp) kp amount w =
     (Inr \<lparr> transferSuccess = False, amountTransferred = 0,
            transferError = Some (error_message err) \<rparr>,
      [Submit \<lparr> instructions = [TransferInstruction (keypairPublicKey kp) (keypairPublicKey fp) amount],
       feePayer = keypairPublicKey fp, recentBlockhash = blockhash,
       signers = [keypairPublicKey kp, keypairPublicKey fp] \<rparr>], w2)"
  by (simp add: transferSolToFeePayer_def Let_def io_catch_def io_bind_def io_return_def
      io_await_def retry_send_other)

lemma no_submission:
  "list_all (submits (\<lambda>is. False)) evs \<Longrightarrow> submitted evs = []"
  by (induction evs) (auto simp: submitted_def submits_def list_all_iff)

lemma discovery_submits_nothing:
  "getTokenAccounts rt pk w = (r, evs, w') \<Longrightarrow> submitted evs = []"
  by (rule no_submission) (erule emitsD [OF emits_getTokenAccounts])

lemma pipeline_after_discovery:
  assumes "i < length wallets"
    "keypairFromSecret rt (privateKey (wallets ! i)) = Some pub"
    "getTokenAccounts rt pub w = (Inr tokenAccounts, e0, w0)"
  shows "\<exists>r1 e1 w1. processWalletCompletely rt (Some fp) wallets i w = (r1, e0 @ e1, w1)"
proof -
  let ?kp = "Keypair (privateKey (wallets ! i)) pub"
  let ?rest = "io_bind (for_of (close_step rt fp ?kp) tokenAccounts (0, 0)) (\<lambda>closed.
            io_bind (burnAllTokens rt (Some fp) ?kp) (\<lambda>burnResult.
            io_bind (sweep rt (Some fp) ?kp) (\<lambda>sol.
            io_return
              \<lparr> tokenAccountsClosed = fst closed, rentRecovered = snd closed,
                solTransferred = sol, totalRecovered = snd closed + sol \<rparr>)))"
  obtain r1 e1 w1 where rest: "?rest w0 = (r1, e1, w1)" by (cases "?rest w0")
  have "processWalletCompletely rt (Some fp) wallets i w = (r1, e0 @ e1, w1)"
    using assms rest
    by (simp add: processWalletCompletely_def fromSecretKey_def io_bind_Inr Let_def)
  then show ?thesis by blast
qed

lemma retry_send_submits_first:
  "\<exists>r rest w'. retry (send rt tx) w = (r, Submit tx # rest, w')"
proof -
  obtain r0 w0 where s: "sendAndConfirmTransaction rt tx w = (r0, w0)"
    by (cases "sendAndConfirmTransaction rt tx w")
  have run: "send rt tx w = (r0, [Submit tx], w0)" using s by (simp add: send_run)
  show ?thesis
  proof (cases r0)
    case (Inr v)
    then show ?thesis using run
      by (simp add: retry_def retryWithBackoff_def retry_loop_Inr)
  next
    case (Inl e)
    show ?thesis
      unfolding retry_def retryWithBackoff_def
      by (subst retry_loop.simps)
         (auto simp: io_catch_def run Inl io_throw_def io_bind_def sleep_def io_emit_def
            split: prod.splits sum.splits)
  qed
qed

lemma transfer_submits_first:
  assumes "0 < amount" "getLatestBlockhash rt w = (Inr blockhash, w1)"
  shows "\<exists>r rest w'. transferSolToFeePayer rt (Some fp) kp amount w =
     (r, Submit \<lparr> instructions = [TransferInstruction (keypairPublicKey kp) (keypairPublicKey fp) amount],
       feePayer = keypairPublicKey fp, recentBlockhash = blockhash,
       signers = [keypairPublicKey kp, keypairPublicKey fp] \<rparr> # rest, w')"
proof -
  let ?tx = "\<lparr> instructions = [TransferInstruction (keypairPublicKey kp) (keypairPublicKey fp) amount],
       feePayer = keypairPublicKey fp, recentBlockhash = blockhash,
       signers = [keypairPublicKey kp, keypairPublicKey fp] \<rparr>"
  from retry_send_submits_first [of rt ?tx w1] obtain r rest w' where
    s: "retry (send rt ?tx) w1 = (r, Submit ?tx # rest, w')" by blast
  show ?thesis
    using assms s
    by (cases r)
       (auto simp: transferSolToFeePayer_def Let_def io_catch_def io_bind_def io_return_def
          io_await_def)
qed

lemma sweep_submits:
  assumes "retry (io_await (getBalance rt (keypairPublicKey kp))) w = (Inr bal, e, w1)" "0 < bal"
    "getLatestBlockhash rt w1 = (Inr blockhash, w2)"
  shows "\<exists>r rest w'. sweep rt (Some fp) kp w =
     (r, e @ Submit \<lparr> instructions = [TransferInstruction (keypairPublicKey kp) (keypairPublicKey fp) bal],
       feePayer = keypairPublicKey fp, recentBlockhash = blockhash,
       signers = [keypairPublicKey kp, keypairPublicKey fp] \<rparr> # rest, w')"
proof -
  from transfer_submits_first [OF assms(2,3), of fp kp] obtain r rest w' where
    t: "transferSolToFeePayer rt (Some fp) kp bal w1 =
     (r, Submit \<lparr> instructions = [TransferInstruction (keypairPublicKey kp) (keypairPublicKey fp) bal],
       feePayer = keypairPublicKey fp, recentBlockhash = blockhash,
       signers = [keypairPublicKey kp, keypairPublicKey fp] \<rparr> # rest, w')" by blast
  show ?thesis
    using assms(1,2) t
    by (cases r) (auto simp: sweep_def io_bind_def io_return_def)
qed

lemma transfer_step_below_floor:
  "balance wallet \<le> MIN_TRANSFER_LAMPORTS \<Longrightarrow> transfer_step rt fpo wallet acc = io_return acc"
  by (cases acc) (simp add: transfer_step_def transfer_selected_def)

lemma list_all_submits_mono:
  "list_all (submits Q) evs \<Longrightarrow> (\<And>is. Q is \<Longrightarrow> Q' is) \<Longrightarrow> list_all (submits Q') evs"
  by (auto simp: list_all_iff submits_def)

lemma funded_subset: "set (map fst (funded tokenAccounts)) \<subseteq> set (map fst tokenAccounts)"
  by (auto simp: funded_def)

subsection \<open>Evaluating the mock ledgers\<close>

lemma token_data_length [simp]: "length (token_data lo hi) = 165"
  by (simp add: token_data_def)

lemma token_data_amount [simp]: "readBigUInt64LE (token_data lo hi) 64 = unat lo + 256 * unat hi"
  by (simp add: token_data_def readBigUInt64LE_def)

lemma token_data_mint [simp]: "take 32 (token_data lo hi) = replicate 32 0"
  by (simp add: token_data_def)

lemma js_number_exact [simp]: "n < 9007199254740992 \<Longrightarrow> js_number n = n"
  by (simp add: js_number_def)

lemmas pipeline_simps = pipeline_rt_def run_simps io_await_def
  getTokenAccounts_def method1_def method2_def method3_def unique_accounts_def map_values_def
  List.map_filter_def TOKEN_PROGRAM_ID_def TOKEN_2022_PROGRAM_ID_def
  closeTokenAccount_def close_instructions_def Let_def calc_run canCloseAccount_def
  close_step_def burn_step_def burnAllTokens_def transferSolToFeePayer_def sweep_def
  processWalletCompletely_def fromSecretKey_def token_account_def closed_accounts_def
  FEE_PAYER_def fresh_wallet_def

section \<open>Eligibility for closing\<close>

text \<open>
  C4. Eligibility of a token account is decided by its lamport balance alone:
  \<open>canCloseAccount\<close> holds exactly when the balance is greater than zero and
  \<open>calculateRentAmount\<close> is the full balance, whatever the rent-exemption threshold.
  When the analysis of a wallet completes, the \<open>rentAmount\<close> it writes is the sum of
  the balances of the discovered accounts that hold lamports, so an account without
  lamports adds nothing. In the closing loop an account without lamports is passed
  over with no transaction and the counters unchanged, an account with lamports is
  handed to \<open>closeTokenAccount\<close>, and every close instruction the pipeline submits is
  for a discovered account that holds lamports.
\<close>

theorem eligibility_by_positive_lamports:
  "canCloseAccount bal rentExempt = (0 < bal)
   \<and> calculateRentAmount bal rentExempt = bal
   \<and> (keypairFromSecret rt (privateKey wallet) = Some pub
        \<and> retry (io_await (getBalance rt pub)) w = (Inr walletBalance, e1, w1)
        \<and> getTokenAccounts rt pub w1 = (Inr tokenAccounts, e2, w2)
        \<and> for_of (rent_step rt) tokenAccounts (0, 0) w2 = (Inr totals, e3, w3)
      \<longrightarrow> processSingleWallet rt wallet walletIndex store w =
            (Inr (wallet \<lparr> balance := walletBalance, rentExemptBalance := 0,
                           rentAmount := funded_lamports tokenAccounts,
                           canClose := (funded_lamports tokenAccounts > 0) \<rparr>,
                  updateWalletInfo (int walletIndex) walletBalance 0
                    (funded_lamports tokenAccounts) (funded_lamports tokenAccounts > 0) store),
             Sleep 250 # e1 @ e2 @ e3, w3))
   \<and> (lamports (snd ta) = 0
        \<and> getMinimumBalanceForRentExemption rt (length (data (snd ta))) w = (Inr rentExempt, w1)
      \<longrightarrow> close_step rt fp kp ta acc w = (Inr acc, [], w1))
   \<and> (0 < lamports (snd ta)
        \<and> getMinimumBalanceForRentExemption rt (length (data (snd ta))) w = (Inr rentExempt, w1)
        \<and> closeTokenAccount rt (Some fp) (fst ta) kp (keypairPublicKey fp) w1
            = (Inr closeResult, e, w2)
      \<longrightarrow> close_step rt fp kp ta acc w =
            (Inr (if closeSuccess closeResult
                  then (fst acc + 1, snd acc + closeRentRecovered closeResult) else acc),
             e @ [Sleep 1000], w2))
   \<and> (i < length wallets \<and> keypairFromSecret rt (privateKey (wallets ! i)) = Some pub
        \<and> getTokenAccounts rt pub w = (Inr tokenAccounts, e0, w0)
      \<longrightarrow> list_all (submits (\<lambda>is. set (closed_accounts is)
                                  \<subseteq> set (map fst (funded tokenAccounts))))
            (fst (snd (processWalletCompletely rt (Some fp) wallets i w))))"
  using processSingleWallet_run [of rt wallet pub w walletBalance e1 w1 tokenAccounts e2 w2
      totals e3 w3 walletIndex store]
    close_step_unfunded [of ta rt w rentExempt w1 fp kp acc]
    close_step_funded [of ta rt w rentExempt w1 fp kp closeResult e w2 acc]
    pipeline_closes_only_funded [of i wallets rt pub w tokenAccounts e0 w0 fp]
  by (simp add: canCloseAccount_def calculateRentAmount_def)

lemma mixed_discovery:
  "getTokenAccounts mixed_rt ''W'' []
     = (Inr [(''A'', token_account 0 0 0), (''B'', token_account 2039280 0 0),
             (''C'', token_account 5 0 0)], [], [])"
  by (simp add: mixed_rt_def pipeline_simps)

theorem eligibility_by_positive_lamports_witness:
  "canCloseAccount 5 2039280
   \<and> \<not> canCloseAccount 0 2039280
   \<and> processSingleWallet mixed_rt (fresh_wallet (''w-secret'', ''W'')) 0
        [fresh_wallet (''w-secret'', ''W'')] []
       = (Inr (fresh_wallet (''w-secret'', ''W'')
                 \<lparr> balance := 0, rentExemptBalance := 0, rentAmount := 2039285, canClose := True \<rparr>,
               [fresh_wallet (''w-secret'', ''W'')
                 \<lparr> balance := 0, rentExemptBalance := 0, rentAmount := 2039285, canClose := True \<rparr>]),
          [Sleep 250], [])
   \<and> close_step mixed_rt FEE_PAYER (Keypair ''w-secret'' ''W'') (''A'', token_account 0 0 0) (0, 0) []
       = (Inr (0, 0), [], [])
   \<and> close_step mixed_rt FEE_PAYER (Keypair ''w-secret'' ''W'') (''C'', token_account 5 0 0) (0, 0) []
       = (Inr (1, 5),
          [Submit \<lparr> instructions = [CloseAccountInstruction ''C'' ''F'' ''W'' TOKEN_PROGRAM_ID],
                     feePayer = ''F'', recentBlockhash = ''blockhash'', signers = [''W'', ''F''] \<rparr>,
           Sleep 1000], [''C''])
   \<and> list_all (submits (\<lambda>is. set (closed_accounts is) \<subseteq> {''B'', ''C''}))
        (fst (snd (processWalletCompletely mixed_rt (Some FEE_PAYER)
           [fresh_wallet (''w-secret'', ''W'')] 0 [])))"
proof -
  let ?A = "(''A'', token_account 0 0 0)"
  let ?B = "(''B'', token_account 2039280 0 0)"
  let ?C = "(''C'', token_account 5 0 0)"
  let ?W = "fresh_wallet (''w-secret'', ''W'')"
  let ?kp = "Keypair ''w-secret'' ''W''"
  let ?closeC = "[Submit \<lparr> instructions = [CloseAccountInstruction ''C'' ''F'' ''W'' TOKEN_PROGRAM_ID],
                     feePayer = ''F'', recentBlockhash = ''blockhash'', signers = [''W'', ''F''] \<rparr>]"
  have fl: "funded_lamports [?A, ?B, ?C] = 2039285" "set (map fst (funded [?A, ?B, ?C])) = {''B'', ''C''}"
    by (auto simp: funded_lamports_def funded_def token_account_def)
  have c0: "canCloseAccount 5 2039280"
    using eligibility_by_positive_lamports [where bal = 5 and rentExempt = 2039280, THEN conjunct1]
    by simp
  have c0': "\<not> canCloseAccount 0 2039280"
    using eligibility_by_positive_lamports [where bal = 0 and rentExempt = 2039280, THEN conjunct1]
    by simp
  have h1: "keypairFromSecret mixed_rt (privateKey ?W) = Some ''W''
      \<and> retry (io_await (getBalance mixed_rt ''W'')) [] = (Inr 0, [], [])
      \<and> getTokenAccounts mixed_rt ''W'' [] = (Inr [?A, ?B, ?C], [], [])
      \<and> for_of (rent_step mixed_rt) [?A, ?B, ?C] (0, 0) [] = (Inr (2039285, 2), [], [])"
    using mixed_discovery
    by (simp add: mixed_rt_def pipeline_rt_def run_simps io_await_def fresh_wallet_def rent_step_def
        calc_run canCloseAccount_def calculateRentAmount_def token_account_def Let_def)
  have c1: "processSingleWallet mixed_rt ?W 0 [?W] []
       = (Inr (?W \<lparr> balance := 0, rentExemptBalance := 0, rentAmount := 2039285, canClose := True \<rparr>,
               [?W \<lparr> balance := 0, rentExemptBalance := 0, rentAmount := 2039285, canClose := True \<rparr>]),
          [Sleep 250], [])"
    using eligibility_by_positive_lamports
      [where rt = mixed_rt and wallet = ?W and pub = "''W''" and w = "[]" and walletBalance = 0
         and ?e1.0 = "[]" and ?w1.0 = "[]" and tokenAccounts = "[?A, ?B, ?C]" and ?e2.0 = "[]"
         and ?w2.0 = "[]" and totals = "(2039285, 2)" and ?e3.0 = "[]" and ?w3.0 = "[]"
         and walletIndex = 0 and store = "[?W]",
       THEN conjunct2, THEN conjunct2, THEN conjunct1, THEN mp, OF h1]
    by (simp add: fl updateWalletInfo_def)
  have h2: "lamports (snd ?A) = 0
      \<and> getMinimumBalanceForRentExemption mixed_rt (length (data (snd ?A))) [] = (Inr 2039280, [])"
    by (simp add: mixed_rt_def pipeline_simps)
  have c2: "close_step mixed_rt FEE_PAYER ?kp ?A (0, 0) [] = (Inr (0, 0), [], [])"
    using eligibility_by_positive_lamports
      [where ta = ?A and rt = mixed_rt and w = "[]" and rentExempt = 2039280 and ?w1.0 = "[]"
         and fp = FEE_PAYER and kp = ?kp and acc = "(0, 0)",
       THEN conjunct2, THEN conjunct2, THEN conjunct2, THEN conjunct1, THEN mp, OF h2]
    by simp
  have h3: "0 < lamports (snd ?C)
      \<and> getMinimumBalanceForRentExemption mixed_rt (length (data (snd ?C))) [] = (Inr 2039280, [])
      \<and> closeTokenAccount mixed_rt (Some FEE_PAYER) (fst ?C) ?kp (keypairPublicKey FEE_PAYER) []
          = (Inr \<lparr> closeSuccess = True, closeRentRecovered = 5, closeError = None \<rparr>, ?closeC, [''C''])"
    by (simp add: mixed_rt_def pipeline_simps)
  have c3: "close_step mixed_rt FEE_PAYER ?kp ?C (0, 0) [] = (Inr (1, 5), ?closeC @ [Sleep 1000], [''C''])"
    using eligibility_by_positive_lamports
      [where ta = ?C and rt = mixed_rt and w = "[]" and rentExempt = 2039280 and ?w1.0 = "[]"
         and fp = FEE_PAYER and kp = ?kp and acc = "(0, 0)"
         and closeResult = "\<lparr> closeSuccess = True, closeRentRecovered = 5, closeError = None \<rparr>"
         and e = ?closeC and ?w2.0 = "[''C'']",
       THEN conjunct2, THEN conjunct2, THEN conjunct2, THEN conjunct2, THEN conjunct1, THEN mp, OF h3]
    by simp
  have h4: "0 < length [?W] \<and> keypairFromSecret mixed_rt (privateKey ([?W] ! 0)) = Some ''W''
      \<and> getTokenAccounts mixed_rt ''W'' [] = (Inr [?A, ?B, ?C], [], [])"
    using mixed_discovery by (simp add: mixed_rt_def pipeline_rt_def fresh_wallet_def)
  have c4: "list_all (submits (\<lambda>is. set (closed_accounts is) \<subseteq> {''B'', ''C''}))
        (fst (snd (processWalletCompletely mixed_rt (Some FEE_PAYER) [?W] 0 [])))"
    using eligibility_by_positive_lamports
      [where rt = mixed_rt and i = 0 and wallets = "[?W]" and pub = "''W''" and w = "[]"
         and tokenAccounts = "[?A, ?B, ?C]" and ?e0.0 = "[]" and ?w0.0 = "[]" and fp = FEE_PAYER,
       THEN conjunct2, THEN conjunct2, THEN conjunct2, THEN conjunct2, THEN conjunct2, THEN mp, OF h4]
    by (simp only: fl)
  show ?thesis using c0 c0' c1 c2 c3 c4 by simp
qed

section \<open>The wallet store: who writes the discovery fields\<close>

lemma load_resets:
  "fst (loadWalletsFromFile d fs p clr ws) = Inr loaded \<Longrightarrow>
   snd (loadWalletsFromFile d fs p clr ws) = loaded
   \<and> list_all discovery_reset loaded"
  by (auto simp: loadWalletsFromFile_def Let_def fresh_wallet_def list_all_iff discovery_reset_def
      split: option.splits if_splits sum.splits prod.splits)

lemma load_keeps_keys:
  assumes "fst (loadWalletsFromFile d fs p False ws) = Inr loaded" "distinct (map publicKey ws)"
  shows "map wallet_keys (take (length ws) loaded) = map wallet_keys ws"
proof (cases rule: load_cases [of d fs p ws])
  case (failed e) with assms show ?thesis by simp
next
  case (loaded content m dups)
  from dedupe_keys_distinct [OF loaded(2)] existing_keymap_props [of ws]
  obtain new where m: "m = existing_keymap ws @ new" by auto
  have l: "loaded = map fresh_wallet (map_values m)" using loaded(3) assms(1) by simp
  show ?thesis unfolding l m existing_keymap_distinct [OF assms(2)]
    by (simp add: map_values_def fresh_wallet_def comp_def wallet_keys_def)
qed

lemma load_failed_unchanged:
  "isl (fst (loadWalletsFromFile d fs p False ws)) \<Longrightarrow> snd (loadWalletsFromFile d fs p False ws) = ws"
  by (cases rule: load_cases [of d fs p ws]) auto

lemma update_keeps_keys:
  "map privateKey (updateWalletInfo i b r a c ws) = map privateKey ws
   \<and> map publicKey (updateWalletInfo i b r a c ws) = map publicKey ws"
  by (auto simp: updateWalletInfo_def map_update list_eq_iff_nth_eq nth_list_update)

lemma update_writes_fields:
  assumes "0 \<le> index" "index < int (length wallets)"
  shows "updateWalletInfo index bal rentExempt rentAmt canCl wallets ! nat index
       = (wallets ! nat index) \<lparr> balance := bal, rentExemptBalance := rentExempt,
                                  rentAmount := rentAmt, canClose := canCl \<rparr>"
  using assms by (simp add: updateWalletInfo_def)

lemma update_keeps_others:
  "j \<noteq> nat index \<Longrightarrow>
   updateWalletInfo index bal rentExempt rentAmt canCl wallets ! j = wallets ! j"
  by (simp add: updateWalletInfo_def)

lemma update_keeps_length:
  "length (updateWalletInfo index bal rentExempt rentAmt canCl wallets) = length wallets"
  by (simp add: updateWalletInfo_def)

lemma analysis_writes_through_update:
  "processSingleWallet rt wallet walletIndex store w = (Inr (processed, store'), evs, w') \<Longrightarrow>
   store' = store
   \<or> (\<exists>walletBalance totalRentToCollect.
        store' = updateWalletInfo (int walletIndex) walletBalance 0 totalRentToCollect
                   (0 < totalRentToCollect) store)"
  by (auto simp: processSingleWallet_def io_bind_def io_catch_def io_return_def Let_def
      split: prod.splits sum.splits)

text \<open>
  C9 as stated fails: loading an additional wallet file rebuilds every record of the
  store from the deduplication map, which holds only the two keys, so the discovery
  fields of the records loaded before are reset. Here the first record has balance 5
  after the analysis wrote to it and balance 0 after the second file is loaded.
\<close>

theorem load_resets_discovery_fields_counterexample:
  "balance (updateWalletInfo 0 5 0 7 True
       (snd (loadWalletsFromFile demo_derive demo_fs ''one.txt'' False [])) ! 0) = 5
   \<and> balance (snd (loadWalletsFromFile demo_derive demo_fs ''two.txt'' False
       (updateWalletInfo 0 5 0 7 True
          (snd (loadWalletsFromFile demo_derive demo_fs ''one.txt'' False [])))) ! 0) = 0
   \<and> publicKey (snd (loadWalletsFromFile demo_derive demo_fs ''two.txt'' False
       (updateWalletInfo 0 5 0 7 True
          (snd (loadWalletsFromFile demo_derive demo_fs ''one.txt'' False [])))) ! 0)
     = publicKey (updateWalletInfo 0 5 0 7 True
       (snd (loadWalletsFromFile demo_derive demo_fs ''one.txt'' False [])) ! 0)"
  by code_simp

text \<open>
  C9 amended. The discovery fields of a record are written by \<open>updateWalletInfo\<close>:
  for an index of the store it sets the balance, the rent-exempt balance, the rent
  amount and \<open>canClose\<close> of the record at that index to the values given, and it
  changes no other record, neither key of any record, nor the number of records.
  The analysis of a wallet (\<open>processSingleWallet\<close>) changes the store through this
  operation only; the per-wallet pipeline and the batch loop read the store and
  return no store. The fields are reset by every successful load of a wallet file,
  which leaves every record of the store with balance 0, rent amounts 0 and
  \<open>canClose\<close> false. With \<open>clearExisting\<close> false and distinct identities the records
  loaded before keep their keys and positions, and a load that throws leaves the
  store unchanged.
\<close>

theorem discovery_fields_written_by_update_and_reset_by_load:
  "(fst (loadWalletsFromFile derive fs filePath clearExisting wallets) = Inr loaded \<longrightarrow>
      snd (loadWalletsFromFile derive fs filePath clearExisting wallets) = loaded
      \<and> list_all discovery_reset loaded)
   \<and> (fst (loadWalletsFromFile derive fs filePath False wallets) = Inr loaded
        \<and> distinct (map publicKey wallets) \<longrightarrow>
      map wallet_keys (take (length wallets) loaded) = map wallet_keys wallets)
   \<and> (isl (fst (loadWalletsFromFile derive fs filePath False wallets)) \<longrightarrow>
      snd (loadWalletsFromFile derive fs filePath False wallets) = wallets)
   \<and> map wallet_keys (updateWalletInfo index bal rentExempt rentAmt canCl wallets)
       = map wallet_keys wallets
   \<and> (0 \<le> index \<and> index < int (length wallets) \<longrightarrow>
      updateWalletInfo index bal rentExempt rentAmt canCl wallets ! nat index
        = (wallets ! nat index) \<lparr> balance := bal, rentExemptBalance := rentExempt,
                                   rentAmount := rentAmt, canClose := canCl \<rparr>
      \<and> balance (updateWalletInfo index bal rentExempt rentAmt canCl wallets ! nat index) = bal
      \<and> rentExemptBalance (updateWalletInfo index bal rentExempt rentAmt canCl wallets ! nat index)
          = rentExempt
      \<and> rentAmount (updateWalletInfo index bal rentExempt rentAmt canCl wallets ! nat index)
          = rentAmt
      \<and> canClose (updateWalletInfo index bal rentExempt rentAmt canCl wallets ! nat index)
          = canCl)
   \<and> (j \<noteq> nat index \<longrightarrow>
      updateWalletInfo index bal rentExempt rentAmt canCl wallets ! j = wallets ! j)
   \<and> length (updateWalletInfo index bal rentExempt rentAmt canCl wallets) = length wallets
   \<and> (processSingleWallet rt wallet walletIndex wallets w = (Inr (processed, store'), evs, w')
      \<longrightarrow> store' = wallets
          \<or> (\<exists>walletBalance totalRentToCollect.
               store' = updateWalletInfo (int walletIndex) walletBalance 0 totalRentToCollect
                          (0 < totalRentToCollect) wallets))"
proof -
  have loads: "(fst (loadWalletsFromFile derive fs filePath clearExisting wallets) = Inr loaded \<longrightarrow>
      snd (loadWalletsFromFile derive fs filePath clearExisting wallets) = loaded
      \<and> list_all discovery_reset loaded)
   \<and> (fst (loadWalletsFromFile derive fs filePath False wallets) = Inr loaded
        \<and> distinct (map publicKey wallets) \<longrightarrow>
      map wallet_keys (take (length wallets) loaded) = map wallet_keys wallets)
   \<and> (isl (fst (loadWalletsFromFile derive fs filePath False wallets)) \<longrightarrow>
      snd (loadWalletsFromFile derive fs filePath False wallets) = wallets)
   \<and> map wallet_keys (updateWalletInfo index bal rentExempt rentAmt canCl wallets)
       = map wallet_keys wallets"
    using load_resets [of derive fs filePath clearExisting wallets loaded]
      load_keeps_keys [of derive fs filePath wallets loaded]
      load_failed_unchanged [of derive fs filePath wallets]
      update_keeps_keys [of index bal rentExempt rentAmt canCl wallets]
    by (auto simp: wallet_keys_def list_eq_iff_nth_eq)
  have writes: "0 \<le> index \<and> index < int (length wallets) \<longrightarrow>
      updateWalletInfo index bal rentExempt rentAmt canCl wallets ! nat index
        = (wallets ! nat index) \<lparr> balance := bal, rentExemptBalance := rentExempt,
                                   rentAmount := rentAmt, canClose := canCl \<rparr>
      \<and> balance (updateWalletInfo index bal rentExempt rentAmt canCl wallets ! nat index) = bal
      \<and> rentExemptBalance (updateWalletInfo index bal rentExempt rentAmt canCl wallets ! nat index)
          = rentExempt
      \<and> rentAmount (updateWalletInfo index bal rentExempt rentAmt canCl wallets ! nat index)
          = rentAmt
      \<and> canClose (updateWalletInfo index bal rentExempt rentAmt canCl wallets ! nat index)
          = canCl"
    using update_writes_fields [of index wallets bal rentExempt rentAmt canCl] by simp
  have others: "j \<noteq> nat index \<longrightarrow>
      updateWalletInfo index bal rentExempt rentAmt canCl wallets ! j = wallets ! j"
    using update_keeps_others [of j index bal rentExempt rentAmt canCl wallets] by simp
  have analysis: "processSingleWallet rt wallet walletIndex wallets w
        = (Inr (processed, store'), evs, w')
      \<longrightarrow> store' = wallets
          \<or> (\<exists>walletBalance totalRentToCollect.
               store' = updateWalletInfo (int walletIndex) walletBalance 0 totalRentToCollect
                          (0 < totalRentToCollect) wallets)"
    using analysis_writes_through_update [of rt wallet walletIndex wallets w processed store' evs w']
    by simp
  note l1 = loads [THEN conjunct1]
  note l2 = loads [THEN conjunct2, THEN conjunct1]
  note l3 = loads [THEN conjunct2, THEN conjunct2, THEN conjunct1]
  note l4 = loads [THEN conjunct2, THEN conjunct2, THEN conjunct2]
  show ?thesis
    by (intro conjI l1 l2 l3 l4 writes others analysis
        update_keeps_length [of index bal rentExempt rentAmt canCl wallets])
qed

theorem discovery_fields_written_by_update_and_reset_by_load_witness:
  "list_all discovery_reset (snd (loadWalletsFromFile demo_derive demo_fs ''two.txt'' False
       (updateWalletInfo 0 5 0 7 True
          (snd (loadWalletsFromFile demo_derive demo_fs ''one.txt'' False [])))))
   \<and> map wallet_keys (take 2 (snd (loadWalletsFromFile demo_derive demo_fs ''two.txt'' False
       (updateWalletInfo 0 5 0 7 True
          (snd (loadWalletsFromFile demo_derive demo_fs ''one.txt'' False []))))))
     = [(SECRET_A, take 44 SECRET_A), (SECRET_B, take 44 SECRET_B)]
   \<and> snd (loadWalletsFromFile demo_derive demo_fs ''missing.txt'' False
       (updateWalletInfo 0 5 0 7 True
          (snd (loadWalletsFromFile demo_derive demo_fs ''one.txt'' False []))))
     = updateWalletInfo 0 5 0 7 True
          (snd (loadWalletsFromFile demo_derive demo_fs ''one.txt'' False []))
   \<and> updateWalletInfo 0 5 0 7 True
        (snd (loadWalletsFromFile demo_derive demo_fs ''one.txt'' False [])) ! 0
     = \<lparr> privateKey = SECRET_A, publicKey = take 44 SECRET_A, balance = 5,
         rentExemptBalance = 0, rentAmount = 7, canClose = True \<rparr>
   \<and> balance (updateWalletInfo 0 5 0 7 True
        (snd (loadWalletsFromFile demo_derive demo_fs ''one.txt'' False [])) ! 0) = 5
   \<and> rentAmount (updateWalletInfo 0 5 0 7 True
        (snd (loadWalletsFromFile demo_derive demo_fs ''one.txt'' False [])) ! 0) = 7
   \<and> canClose (updateWalletInfo 0 5 0 7 True
        (snd (loadWalletsFromFile demo_derive demo_fs ''one.txt'' False [])) ! 0)
   \<and> updateWalletInfo 0 5 0 7 True
        (snd (loadWalletsFromFile demo_derive demo_fs ''one.txt'' False [])) ! 1
     = \<lparr> privateKey = SECRET_B, publicKey = take 44 SECRET_B, balance = 0,
         rentExemptBalance = 0, rentAmount = 0, canClose = False \<rparr>
   \<and> length (updateWalletInfo 0 5 0 7 True
        (snd (loadWalletsFromFile demo_derive demo_fs ''one.txt'' False []))) = 2
   \<and> (\<exists>walletBalance totalRentToCollect.
        snd (projr (fst (processSingleWallet mixed_rt (fresh_wallet (''w-secret'', ''W'')) 0
           [fresh_wallet (''w-secret'', ''W'')] [])))
        = updateWalletInfo 0 walletBalance 0 totalRentToCollect (0 < totalRentToCollect)
            [fresh_wallet (''w-secret'', ''W'')]
        \<and> totalRentToCollect = 2039285)"
proof -
  let ?s0 = "snd (loadWalletsFromFile demo_derive demo_fs ''one.txt'' False [])"
  let ?s1 = "updateWalletInfo 0 5 0 7 True ?s0"
  let ?s2 = "snd (loadWalletsFromFile demo_derive demo_fs ''two.txt'' False ?s1)"
  let ?W = "fresh_wallet (''w-secret'', ''W'')"
  let ?P = "?W \<lparr> balance := 0, rentExemptBalance := 0, rentAmount := 2039285, canClose := True \<rparr>"
  have l: "fst (loadWalletsFromFile demo_derive demo_fs ''two.txt'' False ?s1) = Inr ?s2"
    by code_simp
  have d: "distinct (map publicKey ?s1)" by code_simp
  have k: "map wallet_keys ?s1 = [(SECRET_A, take 44 SECRET_A), (SECRET_B, take 44 SECRET_B)]"
    by code_simp
  have n: "length ?s1 = 2" by code_simp
  have f: "isl (fst (loadWalletsFromFile demo_derive demo_fs ''missing.txt'' False ?s1))"
    by (simp add: loadWalletsFromFile_def demo_fs_def)
  have s0: "?s0 = [\<lparr> privateKey = SECRET_A, publicKey = take 44 SECRET_A, balance = 0,
                     rentExemptBalance = 0, rentAmount = 0, canClose = False \<rparr>,
                   \<lparr> privateKey = SECRET_B, publicKey = take 44 SECRET_B, balance = 0,
                     rentExemptBalance = 0, rentAmount = 0, canClose = False \<rparr>]"
    by code_simp
  have c1: "list_all discovery_reset ?s2"
    using discovery_fields_written_by_update_and_reset_by_load
      [where derive = demo_derive and fs = demo_fs and filePath = "''two.txt''"
         and clearExisting = False and wallets = ?s1 and loaded = ?s2,
       THEN conjunct1, THEN mp, OF l]
    by (rule conjunct2)
  have ld: "fst (loadWalletsFromFile demo_derive demo_fs ''two.txt'' False ?s1) = Inr ?s2
      \<and> distinct (map publicKey ?s1)"
    using l d by (rule conjI)
  have c2: "map wallet_keys (take 2 ?s2)
      = [(SECRET_A, take 44 SECRET_A), (SECRET_B, take 44 SECRET_B)]"
    using discovery_fields_written_by_update_and_reset_by_load
      [where derive = demo_derive and fs = demo_fs and filePath = "''two.txt''"
         and wallets = ?s1 and loaded = ?s2,
       THEN conjunct2, THEN conjunct1, THEN mp, OF ld]
    by (simp only: k n)
  have c3: "snd (loadWalletsFromFile demo_derive demo_fs ''missing.txt'' False ?s1) = ?s1"
    using discovery_fields_written_by_update_and_reset_by_load
      [where derive = demo_derive and fs = demo_fs and filePath = "''missing.txt''"
         and wallets = ?s1,
       THEN conjunct2, THEN conjunct2, THEN conjunct1, THEN mp, OF f]
    by assumption
  have h: "(0::int) \<le> 0 \<and> 0 < int (length ?s0)" by (simp add: s0)
  note w = discovery_fields_written_by_update_and_reset_by_load
      [where index = 0 and wallets = ?s0 and bal = 5 and rentExempt = 0 and rentAmt = 7
         and canCl = True and j = 1,
       THEN conjunct2, THEN conjunct2, THEN conjunct2, THEN conjunct2]
  note w1 = w [THEN conjunct1, THEN mp, OF h]
  have c4: "?s1 ! 0 = \<lparr> privateKey = SECRET_A, publicKey = take 44 SECRET_A, balance = 5,
         rentExemptBalance = 0, rentAmount = 7, canClose = True \<rparr>"
    using w1 [THEN conjunct1] by (simp add: s0)
  have c5: "balance (?s1 ! 0) = 5"
    using w1 [THEN conjunct2, THEN conjunct1] by simp
  have c6: "rentAmount (?s1 ! 0) = 7"
    using w1 [THEN conjunct2, THEN conjunct2, THEN conjunct2, THEN conjunct1] by simp
  have c7: "canClose (?s1 ! 0)"
    using w1 [THEN conjunct2, THEN conjunct2, THEN conjunct2, THEN conjunct2] by simp
  have c8: "?s1 ! 1 = \<lparr> privateKey = SECRET_B, publicKey = take 44 SECRET_B, balance = 0,
         rentExemptBalance = 0, rentAmount = 0, canClose = False \<rparr>"
    using w [THEN conjunct2, THEN conjunct1] by (simp add: s0)
  have c9: "length ?s1 = 2"
    using w [THEN conjunct2, THEN conjunct2, THEN conjunct1] by (simp add: s0)
  have fl: "funded_lamports [(''A'', token_account 0 0 0), (''B'', token_account 2039280 0 0),
              (''C'', token_account 5 0 0)] = 2039285"
    by (simp add: funded_lamports_def funded_def token_account_def)
  have h1: "keypairFromSecret mixed_rt (privateKey ?W) = Some ''W''"
    "retry (io_await (getBalance mixed_rt ''W'')) [] = (Inr 0, [], [])"
    "getTokenAccounts mixed_rt ''W'' []
       = (Inr [(''A'', token_account 0 0 0), (''B'', token_account 2039280 0 0),
               (''C'', token_account 5 0 0)], [], [])"
    "for_of (rent_step mixed_rt) [(''A'', token_account 0 0 0), (''B'', token_account 2039280 0 0),
               (''C'', token_account 5 0 0)] (0, 0) [] = (Inr (2039285, 2), [], [])"
    using mixed_discovery
    by (simp_all add: mixed_rt_def pipeline_rt_def run_simps io_await_def fresh_wallet_def
        rent_step_def calc_run canCloseAccount_def calculateRentAmount_def token_account_def
        Let_def)
  have run: "processSingleWallet mixed_rt ?W 0 [?W] []
       = (Inr (?P, updateWalletInfo (int 0) 0 0 2039285 True [?W]), [Sleep 250], [])"
    using processSingleWallet_run [OF h1, of 0 "[?W]"] by (simp add: fl)
  have c10: "\<exists>walletBalance totalRentToCollect.
        snd (projr (fst (processSingleWallet mixed_rt ?W 0 [?W] [])))
        = updateWalletInfo 0 walletBalance 0 totalRentToCollect (0 < totalRentToCollect) [?W]
        \<and> totalRentToCollect = 2039285"
    using discovery_fields_written_by_update_and_reset_by_load
      [where rt = mixed_rt and wallet = ?W and walletIndex = 0 and wallets = "[?W]" and w = "[]"
         and processed = ?P and store' = "updateWalletInfo (int 0) 0 0 2039285 True [?W]"
         and evs = "[Sleep 250]" and w' = "[]",
       THEN conjunct2, THEN conjunct2, THEN conjunct2, THEN conjunct2, THEN conjunct2,
       THEN conjunct2, THEN conjunct2, THEN mp, OF run]
      run
    by (intro exI [of _ 0] exI [of _ 2039285]) simp
  show ?thesis
    by (intro conjI c1 c2 c3 c4 c5 c6 c7 c8 c9 c10)
qed

section \<open>The order of the phases\<close>

text \<open>
  C6 as stated fails: the pipeline closes first and runs the standalone burn phase
  afterwards. Here the ledger rejects the transaction that burns and closes account
  A; the pipeline then submits a burn of A's 1000 token units on its own, after the
  close of A was submitted.
\<close>

theorem standalone_burn_after_close_counterexample:
  "processWalletCompletely stuck_rt (Some FEE_PAYER) [fresh_wallet (''w-secret'', ''W'')] 0 []
  = (Inr \<lparr> tokenAccountsClosed = 0, rentRecovered = 0, solTransferred = 0, totalRecovered = 0 \<rparr>,
     [Submit \<lparr> instructions = [BurnInstruction ''A'' (replicate 32 0) ''W'' 1000 TOKEN_PROGRAM_ID,
                                 CloseAccountInstruction ''A'' ''F'' ''W'' TOKEN_PROGRAM_ID],
                feePayer = ''F'', recentBlockhash = ''blockhash'', signers = [''W'', ''F''] \<rparr>,
      Sleep 1000,
      Submit \<lparr> instructions = [BurnInstruction ''A'' (replicate 32 0) ''W'' 1000 TOKEN_PROGRAM_ID],
                feePayer = ''F'', recentBlockhash = ''blockhash'', signers = [''W'', ''F''] \<rparr>,
      Sleep 500],
     [])"
  by (simp add: stuck_rt_def pipeline_simps)

text \<open>
  C6 amended. For every wallet processed by the per-wallet pipeline the phases occur
  in the order Discovering, Closing, Burning, Sweeping. The discovery comes first and
  submits nothing; the transactions submitted are ordered by phase, closing before
  standalone burning before sweeping; every transaction is a close of one account
  (with the burn of that account's token balance, when it has one, as the instruction
  before the close instruction), a burn of one account alone, or a transfer; and
  every account closed is one the discovery at the start returned.
\<close>

theorem phases_discover_close_burn_sweep:
  "phase_ordered (fst (snd (processWalletCompletely rt feePayerKeypair wallets i w)))
   \<and> list_all (submits well_formed)
        (fst (snd (processWalletCompletely rt feePayerKeypair wallets i w)))
   \<and> (i < length wallets \<and> keypairFromSecret rt (privateKey (wallets ! i)) = Some pub
        \<and> getTokenAccounts rt pub w = (Inr tokenAccounts, e0, w0) \<longrightarrow>
      submitted e0 = []
      \<and> take (length e0) (fst (snd (processWalletCompletely rt (Some fp) wallets i w))) = e0
      \<and> list_all (submits (\<lambda>is. set (closed_accounts is) \<subseteq> set (map fst tokenAccounts)))
           (fst (snd (processWalletCompletely rt (Some fp) wallets i w))))"
proof (intro conjI impI)
  show "phase_ordered (fst (snd (processWalletCompletely rt feePayerKeypair wallets i w)))"
    using processWalletCompletely_ordered [of rt feePayerKeypair wallets i]
    by (simp add: ordered_def)
  show "list_all (submits well_formed)
        (fst (snd (processWalletCompletely rt feePayerKeypair wallets i w)))"
    using processWalletCompletely_emits [of well_formed rt feePayerKeypair wallets i]
    by (simp add: emits_def close_shape_facts burn_shape_facts transfer_shape_facts)
next
  assume h: "i < length wallets \<and> keypairFromSecret rt (privateKey (wallets ! i)) = Some pub
        \<and> getTokenAccounts rt pub w = (Inr tokenAccounts, e0, w0)"
  then show "submitted e0 = []"
    using discovery_submits_nothing [of rt pub w "Inr tokenAccounts" e0 w0] by simp
  from h pipeline_after_discovery [of i wallets rt pub w tokenAccounts e0 w0 fp]
  show "take (length e0) (fst (snd (processWalletCompletely rt (Some fp) wallets i w))) = e0"
    by auto
  have "list_all (submits (\<lambda>is. set (closed_accounts is) \<subseteq> set (map fst (funded tokenAccounts))))
           (fst (snd (processWalletCompletely rt (Some fp) wallets i w)))"
    using h pipeline_closes_only_funded [of i wallets rt pub w tokenAccounts e0 w0 fp] by blast
  then show "list_all (submits (\<lambda>is. set (closed_accounts is) \<subseteq> set (map fst tokenAccounts)))
           (fst (snd (processWalletCompletely rt (Some fp) wallets i w)))"
    by (rule list_all_submits_mono) (use funded_subset [of tokenAccounts] in blast)
qed

theorem phases_discover_close_burn_sweep_witness:
  "phase_ordered (fst (snd (processWalletCompletely stuck_rt (Some FEE_PAYER)
       [fresh_wallet (''w-secret'', ''W'')] 0 [])))
   \<and> list_all (submits well_formed) (fst (snd (processWalletCompletely stuck_rt (Some FEE_PAYER)
       [fresh_wallet (''w-secret'', ''W'')] 0 [])))
   \<and> list_all (submits (\<lambda>is. set (closed_accounts is)
          \<subseteq> set (map fst [(''A'', token_account 2039280 0xE8 0x03)])))
        (fst (snd (processWalletCompletely stuck_rt (Some FEE_PAYER)
           [fresh_wallet (''w-secret'', ''W'')] 0 [])))"
proof -
  have h: "0 < length [fresh_wallet (''w-secret'', ''W'')]
      \<and> keypairFromSecret stuck_rt (privateKey ([fresh_wallet (''w-secret'', ''W'')] ! 0)) = Some ''W''
      \<and> getTokenAccounts stuck_rt ''W'' [] = (Inr [(''A'', token_account 2039280 0xE8 0x03)], [], [])"
    by (simp add: stuck_rt_def pipeline_simps)
  note t = phases_discover_close_burn_sweep
      [where rt = stuck_rt and feePayerKeypair = "Some FEE_PAYER" and fp = FEE_PAYER
         and wallets = "[fresh_wallet (''w-secret'', ''W'')]" and i = 0 and w = "[]"
         and pub = "''W''" and tokenAccounts = "[(''A'', token_account 2039280 0xE8 0x03)]"
         and ?e0.0 = "[]" and ?w0.0 = "[]"]
  have a: "phase_ordered (fst (snd (processWalletCompletely stuck_rt (Some FEE_PAYER)
       [fresh_wallet (''w-secret'', ''W'')] 0 [])))"
    by (rule t [THEN conjunct1])
  have b: "list_all (submits well_formed) (fst (snd (processWalletCompletely stuck_rt
       (Some FEE_PAYER) [fresh_wallet (''w-secret'', ''W'')] 0 [])))"
    by (rule t [THEN conjunct2, THEN conjunct1])
  have c: "list_all (submits (\<lambda>is. set (closed_accounts is)
          \<subseteq> set (map fst [(''A'', token_account 2039280 0xE8 0x03)])))
        (fst (snd (processWalletCompletely stuck_rt (Some FEE_PAYER)
           [fresh_wallet (''w-secret'', ''W'')] 0 [])))"
    by (rule t [THEN conjunct2, THEN conjunct2, THEN mp, OF h, THEN conjunct2, THEN conjunct2])
  show ?thesis by (intro conjI a b c)
qed

section \<open>No floor in the pipeline\<close>

text \<open>
  C8. The per-wallet pipeline is to pass over a token account whose lamport balance
  is below a small positive floor and not to sweep a wallet whose remaining balance
  is below it. The README promises a minimum rent threshold of 0.0001 SOL against
  unprofitable transactions, and \<open>transferSolBalances\<close>, the other operation that
  sweeps a wallet, skips every balance that is not above 10,000 lamports. The
  pipeline compares with zero in both places (\<open>canCloseAccount\<close> is
  \<^verbatim>\<open>balance > 0\<close> and the sweep tests \<^verbatim>\<open>updatedBalance > 0\<close>), so it acts
  on amounts below either floor. Wallet W owns one token account A holding a single
  lamport and has a native balance of a single lamport: the pipeline submits a
  transaction that closes A and a transfer of the one lamport, while
  \<open>transferSolBalances\<close> passes over the same wallet with the same balance.
\<close>

theorem pipeline_acts_below_floor:
  "processWalletCompletely dust_rt (Some FEE_PAYER) [fresh_wallet (''w-secret'', ''W'')] 0 []
  = (Inr \<lparr> tokenAccountsClosed = 1, rentRecovered = 1, solTransferred = 1, totalRecovered = 2 \<rparr>,
     [Submit \<lparr> instructions = [CloseAccountInstruction ''A'' ''F'' ''W'' TOKEN_PROGRAM_ID],
                feePayer = ''F'', recentBlockhash = ''blockhash'', signers = [''W'', ''F''] \<rparr>,
      Sleep 1000,
      Submit \<lparr> instructions = [TransferInstruction ''W'' ''F'' 1],
                feePayer = ''F'', recentBlockhash = ''blockhash'', signers = [''W'', ''F''] \<rparr>],
     [''A''])
   \<and> canCloseAccount 1 2039280
   \<and> 1 < MIN_TRANSFER_LAMPORTS
   \<and> transferSolBalances dust_rt (Some FEE_PAYER)
        [fresh_wallet (''w-secret'', ''W'') \<lparr> balance := 1 \<rparr>] []
     = (Inr \<lparr> totalWallets = 1, successfulCollections = 0, totalRentCollected = 0,
              failedCollections = 0, results = [] \<rparr>, [], [])"
  by (simp add: dust_rt_def pipeline_simps MIN_TRANSFER_LAMPORTS_def transferSolBalances_def
      transfer_step_def transfer_selected_def)

section \<open>The batch loop\<close>

subsection \<open>The summary counts the outcomes of the wallets\<close>

lemma wallet_step_returned:
  "callback_quiet cb \<Longrightarrow> processWalletCompletely rt fpo wallets i w = (Inr wr, e, w1) \<Longrightarrow>
   \<exists>evs. wallet_step rt fpo cb wallets i t w =
     (Inr (t \<lparr> totalTokenAccountsClosed := totalTokenAccountsClosed t + tokenAccountsClosed wr,
               totalRentRecovered := totalRentRecovered t + rentRecovered wr,
               totalSolTransferred := totalSolTransferred t + solTransferred wr,
               totalRecoveredSum := totalRecoveredSum t + totalRecovered wr,
               successfulWallets := successfulWallets t + 1 \<rparr>), evs, w1)"
  by (cases cb)
    (simp_all add: wallet_step_def wallet_failed_def callback_quiet_def Let_def io_try_def
      io_bind_def progress_def io_emit_def io_await_def io_return_def sleep_def)

lemma wallet_step_thrown:
  "callback_quiet cb \<Longrightarrow> processWalletCompletely rt fpo wallets i w = (Inl err, e, w1) \<Longrightarrow>
   \<exists>evs. wallet_step rt fpo cb wallets i t w =
     (Inr (t \<lparr> failedWallets := failedWallets t + 1 \<rparr>), evs, w1)"
  by (cases cb)
    (simp_all add: wallet_step_def wallet_failed_def callback_quiet_def Let_def io_try_def
      io_bind_def progress_def io_emit_def io_await_def io_return_def sleep_def)

lemma returned_simps [simp]: "returned (Inl e) = False" "returned (Inr x) = True"
  by (simp_all add: returned_def)

lemma wallet_loop_outcomes:
  assumes q: "callback_quiet cb"
  shows "\<exists>t' evs w'. for_of (wallet_step rt fpo cb wallets) is t w = (Inr t', evs, w')
     \<and> successfulWallets t' = successfulWallets t
          + length (filter returned (wallet_outcomes rt fpo wallets is w))
     \<and> failedWallets t' = failedWallets t
          + length (filter isl (wallet_outcomes rt fpo wallets is w))
     \<and> totalRecoveredSum t' = totalRecoveredSum t
          + sum_list (map recovered_of (wallet_outcomes rt fpo wallets is w))"
proof (induction "is" arbitrary: t w)
  case Nil
  show ?case by (simp add: io_return_def)
next
  case (Cons i "is")
  obtain r e w1 where p: "processWalletCompletely rt fpo wallets i w = (r, e, w1)"
    by (cases "processWalletCompletely rt fpo wallets i w")
  show ?case
  proof (cases r)
    case (Inl err)
    from wallet_step_thrown [OF q p [unfolded Inl], of t] obtain evs where
      s: "wallet_step rt fpo cb wallets i t w = (Inr (t \<lparr> failedWallets := failedWallets t + 1 \<rparr>), evs, w1)"
      by blast
    from Cons.IH [of "t \<lparr> failedWallets := failedWallets t + 1 \<rparr>" w1] obtain t' evs' w' where
      l: "for_of (wallet_step rt fpo cb wallets) is (t \<lparr> failedWallets := failedWallets t + 1 \<rparr>) w1
            = (Inr t', evs', w')"
      and c: "successfulWallets t' = successfulWallets (t \<lparr> failedWallets := failedWallets t + 1 \<rparr>)
          + length (filter returned (wallet_outcomes rt fpo wallets is w1))"
         "failedWallets t' = failedWallets (t \<lparr> failedWallets := failedWallets t + 1 \<rparr>)
          + length (filter isl (wallet_outcomes rt fpo wallets is w1))"
         "totalRecoveredSum t' = totalRecoveredSum (t \<lparr> failedWallets := failedWallets t + 1 \<rparr>)
          + sum_list (map recovered_of (wallet_outcomes rt fpo wallets is w1))"
      by blast
    show ?thesis using s l c p Inl by (simp add: io_bind_Inr)
  next
    case (Inr wr)
    let ?t1 = "t \<lparr> totalTokenAccountsClosed := totalTokenAccountsClosed t + tokenAccountsClosed wr,
               totalRentRecovered := totalRentRecovered t + rentRecovered wr,
               totalSolTransferred := totalSolTransferred t + solTransferred wr,
               totalRecoveredSum := totalRecoveredSum t + totalRecovered wr,
               successfulWallets := successfulWallets t + 1 \<rparr>"
    from wallet_step_returned [OF q p [unfolded Inr], of t] obtain evs where
      s: "wallet_step rt fpo cb wallets i t w = (Inr ?t1, evs, w1)"
      by blast
    from Cons.IH [of ?t1 w1] obtain t' evs' w' where
      l: "for_of (wallet_step rt fpo cb wallets) is ?t1 w1 = (Inr t', evs', w')"
      and c: "successfulWallets t' = successfulWallets ?t1
          + length (filter returned (wallet_outcomes rt fpo wallets is w1))"
         "failedWallets t' = failedWallets ?t1
          + length (filter isl (wallet_outcomes rt fpo wallets is w1))"
         "totalRecoveredSum t' = totalRecoveredSum ?t1
          + sum_list (map recovered_of (wallet_outcomes rt fpo wallets is w1))"
      by blast
    show ?thesis using s l c p Inr by (simp add: io_bind_Inr)
  qed
qed

lemma processAllWallets_outcomes:
  assumes q: "callback_quiet cb"
  shows "\<exists>summary evs w'.
     processAllWallets rt (Some fp) cb wallets w = (Inr summary, evs, w')
     \<and> successfulCollections summary
         = length (filter returned (wallet_outcomes rt (Some fp) wallets [0..<length wallets] w))
     \<and> failedCollections summary
         = length (filter isl (wallet_outcomes rt (Some fp) wallets [0..<length wallets] w))
     \<and> totalRentCollected summary
         = sum_list (map recovered_of (wallet_outcomes rt (Some fp) wallets [0..<length wallets] w))
     \<and> results summary = []"
proof -
  let ?t0 = "\<lparr> totalTokenAccountsClosed = 0, totalRentRecovered = 0, totalSolTransferred = 0,
                 totalRecoveredSum = 0, successfulWallets = 0, failedWallets = 0 \<rparr>"
  from wallet_loop_outcomes [OF q, of rt "Some fp" wallets "[0..<length wallets]" ?t0 w]
  obtain t' evs w' where
    l: "for_of (wallet_step rt (Some fp) cb wallets) [0..<length wallets] ?t0 w = (Inr t', evs, w')"
    and c: "successfulWallets t' = successfulWallets ?t0
          + length (filter returned (wallet_outcomes rt (Some fp) wallets [0..<length wallets] w))"
         "failedWallets t' = failedWallets ?t0
          + length (filter isl (wallet_outcomes rt (Some fp) wallets [0..<length wallets] w))"
         "totalRecoveredSum t' = totalRecoveredSum ?t0
          + sum_list (map recovered_of (wallet_outcomes rt (Some fp) wallets [0..<length wallets] w))"
    by blast
  show ?thesis using l c by (simp add: processAllWallets_def io_bind_Inr io_return_def)
qed

lemma pipeline_run_failed_sweep:
  assumes "i < length wallets"
    "keypairFromSecret rt (privateKey (wallets ! i)) = Some pub"
    "getTokenAccounts rt pub w = (Inr tokenAccounts, e0, w0)"
    "for_of (close_step rt fp (Keypair (privateKey (wallets ! i)) pub)) tokenAccounts (0, 0) w0
       = (Inr closed, e1, w1)"
    "burnAllTokens rt (Some fp) (Keypair (privateKey (wallets ! i)) pub) w1 = (Inr burned, e2, w2)"
    "retry (io_await (getBalance rt pub)) w2 = (Inr bal, e3, w3)" "0 < bal"
    "transferSolToFeePayer rt (Some fp) (Keypair (privateKey (wallets ! i)) pub) bal w3
       = (Inr transferResult, e4, w4)"
    "\<not> transferSuccess transferResult"
  shows "processWalletCompletely rt (Some fp) wallets i w =
     (Inr \<lparr> tokenAccountsClosed = fst closed, rentRecovered = snd closed, solTransferred = 0,
            totalRecovered = snd closed \<rparr>, e0 @ e1 @ e2 @ e3 @ e4, w4)"
proof -
  have s: "sweep rt (Some fp) (Keypair (privateKey (wallets ! i)) pub) w2 = (Inr 0, e3 @ e4, w4)"
    using sweep_something [of rt "Keypair (privateKey (wallets ! i)) pub" w2 bal e3 w3 "Some fp"
        transferResult e4 w4] assms(6-9) by simp
  show ?thesis
    using assms(1-5) s
    by (simp add: processWalletCompletely_def fromSecretKey_def io_bind_Inr Let_def io_return_def)
qed

lemma wallet_outcomes_length [simp]:
  "length (wallet_outcomes rt fpo wallets is w) = length is"
  by (induction "is" arbitrary: w) (auto split: prod.splits)

lemma returned_or_thrown:
  "length (filter returned outs) + length (filter isl outs) = length outs"
  by (induction outs) (auto simp: returned_def)

text \<open>With no progress callback, or with one that never throws, every call returns a
  summary in which each wallet of the store is counted once, as successful when its
  pipeline returned and as failed when it threw.\<close>

lemma processAllWallets_counts_when_callback_quiet:
  assumes q: "callback_quiet progressCallback"
  shows "\<exists>summary evs w'.
     processAllWallets rt (Some feePayerKp) progressCallback wallets w = (Inr summary, evs, w')
     \<and> successfulCollections summary + failedCollections summary = totalWallets summary
     \<and> totalWallets summary = getWalletCount wallets
     \<and> successfulCollections summary
         = length (filter returned
             (wallet_outcomes rt (Some feePayerKp) wallets [0..<length wallets] w))
     \<and> failedCollections summary
         = length (filter isl
             (wallet_outcomes rt (Some feePayerKp) wallets [0..<length wallets] w))"
proof -
  let ?outs = "wallet_outcomes rt (Some feePayerKp) wallets [0..<length wallets] w"
  from processAllWallets_outcomes [OF q, of rt feePayerKp wallets w]
  obtain summary evs w' where
    run: "processAllWallets rt (Some feePayerKp) progressCallback wallets w
            = (Inr summary, evs, w')"
    and s: "successfulCollections summary = length (filter returned ?outs)"
    and f: "failedCollections summary = length (filter isl ?outs)"
    by blast
  have t: "totalWallets summary = length wallets"
    using run
    by (auto simp: processAllWallets_def io_bind_def io_return_def split: prod.splits sum.splits)
  have n: "successfulCollections summary + failedCollections summary = length wallets"
    using s f returned_or_thrown [of ?outs] by simp
  show ?thesis using run s f t n by (simp add: getWalletCount_def)
qed

text \<open>
  C1. \<open>processAllWallets\<close> is to return a summary whatever happens to a wallet, with
  every wallet of the store counted once. The \<^verbatim>\<open>try\<close> block around the work on
  a wallet is there for this, and it holds the exceptions of the pipeline. It does
  not hold those of the progress callback: the callback is called again inside the
  \<^verbatim>\<open>catch\<close> block, where nothing catches, and it is called in the
  \<^verbatim>\<open>try\<close> block after \<^verbatim>\<open>successfulWallets++\<close>, so that its exception
  makes the handler count the same wallet as failed as well. The store holds one
  wallet W, whose token account A holds 2,039,280 lamports. With a callback that
  always throws (the window of the application is gone) the call throws and no
  summary is returned. With a callback that throws when it is told of the collected
  amount, the account is closed and the summary counts the one wallet as successful
  and as failed: the two counts add up to 2, the number of wallets is 1.
\<close>

theorem progress_callback_exception_breaks_summary:
  "processAllWallets solo_rt (Some FEE_PAYER) (Some destroyed_callback)
     [fresh_wallet (''w-secret'', ''W'')] []
   = (Inl (Error ''Object has been destroyed''),
      [Progress 1 1 ''W'' ProcessingWallet, Progress 1 1 ''W'' FailedToProcess], [])
   \<and> processAllWallets solo_rt (Some FEE_PAYER) (Some collected_rejecting_callback)
       [fresh_wallet (''w-secret'', ''W'')] []
     = (Inr \<lparr> totalWallets = 1, successfulCollections = 1, totalRentCollected = 2039280,
              failedCollections = 1, results = [] \<rparr>,
        [Progress 1 1 ''W'' ProcessingWallet,
         Submit \<lparr> instructions = [CloseAccountInstruction ''A'' ''F'' ''W'' TOKEN_PROGRAM_ID],
                   feePayer = ''F'', recentBlockhash = ''blockhash'', signers = [''W'', ''F''] \<rparr>,
         Sleep 1000,
         Progress 1 1 ''W'' (Collected 2039280),
         Progress 1 1 ''W'' FailedToProcess],
        [''A''])
   \<and> getWalletCount [fresh_wallet (''w-secret'', ''W'')] = 1"
  by (simp add: solo_rt_def pipeline_simps processAllWallets_def wallet_step_def
      wallet_failed_def io_try_def progress_def destroyed_callback_def
      collected_rejecting_callback_def getWalletCount_def upt_rec [of 0])

section \<open>A failed sweep does not fail the wallet\<close>

text \<open>
  C5 as stated fails: a sweep that the ledger rejects with an error that is not a
  rate limit does not make the wallet fail. Wallet X closes its token account and
  recovers 2,039,280 lamports; the sweep of the 500,000 lamports of wallet Y is
  rejected; the progress callback never throws; the summary counts two successful
  wallets and no failed one.
\<close>

theorem failed_sweep_not_counted_failed_counterexample:
  "processAllWallets two_wallets_rt (Some FEE_PAYER) (Some reporting_callback)
     [fresh_wallet (''x-secret'', ''X''), fresh_wallet (''y-secret'', ''Y'')] []
   = (Inr \<lparr> totalWallets = 2, successfulCollections = 2, totalRentCollected = 2039280,
            failedCollections = 0, results = [] \<rparr>,
      [Progress 1 2 ''X'' ProcessingWallet,
       Submit \<lparr> instructions = [BurnInstruction ''A'' (replicate 32 0) ''X'' 1000 TOKEN_PROGRAM_ID,
                                  CloseAccountInstruction ''A'' ''F'' ''X'' TOKEN_PROGRAM_ID],
                 feePayer = ''F'', recentBlockhash = ''blockhash'', signers = [''X'', ''F''] \<rparr>,
       Sleep 1000,
       Progress 1 2 ''X'' (Collected 2039280),
       Sleep 1500,
       Progress 2 2 ''Y'' ProcessingWallet,
       Submit \<lparr> instructions = [TransferInstruction ''Y'' ''F'' 500000],
                 feePayer = ''F'', recentBlockhash = ''blockhash'', signers = [''Y'', ''F''] \<rparr>,
       Progress 2 2 ''Y'' (Collected 0)],
      [''A''])
   \<and> sendAndConfirmTransaction two_wallets_rt
        \<lparr> instructions = [TransferInstruction ''Y'' ''F'' 500000],
          feePayer = ''F'', recentBlockhash = ''blockhash'', signers = [''Y'', ''F''] \<rparr> [''A'']
       = (Inl (Error ''Transaction simulation failed''), [''A''])
   \<and> is_rate_limit (Error ''Transaction simulation failed'') = False"
  by (simp add: two_wallets_rt_def pipeline_simps processAllWallets_def wallet_step_def
      wallet_failed_def io_try_def progress_def reporting_callback_def
      upt_rec [of 0] upt_rec [of 1])

text \<open>
  C5 amended. A sweep transaction rejected with an error that is not a rate limit
  makes \<open>transferSolToFeePayer\<close> return an unsuccessful result (it never throws); the
  pipeline of that wallet then returns normally with \<open>solTransferred\<close> zero and the
  rent it recovered. When the progress callback is absent or does not throw,
  \<open>processAllWallets\<close> returns a summary that counts as failed exactly the wallets
  whose pipeline threw and as successful those whose pipeline returned, the wallet
  with the failed sweep among them, and that adds up what each of the latter
  recovered; its list of results is empty.
\<close>

theorem failed_sweep_counted_successful:
  "(0 < amount \<and> getLatestBlockhash rt w = (Inr blockhash, w1)
      \<and> sendAndConfirmTransaction rt
           \<lparr> instructions = [TransferInstruction (keypairPublicKey kp) (keypairPublicKey fp) amount],
             feePayer = keypairPublicKey fp, recentBlockhash = blockhash,
             signers = [keypairPublicKey kp, keypairPublicKey fp] \<rparr> w1 = (Inl err, w2)
      \<and> \<not> is_rate_limit err
    \<longrightarrow> transferSolToFeePayer rt (Some fp) kp amount w =
          (Inr \<lparr> transferSuccess = False, amountTransferred = 0,
                 transferError = Some (error_message err) \<rparr>,
           [Submit \<lparr> instructions =
                       [TransferInstruction (keypairPublicKey kp) (keypairPublicKey fp) amount],
                     feePayer = keypairPublicKey fp, recentBlockhash = blockhash,
                     signers = [keypairPublicKey kp, keypairPublicKey fp] \<rparr>], w2))
   \<and> no_throw (transferSolToFeePayer rt feePayerKeypair kp amount)
   \<and> (i < length wallets \<and> keypairFromSecret rt (privateKey (wallets ! i)) = Some pub
      \<and> getTokenAccounts rt pub w = (Inr tokenAccounts, e0, ws0)
      \<and> for_of (close_step rt fp (Keypair (privateKey (wallets ! i)) pub)) tokenAccounts (0, 0) ws0
           = (Inr closed, e1, ws1)
      \<and> burnAllTokens rt (Some fp) (Keypair (privateKey (wallets ! i)) pub) ws1
           = (Inr burned, e2, ws2)
      \<and> retry (io_await (getBalance rt pub)) ws2 = (Inr bal, e3, ws3) \<and> 0 < bal
      \<and> transferSolToFeePayer rt (Some fp) (Keypair (privateKey (wallets ! i)) pub) bal ws3
           = (Inr transferResult, e4, ws4)
      \<and> \<not> transferSuccess transferResult
    \<longrightarrow> processWalletCompletely rt (Some fp) wallets i w =
          (Inr \<lparr> tokenAccountsClosed = fst closed, rentRecovered = snd closed, solTransferred = 0,
                 totalRecovered = snd closed \<rparr>, e0 @ e1 @ e2 @ e3 @ e4, ws4))
   \<and> (callback_quiet progressCallback
    \<longrightarrow> (\<exists>summary evs w'.
        processAllWallets rt (Some fp) progressCallback wallets w = (Inr summary, evs, w')
        \<and> successfulCollections summary
            = length (filter returned (wallet_outcomes rt (Some fp) wallets [0..<length wallets] w))
        \<and> failedCollections summary
            = length (filter isl (wallet_outcomes rt (Some fp) wallets [0..<length wallets] w))
        \<and> totalRentCollected summary
            = sum_list (map recovered_of
                (wallet_outcomes rt (Some fp) wallets [0..<length wallets] w))
        \<and> results summary = []))"
  using transfer_run_reject [of amount rt w blockhash w1 kp fp err w2]
    no_throw_transfer [of rt feePayerKeypair kp amount]
    pipeline_run_failed_sweep [of i wallets rt pub w tokenAccounts e0 ws0 fp closed e1 ws1
      burned e2 ws2 bal e3 ws3 transferResult e4 ws4]
    processAllWallets_outcomes [of progressCallback rt fp wallets w]
  by blast

theorem failed_sweep_counted_successful_witness:
  "transferSolToFeePayer two_wallets_rt (Some FEE_PAYER) (Keypair ''y-secret'' ''Y'') 500000 [''A'']
     = (Inr \<lparr> transferSuccess = False, amountTransferred = 0,
              transferError = Some ''Transaction simulation failed'' \<rparr>,
        [Submit \<lparr> instructions = [TransferInstruction ''Y'' ''F'' 500000],
                   feePayer = ''F'', recentBlockhash = ''blockhash'', signers = [''Y'', ''F''] \<rparr>],
        [''A''])
   \<and> processWalletCompletely two_wallets_rt (Some FEE_PAYER)
        [fresh_wallet (''x-secret'', ''X''), fresh_wallet (''y-secret'', ''Y'')] 1 [''A'']
     = (Inr \<lparr> tokenAccountsClosed = 0, rentRecovered = 0, solTransferred = 0, totalRecovered = 0 \<rparr>,
        [Submit \<lparr> instructions = [TransferInstruction ''Y'' ''F'' 500000],
                   feePayer = ''F'', recentBlockhash = ''blockhash'', signers = [''Y'', ''F''] \<rparr>],
        [''A''])
   \<and> length (filter returned (wallet_outcomes two_wallets_rt (Some FEE_PAYER)
        [fresh_wallet (''x-secret'', ''X''), fresh_wallet (''y-secret'', ''Y'')]
        [0..<length [fresh_wallet (''x-secret'', ''X''), fresh_wallet (''y-secret'', ''Y'')]] [])) = 2
   \<and> length (filter isl (wallet_outcomes two_wallets_rt (Some FEE_PAYER)
        [fresh_wallet (''x-secret'', ''X''), fresh_wallet (''y-secret'', ''Y'')]
        [0..<length [fresh_wallet (''x-secret'', ''X''), fresh_wallet (''y-secret'', ''Y'')]] [])) = 0
   \<and> sum_list (map recovered_of (wallet_outcomes two_wallets_rt (Some FEE_PAYER)
        [fresh_wallet (''x-secret'', ''X''), fresh_wallet (''y-secret'', ''Y'')]
        [0..<length [fresh_wallet (''x-secret'', ''X''), fresh_wallet (''y-secret'', ''Y'')]] []))
     = 2039280"
proof -
  let ?ws = "[fresh_wallet (''x-secret'', ''X''), fresh_wallet (''y-secret'', ''Y'')]"
  let ?kp = "Keypair ''y-secret'' ''Y''"
  let ?tx = "\<lparr> instructions = [TransferInstruction ''Y'' ''F'' 500000],
                   feePayer = ''F'', recentBlockhash = ''blockhash'', signers = [''Y'', ''F''] \<rparr>"
  let ?failed = "\<lparr> transferSuccess = False, amountTransferred = 0,
              transferError = Some ''Transaction simulation failed'' \<rparr>"
  have h1: "0 < (500000::nat) \<and> getLatestBlockhash two_wallets_rt [''A''] = (Inr ''blockhash'', [''A''])
      \<and> sendAndConfirmTransaction two_wallets_rt
           \<lparr> instructions = [TransferInstruction (keypairPublicKey ?kp) (keypairPublicKey FEE_PAYER) 500000],
             feePayer = keypairPublicKey FEE_PAYER, recentBlockhash = ''blockhash'',
             signers = [keypairPublicKey ?kp, keypairPublicKey FEE_PAYER] \<rparr> [''A'']
          = (Inl (Error ''Transaction simulation failed''), [''A''])
      \<and> \<not> is_rate_limit (Error ''Transaction simulation failed'')"
    by (simp add: two_wallets_rt_def pipeline_rt_def FEE_PAYER_def)
  have c1: "transferSolToFeePayer two_wallets_rt (Some FEE_PAYER) ?kp 500000 [''A'']
     = (Inr ?failed, [Submit ?tx], [''A''])"
    using failed_sweep_counted_successful
      [where amount = 500000 and rt = two_wallets_rt and w = "[''A'']" and blockhash = "''blockhash''"
         and ?w1.0 = "[''A'']" and kp = ?kp and fp = FEE_PAYER
         and err = "Error ''Transaction simulation failed''" and ?w2.0 = "[''A'']",
       THEN conjunct1, THEN mp, OF h1]
    by (simp add: FEE_PAYER_def)
  have h2: "1 < length ?ws \<and> keypairFromSecret two_wallets_rt (privateKey (?ws ! 1)) = Some ''Y''
      \<and> getTokenAccounts two_wallets_rt ''Y'' [''A''] = (Inr [], [], [''A''])
      \<and> for_of (close_step two_wallets_rt FEE_PAYER (Keypair (privateKey (?ws ! 1)) ''Y'')) [] (0, 0) [''A'']
           = (Inr (0, 0), [], [''A''])
      \<and> burnAllTokens two_wallets_rt (Some FEE_PAYER) (Keypair (privateKey (?ws ! 1)) ''Y'') [''A'']
           = (Inr (0, 0), [], [''A''])
      \<and> retry (io_await (getBalance two_wallets_rt ''Y'')) [''A''] = (Inr 500000, [], [''A''])
      \<and> (0::nat) < 500000
      \<and> transferSolToFeePayer two_wallets_rt (Some FEE_PAYER) (Keypair (privateKey (?ws ! 1)) ''Y'')
           500000 [''A'']
           = (Inr ?failed, [Submit ?tx], [''A''])
      \<and> \<not> transferSuccess ?failed"
    using c1 by (simp add: two_wallets_rt_def pipeline_simps)
  have c2: "processWalletCompletely two_wallets_rt (Some FEE_PAYER) ?ws 1 [''A'']
     = (Inr \<lparr> tokenAccountsClosed = 0, rentRecovered = 0, solTransferred = 0, totalRecovered = 0 \<rparr>,
        [Submit ?tx], [''A''])"
    using failed_sweep_counted_successful
      [where i = 1 and wallets = ?ws and rt = two_wallets_rt and pub = "''Y''" and w = "[''A'']"
         and tokenAccounts = "[]" and ?e0.0 = "[]" and ?ws0.0 = "[''A'']" and fp = FEE_PAYER
         and closed = "(0, 0)" and ?e1.0 = "[]" and ?ws1.0 = "[''A'']" and burned = "(0, 0)"
         and ?e2.0 = "[]" and ?ws2.0 = "[''A'']" and bal = 500000 and ?e3.0 = "[]"
         and ?ws3.0 = "[''A'']" and transferResult = ?failed and ?e4.0 = "[Submit ?tx]"
         and ?ws4.0 = "[''A'']",
       THEN conjunct2, THEN conjunct2, THEN conjunct1, THEN mp, OF h2]
    by simp
  have run: "fst (processAllWallets two_wallets_rt (Some FEE_PAYER) (Some reporting_callback) ?ws [])
     = Inr \<lparr> totalWallets = 2, successfulCollections = 2, totalRentCollected = 2039280,
            failedCollections = 0, results = [] \<rparr>"
    by (simp add: two_wallets_rt_def pipeline_simps processAllWallets_def wallet_step_def
        wallet_failed_def io_try_def progress_def reporting_callback_def
        upt_rec [of 0] upt_rec [of 1])
  have q: "callback_quiet (Some (reporting_callback :: pubkey list callback))"
    by (simp add: callback_quiet_def reporting_callback_def)
  from failed_sweep_counted_successful
      [where rt = two_wallets_rt and fp = FEE_PAYER and progressCallback = "Some reporting_callback"
         and wallets = ?ws and w = "[]",
       THEN conjunct2, THEN conjunct2, THEN conjunct2, THEN mp, OF q]
  obtain summary evs w' where
    s: "processAllWallets two_wallets_rt (Some FEE_PAYER) (Some reporting_callback) ?ws [] = (Inr summary, evs, w')"
    and n: "successfulCollections summary
            = length (filter returned (wallet_outcomes two_wallets_rt (Some FEE_PAYER) ?ws [0..<length ?ws] []))"
       "failedCollections summary
            = length (filter isl (wallet_outcomes two_wallets_rt (Some FEE_PAYER) ?ws [0..<length ?ws] []))"
       "totalRentCollected summary
            = sum_list (map recovered_of
                (wallet_outcomes two_wallets_rt (Some FEE_PAYER) ?ws [0..<length ?ws] []))"
    by blast
  have "summary = \<lparr> totalWallets = 2, successfulCollections = 2, totalRentCollected = 2039280,
            failedCollections = 0, results = [] \<rparr>"
    using s run by simp
  then have c3: "length (filter returned (wallet_outcomes two_wallets_rt (Some FEE_PAYER) ?ws [0..<length ?ws] [])) = 2"
    and c4: "length (filter isl (wallet_outcomes two_wallets_rt (Some FEE_PAYER) ?ws [0..<length ?ws] [])) = 0"
    and c5: "sum_list (map recovered_of
                (wallet_outcomes two_wallets_rt (Some FEE_PAYER) ?ws [0..<length ?ws] [])) = 2039280"
    using n by simp_all
  show ?thesis by (intro conjI c1 c2 c3 c4 c5)
qed

end
